theory Spec2Isabelle
  imports Complex_Main "HOL-Library.Char_ord" "HOL-Library.List_Lexorder"
    "HOL-Library.Code_Target_Numeral"
begin

chapter \<open>The portfolio tool server: embedding of \<^verbatim>\<open>mcp/portfolio_mcp/server.py\<close>\<close>

text \<open>
  The server exposes ten tool handlers. Each handler receives an input that the framework
  has already validated against a declared model, issues one request to the backend
  through a shared client, and renders the decoded payload either as a JSON echo or as a
  tool-specific narrative. Every handler body sits inside one \<^verbatim>\<open>try\<close> block whose
  \<^verbatim>\<open>except Exception\<close> clause hands the exception to \<^verbatim>\<open>_handle_error\<close>.

  Modelling conventions.
  \<^item> A Python \<^verbatim>\<open>str\<close> is a \<^typ>\<open>string\<close>; a character stands for one code point below 256.
  \<^item> A Python \<^verbatim>\<open>float\<close> is a double: a finite value, given by the real number it denotes,
    the negative zero, an infinity or NaN. The result of an arithmetic operation on finite
    floats is the exact result rounded to the nearest double. A Python \<^verbatim>\<open>int\<close> is an
    \<^typ>\<open>int\<close>.
  \<^item> A raised exception is the \<open>Inl\<close> branch of a sum; the \<^verbatim>\<open>try\<close>/\<^verbatim>\<open>except\<close> of a handler is
    the case distinction on that sum.
  \<^item> Leading underscores of Python names are dropped (\<^verbatim>\<open>_fmt_usd\<close> is \<open>fmt_usd\<close>).
\<close>

section \<open>Rendering of numbers\<close>

subsection \<open>Python's fixed-point presentation \<^verbatim>\<open>format(v, ",.Nf")\<close>\<close>

definition digit_char :: "nat \<Rightarrow> char" where
  "digit_char d = ''0123456789'' ! d"

definition is_digit :: "char \<Rightarrow> bool" where
  "is_digit c = (c \<in> set ''0123456789'')"

text \<open>Decimal digits of a natural number, most significant first, as \<^verbatim>\<open>str(n)\<close> gives them.\<close>

fun str_nat :: "nat \<Rightarrow> string" where
  "str_nat n = (if n < 10 then [digit_char n] else str_nat (n div 10) @ [digit_char (n mod 10)])"

declare str_nat.simps [simp del]

definition str_int :: "int \<Rightarrow> string" where
  "str_int i = (if i < 0 then ''-'' @ str_nat (nat (- i)) else str_nat (nat i))"

text \<open>
  The \<^verbatim>\<open>f\<close> presentation rounds the exact value of the float to the requested number of
  decimals, ties going to the even neighbour.
\<close>

definition round_half_even :: "real \<Rightarrow> int" where
  "round_half_even x =
     (let f = \<lfloor>x\<rfloor>; d = x - of_int f
      in if d < 1 / 2 then f
         else if 1 / 2 < d then f + 1
         else if even f then f else f + 1)"

text \<open>The \<^verbatim>\<open>,\<close> option: a comma between groups of three digits, counted from the right.\<close>

fun group_rev :: "string \<Rightarrow> string" where
  "group_rev (a # b # c # d # ds) = a # b # c # CHR '','' # group_rev (d # ds)"
| "group_rev ds = ds"

definition group_thousands :: "string \<Rightarrow> string" where
  "group_thousands ds = rev (group_rev (rev ds))"

text \<open>
  \<open>format_f comma prec v\<close> is \<^verbatim>\<open>format(v, ",.{prec}f")\<close> when \<open>comma\<close> holds and
  \<^verbatim>\<open>format(v, ".{prec}f")\<close> otherwise: the sign of a negative value (kept even when the
  digits round to zero), the integer digits, and \<open>prec\<close> decimals padded with zeros.
\<close>

definition format_f :: "bool \<Rightarrow> nat \<Rightarrow> real \<Rightarrow> string" where
  "format_f comma prec v =
     (let n = nat (round_half_even (\<bar>v\<bar> * 10 ^ prec));
          ip = str_nat (n div 10 ^ prec);
          fp = str_nat (n mod 10 ^ prec)
      in (if v < 0 then ''-'' else '''')
         @ (if comma then group_thousands ip else ip)
         @ (if prec = 0 then '''' else ''.'' @ replicate (prec - length fp) CHR ''0'' @ fp))"

text \<open>Number of characters that follow the last decimal point of a rendered number.\<close>

definition decimals :: "string \<Rightarrow> nat" where
  "decimals s = length (takeWhile (\<lambda>c. c \<noteq> CHR ''.'') (rev s))"

subsection \<open>Floats\<close>

text \<open>
  The values of a Python \<^verbatim>\<open>float\<close>. \<open>Finite r\<close> is the double that denotes the real \<open>r\<close>, the
  positive zero when \<open>r = 0\<close>; the negative zero is a value of its own.
\<close>

datatype float = Finite real | NegZero | PosInf | NegInf | NaN

fun float_value :: "float \<Rightarrow> real option" where
  "float_value (Finite r) = Some r"
| "float_value NegZero = Some 0"
| "float_value f = None"

fun sign_bit :: "float \<Rightarrow> bool" where
  "sign_bit (Finite r) = (r < 0)"
| "sign_bit NegZero = True"
| "sign_bit NegInf = True"
| "sign_bit f = False"

definition signed_zero :: "bool \<Rightarrow> float" where
  "signed_zero negative = (if negative then NegZero else Finite 0)"

definition signed_inf :: "bool \<Rightarrow> float" where
  "signed_inf negative = (if negative then NegInf else PosInf)"

text \<open>\<^verbatim>\<open>n.bit_length()\<close>\<close>

fun bit_length :: "nat \<Rightarrow> nat" where
  "bit_length n = (if n = 0 then 0 else Suc (bit_length (n div 2)))"

declare bit_length.simps [simp del]

text \<open>The exponent \<open>e\<close> of a positive real \<open>x\<close>: \<open>2 ^ e \<le> x < 2 ^ (e + 1)\<close>.\<close>

definition binary_exponent :: "real \<Rightarrow> int" where
  "binary_exponent x =
     (if 1 \<le> x then int (bit_length (nat \<lfloor>x\<rfloor>)) - 1
      else - int (bit_length (nat (\<lceil>1 / x\<rceil> - 1))))"

definition pow2 :: "int \<Rightarrow> real" where
  "pow2 k = (if 0 \<le> k then 2 ^ nat k else 1 / 2 ^ nat (- k))"

text \<open>
  The double nearest to a real, ties going to the even significand: 53 significant bits,
  no exponent below \<open>-1022\<close>, and an infinity from \<open>2 ^ 1024\<close> on. A result that rounds to
  zero keeps the sign.
\<close>

definition round_double :: "real \<Rightarrow> float" where
  "round_double x =
     (if x = 0 then Finite 0
      else
        let q = pow2 (max (binary_exponent \<bar>x\<bar>) (- 1022) - 52);
            y = of_int (round_half_even (\<bar>x\<bar> / q)) * q
        in if pow2 1024 \<le> y then signed_inf (x < 0)
           else if y = 0 then signed_zero (x < 0)
           else Finite (if x < 0 then - y else y))"

text \<open>The operations \<^verbatim>\<open>abs(a)\<close>, \<^verbatim>\<open>a - b\<close>, \<^verbatim>\<open>a * b\<close> and \<^verbatim>\<open>a / b\<close> (for \<open>b\<close> other than a zero) on floats.\<close>

fun float_abs :: "float \<Rightarrow> float" where
  "float_abs (Finite r) = Finite \<bar>r\<bar>"
| "float_abs NegZero = Finite 0"
| "float_abs NegInf = PosInf"
| "float_abs f = f"

fun float_neg :: "float \<Rightarrow> float" where
  "float_neg (Finite r) = (if r = 0 then NegZero else Finite (- r))"
| "float_neg NegZero = Finite 0"
| "float_neg PosInf = NegInf"
| "float_neg NegInf = PosInf"
| "float_neg NaN = NaN"

definition float_sub :: "float \<Rightarrow> float \<Rightarrow> float" where
  "float_sub a b =
     (case (float_value a, float_value b) of
        (Some x, Some y) \<Rightarrow>
          if x - y = 0 then signed_zero (a = NegZero \<and> b = Finite 0) else round_double (x - y)
      | (Some x, None) \<Rightarrow> float_neg b
      | (None, Some y) \<Rightarrow> a
      | (None, None) \<Rightarrow> if a = NaN \<or> b = NaN \<or> a = b then NaN else a)"

definition float_mul :: "float \<Rightarrow> float \<Rightarrow> float" where
  "float_mul a b =
     (case (float_value a, float_value b) of
        (Some x, Some y) \<Rightarrow>
          if x * y = 0 then signed_zero (sign_bit a \<noteq> sign_bit b) else round_double (x * y)
      | _ \<Rightarrow>
          if a = NaN \<or> b = NaN \<or> float_value a = Some 0 \<or> float_value b = Some 0 then NaN
          else signed_inf (sign_bit a \<noteq> sign_bit b))"

definition float_div :: "float \<Rightarrow> float \<Rightarrow> float" where
  "float_div a b =
     (case (float_value a, float_value b) of
        (Some x, Some y) \<Rightarrow>
          if x = 0 then signed_zero (sign_bit a \<noteq> sign_bit b) else round_double (x / y)
      | (Some x, None) \<Rightarrow> if b = NaN then NaN else signed_zero (sign_bit a \<noteq> sign_bit b)
      | (None, Some y) \<Rightarrow> if a = NaN then NaN else signed_inf (sign_bit a \<noteq> sign_bit b)
      | (None, None) \<Rightarrow> NaN)"

text \<open>The comparisons \<^verbatim>\<open>a >= k\<close> and \<^verbatim>\<open>a > k\<close> of a float with an integer, which are exact.\<close>

fun float_ge :: "float \<Rightarrow> int \<Rightarrow> bool" where
  "float_ge (Finite r) k = (of_int k \<le> r)"
| "float_ge NegZero k = (k \<le> 0)"
| "float_ge PosInf k = True"
| "float_ge f k = False"

fun float_gt :: "float \<Rightarrow> int \<Rightarrow> bool" where
  "float_gt (Finite r) k = (of_int k < r)"
| "float_gt NegZero k = (k < 0)"
| "float_gt PosInf k = True"
| "float_gt f k = False"

text \<open>
  The \<^verbatim>\<open>f\<close> presentation of a float: of a finite one as above, the negative zero with its
  sign, and the three names.
\<close>

fun format_float :: "bool \<Rightarrow> nat \<Rightarrow> float \<Rightarrow> string" where
  "format_float comma prec (Finite r) = format_f comma prec r"
| "format_float comma prec NegZero = ''-'' @ format_f comma prec 0"
| "format_float comma prec PosInf = ''inf''"
| "format_float comma prec NegInf = ''-inf''"
| "format_float comma prec NaN = ''nan''"

section \<open>Decoded payloads and the Python operations applied to them\<close>

subsection \<open>Values\<close>

text \<open>
  What \<^verbatim>\<open>resp.json()\<close> returns. A \<^verbatim>\<open>dict\<close> is an association list in insertion order, whose
  keys are distinct; \<^verbatim>\<open>True\<close> and \<^verbatim>\<open>False\<close> are numbers to Python's arithmetic.
\<close>

datatype json =
    JNull
  | JBool bool
  | JInt int
  | JFloat float
  | JStr string
  | JArr "json list"
  | JObj "(string \<times> json) list"

definition quote :: "string \<Rightarrow> string" where
  "quote s = [CHR 0x27] @ s @ [CHR 0x27]"

fun type_name :: "json \<Rightarrow> string" where
  "type_name JNull = ''NoneType''"
| "type_name (JBool _) = ''bool''"
| "type_name (JInt _) = ''int''"
| "type_name (JFloat _) = ''float''"
| "type_name (JStr _) = ''str''"
| "type_name (JArr _) = ''list''"
| "type_name (JObj _) = ''dict''"

subsection \<open>Exceptions\<close>

text \<open>
  The response carried by an \<^verbatim>\<open>httpx.HTTPStatusError\<close>: \<open>response_json\<close> is what
  \<^verbatim>\<open>e.response.json()\<close> returns, \<open>None\<close> when that call raises; \<open>response_text\<close> is
  \<^verbatim>\<open>e.response.text\<close>.
\<close>

record response =
  status_code :: int
  response_json :: "json option"
  response_text :: string

text \<open>
  The instances of \<^verbatim>\<open>Exception\<close> that a handler can meet: the three classes of the
  client library that \<^verbatim>\<open>_handle_error\<close> tells apart, and any other exception, given by
  its class name and its message (\<^verbatim>\<open>type(e).__name__\<close> and \<^verbatim>\<open>str(e)\<close>).
\<close>

datatype exn =
    HTTPStatusError response
  | TimeoutException
  | ConnectError
  | PyError string string

definition KeyError :: "string \<Rightarrow> exn" where
  "KeyError k = PyError ''KeyError'' (quote k)"

definition TypeError :: "string \<Rightarrow> exn" where
  "TypeError msg = PyError ''TypeError'' msg"

definition AttributeError :: "json \<Rightarrow> string \<Rightarrow> exn" where
  "AttributeError v a =
     PyError ''AttributeError'' (quote (type_name v) @ '' object has no attribute '' @ quote a)"

definition not_subscriptable :: "json \<Rightarrow> exn" where
  "not_subscriptable v = TypeError (quote (type_name v) @ '' object is not subscriptable'')"

subsection \<open>Sequencing of computations that may raise\<close>

definition then_do :: "exn + 'a \<Rightarrow> ('a \<Rightarrow> exn + 'b) \<Rightarrow> exn + 'b" where
  "then_do m f = (case m of Inl e \<Rightarrow> Inl e | Inr a \<Rightarrow> f a)"

text \<open>Evaluation from left to right; the first exception ends it.\<close>

fun sequence :: "(exn + 'a) list \<Rightarrow> exn + 'a list" where
  "sequence [] = Inr []"
| "sequence (m # ms) =
     (case m of Inl e \<Rightarrow> Inl e
      | Inr a \<Rightarrow> (case sequence ms of Inl e \<Rightarrow> Inl e | Inr as \<Rightarrow> Inr (a # as)))"

text \<open>An f-string: its pieces are evaluated in order and concatenated.\<close>

definition fstring :: "(exn + string) list \<Rightarrow> exn + string" where
  "fstring parts = then_do (sequence parts) (\<lambda>ss. Inr (concat ss))"

text \<open>\<^verbatim>\<open>sep.join(lines)\<close>\<close>

fun str_join :: "string \<Rightarrow> string list \<Rightarrow> string" where
  "str_join sep [] = []"
| "str_join sep [s] = s"
| "str_join sep (s # t # ss) = s @ sep @ str_join sep (t # ss)"

subsection \<open>The ambient constants\<close>

text \<open>
  \<open>API_BASE_URL\<close> is read from the process environment when the module is loaded.
  \<open>repr\<close> stands for Python's \<^verbatim>\<open>repr\<close> on a float, a list or a dict, which \<^verbatim>\<open>str\<close> and
  the JSON encoder call; it is a parameter of the model.
\<close>

record runtime =
  API_BASE_URL :: string
  repr :: "json \<Rightarrow> string"

subsection \<open>Built-in operations\<close>

text \<open>\<^verbatim>\<open>bool(v)\<close>\<close>

fun truthy :: "json \<Rightarrow> bool" where
  "truthy JNull = False"
| "truthy (JBool b) = b"
| "truthy (JInt i) = (i \<noteq> 0)"
| "truthy (JFloat f) = (float_value f \<noteq> Some 0)"
| "truthy (JStr s) = (s \<noteq> [])"
| "truthy (JArr xs) = (xs \<noteq> [])"
| "truthy (JObj kvs) = (kvs \<noteq> [])"

text \<open>\<^verbatim>\<open>str(v)\<close>, which is also what an f-string field without format spec renders.\<close>

fun py_str :: "runtime \<Rightarrow> json \<Rightarrow> string" where
  "py_str rt (JStr s) = s"
| "py_str rt JNull = ''None''"
| "py_str rt (JBool b) = (if b then ''True'' else ''False'')"
| "py_str rt (JInt i) = str_int i"
| "py_str rt v = repr rt v"

text \<open>\<^verbatim>\<open>d.get(key, default)\<close>\<close>

fun dict_get :: "json \<Rightarrow> string \<Rightarrow> json \<Rightarrow> exn + json" where
  "dict_get (JObj kvs) k d = Inr (case map_of kvs k of Some v \<Rightarrow> v | None \<Rightarrow> d)"
| "dict_get v k d = Inl (AttributeError v ''get'')"

text \<open>\<^verbatim>\<open>d[key]\<close> with a string key\<close>

fun getitem :: "json \<Rightarrow> string \<Rightarrow> exn + json" where
  "getitem (JObj kvs) k = (case map_of kvs k of Some v \<Rightarrow> Inr v | None \<Rightarrow> Inl (KeyError k))"
| "getitem (JArr xs) k = Inl (TypeError ''list indices must be integers or slices, not str'')"
| "getitem (JStr s) k = Inl (TypeError (''string indices must be integers, not '' @ quote ''str''))"
| "getitem v k = Inl (not_subscriptable v)"

text \<open>\<^verbatim>\<open>v[i]\<close> with an integer index; a negative index counts from the end.\<close>

fun py_index :: "json \<Rightarrow> int \<Rightarrow> exn + json" where
  "py_index (JArr xs) i =
     (if 0 \<le> i \<and> i < int (length xs) then Inr (xs ! nat i)
      else if i < 0 \<and> - int (length xs) \<le> i then Inr (xs ! nat (int (length xs) + i))
      else Inl (PyError ''IndexError'' ''list index out of range''))"
| "py_index (JStr s) i =
     (if 0 \<le> i \<and> i < int (length s) then Inr (JStr [s ! nat i])
      else if i < 0 \<and> - int (length s) \<le> i then Inr (JStr [s ! nat (int (length s) + i)])
      else Inl (PyError ''IndexError'' ''string index out of range''))"
| "py_index (JObj kvs) i = Inl (PyError ''KeyError'' (str_int i))"
| "py_index v i = Inl (not_subscriptable v)"

text \<open>\<^verbatim>\<open>v[:n]\<close> and \<^verbatim>\<open>v[-n:]\<close>\<close>

fun slice_to :: "nat \<Rightarrow> json \<Rightarrow> exn + json" where
  "slice_to n (JArr xs) = Inr (JArr (take n xs))"
| "slice_to n (JStr s) = Inr (JStr (take n s))"
| "slice_to n (JObj kvs) = Inl (TypeError (''unhashable type: '' @ quote ''slice''))"
| "slice_to n v = Inl (not_subscriptable v)"

fun slice_last :: "nat \<Rightarrow> json \<Rightarrow> exn + json" where
  "slice_last n (JArr xs) = Inr (JArr (drop (length xs - n) xs))"
| "slice_last n (JStr s) = Inr (JStr (drop (length s - n) s))"
| "slice_last n (JObj kvs) = Inl (TypeError (''unhashable type: '' @ quote ''slice''))"
| "slice_last n v = Inl (not_subscriptable v)"

text \<open>\<^verbatim>\<open>len(v)\<close>\<close>

fun py_len :: "json \<Rightarrow> exn + nat" where
  "py_len (JArr xs) = Inr (length xs)"
| "py_len (JStr s) = Inr (length s)"
| "py_len (JObj kvs) = Inr (length kvs)"
| "py_len v = Inl (TypeError (''object of type '' @ quote (type_name v) @ '' has no len()''))"

text \<open>The elements that \<^verbatim>\<open>for x in v\<close> visits.\<close>

fun py_iter :: "json \<Rightarrow> exn + json list" where
  "py_iter (JArr xs) = Inr xs"
| "py_iter (JStr s) = Inr (map (\<lambda>c. JStr [c]) s)"
| "py_iter (JObj kvs) = Inr (map (\<lambda>kv. JStr (fst kv)) kvs)"
| "py_iter v = Inl (TypeError (quote (type_name v) @ '' object is not iterable''))"

text \<open>\<^verbatim>\<open>sorted(d.items())\<close>: the pairs in ascending order of the keys.\<close>

fun sorted_items :: "json \<Rightarrow> exn + (string \<times> json) list" where
  "sorted_items (JObj kvs) = Inr (sort_key fst kvs)"
| "sorted_items v = Inl (AttributeError v ''items'')"

text \<open>The comparisons \<^verbatim>\<open>v >= k\<close> and \<^verbatim>\<open>v > k\<close> with an integer constant\<close>

definition not_comparable :: "string \<Rightarrow> json \<Rightarrow> exn" where
  "not_comparable opr v =
     TypeError (quote opr @ '' not supported between instances of '' @ quote (type_name v)
       @ '' and '' @ quote ''int'')"

fun as_integer :: "json \<Rightarrow> int option" where
  "as_integer (JInt i) = Some i"
| "as_integer (JBool b) = Some (if b then 1 else 0)"
| "as_integer _ = None"

definition py_ge :: "json \<Rightarrow> int \<Rightarrow> exn + bool" where
  "py_ge v k =
     (case as_integer v of
        Some i \<Rightarrow> Inr (k \<le> i)
      | None \<Rightarrow> (case v of JFloat f \<Rightarrow> Inr (float_ge f k) | _ \<Rightarrow> Inl (not_comparable ''>='' v)))"

definition py_gt :: "json \<Rightarrow> int \<Rightarrow> exn + bool" where
  "py_gt v k =
     (case as_integer v of
        Some i \<Rightarrow> Inr (k < i)
      | None \<Rightarrow> (case v of JFloat f \<Rightarrow> Inr (float_gt f k) | _ \<Rightarrow> Inl (not_comparable ''>'' v)))"

text \<open>\<^verbatim>\<open>abs(v)\<close>\<close>

definition bad_abs :: "json \<Rightarrow> exn" where
  "bad_abs v = TypeError (''bad operand type for abs(): '' @ quote (type_name v))"

definition py_abs :: "json \<Rightarrow> exn + json" where
  "py_abs v =
     (case as_integer v of
        Some i \<Rightarrow> Inr (JInt \<bar>i\<bar>)
      | None \<Rightarrow> (case v of JFloat f \<Rightarrow> Inr (JFloat (float_abs f)) | _ \<Rightarrow> Inl (bad_abs v)))"

text \<open>
  The conversion of an integer to a float, which arithmetic with a float operand and the
  \<^verbatim>\<open>f\<close> presentation apply: the nearest double, and an exception beyond the doubles.
\<close>

definition OverflowError :: "string \<Rightarrow> exn" where
  "OverflowError msg = PyError ''OverflowError'' msg"

definition int_to_float :: "int \<Rightarrow> exn + float" where
  "int_to_float i =
     (case round_double (of_int i) of
        PosInf \<Rightarrow> Inl (OverflowError ''int too large to convert to float'')
      | NegInf \<Rightarrow> Inl (OverflowError ''int too large to convert to float'')
      | f \<Rightarrow> Inr f)"

text \<open>A number as a float; \<open>None\<close> for a value that is not a number.\<close>

definition as_float :: "json \<Rightarrow> (exn + float) option" where
  "as_float v =
     (case as_integer v of
        Some i \<Rightarrow> Some (int_to_float i)
      | None \<Rightarrow> (case v of JFloat f \<Rightarrow> Some (Inr f) | _ \<Rightarrow> None))"

text \<open>
  The arithmetic \<^verbatim>\<open>a - b\<close> and \<^verbatim>\<open>a / b\<close>. The difference of two integers is an integer; with a
  float operand the other one is converted. A true division gives a float, correctly
  rounded also for two integers, and raises on a zero divisor.
\<close>

definition unsupported_operand :: "string \<Rightarrow> json \<Rightarrow> json \<Rightarrow> exn" where
  "unsupported_operand opr a b =
     TypeError (''unsupported operand type(s) for '' @ opr @ '': '' @ quote (type_name a)
       @ '' and '' @ quote (type_name b))"

definition float_operands :: "string \<Rightarrow> json \<Rightarrow> json \<Rightarrow> exn + float \<times> float" where
  "float_operands opr a b =
     (case (as_float a, as_float b) of
        (Some x, Some y) \<Rightarrow> then_do x (\<lambda>x'. then_do y (\<lambda>y'. Inr (x', y')))
      | _ \<Rightarrow> Inl (unsupported_operand opr a b))"

definition py_sub :: "json \<Rightarrow> json \<Rightarrow> exn + json" where
  "py_sub a b =
     (case (as_integer a, as_integer b) of
        (Some i, Some j) \<Rightarrow> Inr (JInt (i - j))
      | _ \<Rightarrow> then_do (float_operands ''-'' a b) (\<lambda>p. Inr (JFloat (float_sub (fst p) (snd p)))))"

definition ZeroDivisionError :: "string \<Rightarrow> exn" where
  "ZeroDivisionError msg = PyError ''ZeroDivisionError'' msg"

definition py_truediv :: "json \<Rightarrow> json \<Rightarrow> exn + float" where
  "py_truediv a b =
     (case (as_integer a, as_integer b) of
        (Some i, Some j) \<Rightarrow>
          if j = 0 then Inl (ZeroDivisionError ''division by zero'')
          else if i = 0 then Inr (signed_zero (j < 0))
          else (case round_double (of_int i / of_int j) of
                  PosInf \<Rightarrow> Inl (OverflowError ''integer division result too large for a float'')
                | NegInf \<Rightarrow> Inl (OverflowError ''integer division result too large for a float'')
                | f \<Rightarrow> Inr f)
      | _ \<Rightarrow> then_do (float_operands ''/'' a b) (\<lambda>p.
               if float_value (snd p) = Some 0
               then Inl (ZeroDivisionError ''float division by zero'')
               else Inr (float_div (fst p) (snd p))))"

text \<open>An f-string field with the spec \<^verbatim>\<open>,.Nf\<close> or \<^verbatim>\<open>.Nf\<close>; an integer is converted to a float.\<close>

definition py_format_f :: "bool \<Rightarrow> nat \<Rightarrow> json \<Rightarrow> exn + string" where
  "py_format_f comma prec v =
     (case as_float v of
        Some m \<Rightarrow> then_do m (\<lambda>f. Inr (format_float comma prec f))
      | None \<Rightarrow>
          (case v of
             JStr s \<Rightarrow> Inl (PyError ''ValueError'' (''Unknown format code '' @ quote ''f''
                               @ '' for object of type '' @ quote ''str''))
           | _ \<Rightarrow> Inl (TypeError (''unsupported format string passed to '' @ type_name v
                               @ ''.__format__''))))"

definition str_of :: "runtime \<Rightarrow> exn + json \<Rightarrow> exn + string" where
  "str_of rt m = then_do m (\<lambda>v. Inr (py_str rt v))"

subsection \<open>The three formatters\<close>

definition fmt_usd :: "json \<Rightarrow> exn + string" where
  "fmt_usd v =
     then_do (then_do (py_abs v) (\<lambda>a. py_ge a 1)) (\<lambda>large.
     if large then fstring [Inr ''$'', py_format_f True 2 v]
     else fstring [Inr ''$'', py_format_f False 6 v])"

definition fmt_pct :: "json \<Rightarrow> exn + string" where
  "fmt_pct v =
     then_do (py_ge v 0) (\<lambda>nonneg.
     let sign = (if nonneg then ''+'' else '''')
     in fstring [Inr sign, py_format_f False 2 v, Inr ''%''])"

definition fmt_qty :: "json \<Rightarrow> exn + string" where
  "fmt_qty v =
     then_do (then_do (py_abs v) (\<lambda>a. py_ge a 100)) (\<lambda>large.
     if large then py_format_f True 2 v
     else
     then_do (then_do (py_abs v) (\<lambda>a. py_ge a 1)) (\<lambda>middle.
     if middle then py_format_f True 4 v
     else py_format_f False 8 v))"

subsection \<open>\<^verbatim>\<open>json.dumps(data, indent=2)\<close>\<close>

definition newline :: string where
  "newline = [CHR 0x0A]"

definition hex_digit :: "nat \<Rightarrow> char" where
  "hex_digit d = ''0123456789abcdef'' ! d"

text \<open>
  The encoder escapes the quotation mark, the backslash and every character outside the
  printable ASCII range (\<^verbatim>\<open>ensure_ascii\<close> is on by default).
\<close>

definition escape_char :: "char \<Rightarrow> string" where
  "escape_char c =
     (if c = CHR 0x22 then [CHR 0x5C, CHR 0x22]
      else if c = CHR 0x5C then [CHR 0x5C, CHR 0x5C]
      else if c = CHR 0x0A then [CHR 0x5C, CHR ''n'']
      else if c = CHR 0x0D then [CHR 0x5C, CHR ''r'']
      else if c = CHR 0x09 then [CHR 0x5C, CHR ''t'']
      else if c = CHR 0x08 then [CHR 0x5C, CHR ''b'']
      else if c = CHR 0x0C then [CHR 0x5C, CHR ''f'']
      else if (of_char c :: nat) < 32 \<or> 126 < (of_char c :: nat)
        then [CHR 0x5C, CHR ''u'', CHR ''0'', CHR ''0'',
              hex_digit (of_char c div 16), hex_digit (of_char c mod 16)]
      else [c])"

definition encode_basestring_ascii :: "string \<Rightarrow> string" where
  "encode_basestring_ascii s = [CHR 0x22] @ concat (map escape_char s) @ [CHR 0x22]"

definition newline_indent :: "nat \<Rightarrow> string" where
  "newline_indent level = newline @ replicate (2 * level) CHR '' ''"

fun json_encode :: "runtime \<Rightarrow> nat \<Rightarrow> json \<Rightarrow> string" where
  "json_encode rt level JNull = ''null''"
| "json_encode rt level (JBool b) = (if b then ''true'' else ''false'')"
| "json_encode rt level (JInt i) = str_int i"
| "json_encode rt level (JFloat f) =
     (case f of
        NaN \<Rightarrow> ''NaN''
      | PosInf \<Rightarrow> ''Infinity''
      | NegInf \<Rightarrow> ''-Infinity''
      | _ \<Rightarrow> repr rt (JFloat f))"
| "json_encode rt level (JStr s) = encode_basestring_ascii s"
| "json_encode rt level (JArr xs) =
     (if xs = [] then ''[]''
      else ''['' @ newline_indent (level + 1)
           @ str_join ('','' @ newline_indent (level + 1)) (map (json_encode rt (level + 1)) xs)
           @ newline_indent level @ '']'')"
| "json_encode rt level (JObj kvs) =
     (if kvs = [] then ''{}''
      else ''{'' @ newline_indent (level + 1)
           @ str_join ('','' @ newline_indent (level + 1))
               (map (\<lambda>kv. encode_basestring_ascii (fst kv) @ '': ''
                            @ json_encode rt (level + 1) (snd kv)) kvs)
           @ newline_indent level @ ''}'')"

definition json_dumps :: "runtime \<Rightarrow> json \<Rightarrow> string" where
  "json_dumps rt data = json_encode rt 0 data"

section \<open>The gateway\<close>

datatype http_method = GET | POST | PUT | DELETE

record request =
  verb :: http_method
  path :: string
  query :: "(string \<times> json) list"
  json_body :: "json option"

text \<open>
  The shared client together with the backend behind it: a request either yields the
  decoded body of a successful response, or raises (\<^verbatim>\<open>raise_for_status\<close> on a status that
  is not a success, a timeout, a refused connection, a body that does not decode).
\<close>

type_synonym gateway = "request \<Rightarrow> exn + json"

definition api_get :: "gateway \<Rightarrow> string \<Rightarrow> (string \<times> json) list \<Rightarrow> exn + json" where
  "api_get ctx p q = ctx \<lparr>verb = GET, path = p, query = q, json_body = None\<rparr>"

definition api_post :: "gateway \<Rightarrow> string \<Rightarrow> json option \<Rightarrow> (string \<times> json) list \<Rightarrow> exn + json" where
  "api_post ctx p b q = ctx \<lparr>verb = POST, path = p, query = q, json_body = b\<rparr>"

definition api_put :: "gateway \<Rightarrow> string \<Rightarrow> json \<Rightarrow> exn + json" where
  "api_put ctx p b = ctx \<lparr>verb = PUT, path = p, query = [], json_body = Some b\<rparr>"

definition api_delete :: "gateway \<Rightarrow> string \<Rightarrow> (string \<times> json) list \<Rightarrow> exn + json" where
  "api_delete ctx p q = ctx \<lparr>verb = DELETE, path = p, query = q, json_body = None\<rparr>"

section \<open>The error classifier\<close>

definition handle_error :: "runtime \<Rightarrow> exn \<Rightarrow> string" where
  "handle_error rt e =
     (case e of
        HTTPStatusError r \<Rightarrow>
          (let status = status_code r;
               detail = (case response_json r of
                           Some (JObj kvs) \<Rightarrow>
                             py_str rt (case map_of kvs ''error'' of Some v \<Rightarrow> v | None \<Rightarrow> JStr '''')
                         | _ \<Rightarrow> take 200 (response_text r))
           in ''Error: '' @
              (if status = 401
                 then ''Authentication failed. Check your PORTFOLIO_API_KEY. Detail: '' @ detail
               else if status = 403 then ''Permission denied. '' @ detail
               else if status = 404 then ''Not found. '' @ detail
               else if status = 429 then ''Rate limit exceeded. Wait a moment and retry.''
               else ''API returned status '' @ str_int status @ ''. '' @ detail))
      | TimeoutException \<Rightarrow> ''Error: Request timed out. Is your Portfolio Tracker running?''
      | ConnectError \<Rightarrow>
          ''Error: Cannot connect to '' @ API_BASE_URL rt
            @ ''. Make sure your Portfolio Tracker Web is running.''
      | PyError name msg \<Rightarrow> ''Error: '' @ name @ '': '' @ msg)"

text \<open>\<^verbatim>\<open>try: ... except Exception as e: return _handle_error(e)\<close>\<close>

definition try_except :: "runtime \<Rightarrow> exn + string \<Rightarrow> string" where
  "try_except rt body = (case body of Inr s \<Rightarrow> s | Inl e \<Rightarrow> handle_error rt e)"

section \<open>Enumerations and input models\<close>

datatype ResponseFormat = MARKDOWN | JSON

datatype TaxStrategy = FIFO | LIFO | HIFO | LOFO

datatype TransactionType = DEPOSIT | WITHDRAWAL | SWAP

text \<open>The \<^verbatim>\<open>.value\<close> of a member of a string enumeration.\<close>

fun TaxStrategy_value :: "TaxStrategy \<Rightarrow> string" where
  "TaxStrategy_value FIFO = ''FIFO''"
| "TaxStrategy_value LIFO = ''LIFO''"
| "TaxStrategy_value HIFO = ''HIFO''"
| "TaxStrategy_value LOFO = ''LOFO''"

fun TransactionType_value :: "TransactionType \<Rightarrow> string" where
  "TransactionType_value DEPOSIT = ''Deposit''"
| "TransactionType_value WITHDRAWAL = ''Withdrawal''"
| "TransactionType_value SWAP = ''Swap''"

text \<open>The validated inputs, as the handlers receive them.\<close>

record GetHoldingsInput =
  portfolio_id :: int
  response_format :: ResponseFormat

record GetHistoryInput =
  portfolio_id :: int
  days :: int
  response_format :: ResponseFormat

record ListTransactionsInput =
  portfolio_id :: "int option"
  response_format :: ResponseFormat

record AddTransactionInput =
  portfolio_id :: int
  type :: TransactionType
  datetime :: string
  to_asset :: string
  to_quantity :: real
  to_price_usd :: "real option"
  from_asset :: "string option"
  from_quantity :: "real option"
  from_price_usd :: "real option"
  fees_usd :: "real option"
  tx_notes :: "string option"

record DeleteTransactionInput =
  transaction_id :: int

record GetCashflowInput =
  portfolio_id :: int
  response_format :: ResponseFormat

record GetTaxReportInput =
  year :: int
  portfolio_id :: "int option"
  asset_strategy :: TaxStrategy
  cash_strategy :: TaxStrategy
  response_format :: ResponseFormat

record GetPricesInput =
  symbols :: string

record GetPriceHistoryInput =
  symbols :: string
  start_timestamp :: int
  end_timestamp :: int

record ListPortfoliosInput =
  response_format :: ResponseFormat

section \<open>The tool handlers\<close>

text \<open>
  Each handler \<open>h\<close> comes as the body of its \<^verbatim>\<open>try\<close> block, \<open>h_try\<close>, which either returns
  the output string or raises, and the handler itself, which passes an exception to the
  error classifier.
\<close>

subsection \<open>Holdings and summary\<close>

definition holding_lines :: "runtime \<Rightarrow> json \<Rightarrow> exn + string list" where
  "holding_lines rt h =
     then_do (dict_get h ''pnl'' (JInt 0)) (\<lambda>pnl.
     then_do (py_ge pnl 0) (\<lambda>nonneg.
     let pnl_emoji = (if nonneg then ''+'' else '''') in
     sequence
       [fstring [Inr ''### '', str_of rt (getitem h ''asset'')],
        fstring [Inr ''- Quantity: '', then_do (getitem h ''quantity'') fmt_qty],
        fstring [Inr ''- Price: '', then_do (getitem h ''currentPrice'') fmt_usd],
        fstring [Inr ''- Value: '', then_do (getitem h ''currentValue'') fmt_usd],
        fstring [Inr ''- Cost Basis: '', then_do (getitem h ''costBasis'') fmt_usd],
        fstring [Inr ''- P&L: '', Inr pnl_emoji, then_do (getitem h ''pnl'') fmt_usd,
                 Inr '' ('', then_do (getitem h ''pnlPercent'') fmt_pct, Inr '')''],
        fstring [Inr ''- 7d Change: '',
                 then_do (dict_get h ''change7dPercent'' (JInt 0)) fmt_pct],
        Inr '''']))"

definition allocation_line :: "runtime \<Rightarrow> json \<Rightarrow> exn + string" where
  "allocation_line rt a =
     fstring [Inr ''- **'', str_of rt (getitem a ''asset''), Inr ''**: '',
              then_do (getitem a ''percentage'') (py_format_f False 1), Inr ''% ('',
              then_do (getitem a ''value'') fmt_usd, Inr '')'']"

definition portfolio_get_holdings_try ::
  "runtime \<Rightarrow> gateway \<Rightarrow> GetHoldingsInput \<Rightarrow> exn + string" where
  "portfolio_get_holdings_try rt ctx params =
     then_do (api_get ctx ''/api/ticker/portfolio''
                [(''portfolioId'', JInt (GetHoldingsInput.portfolio_id params))]) (\<lambda>data.
     if GetHoldingsInput.response_format params = JSON then Inr (json_dumps rt data)
     else
     then_do (dict_get data ''summary'' (JObj [])) (\<lambda>summary.
     then_do (dict_get data ''holdings'' (JArr [])) (\<lambda>holdings.
     if \<not> truthy holdings then Inr ''Portfolio is empty - no holdings found.''
     else
     then_do (sequence
       [Inr ''# Portfolio Summary'',
        Inr '''',
        fstring [Inr ''**Total Value:** '',
                 then_do (dict_get summary ''totalValue'' (JInt 0)) fmt_usd],
        fstring [Inr ''**Total Cost:** '',
                 then_do (dict_get summary ''totalCost'' (JInt 0)) fmt_usd],
        fstring [Inr ''**Total P&L:** '',
                 then_do (dict_get summary ''totalPnl'' (JInt 0)) fmt_usd, Inr '' ('',
                 then_do (dict_get summary ''totalPnlPercent'' (JInt 0)) fmt_pct, Inr '')''],
        fstring [Inr ''**7d Change:** '',
                 then_do (dict_get summary ''totalChange7d'' (JInt 0)) fmt_usd, Inr '' ('',
                 then_do (dict_get summary ''totalChange7dPercent'' (JInt 0)) fmt_pct,
                 Inr '')''],
        fstring [Inr ''**BTC Price:** '',
                 then_do (dict_get summary ''btcPrice'' (JInt 0)) fmt_usd],
        Inr '''',
        Inr ''## Holdings'',
        Inr '''']) (\<lambda>head.
     then_do (py_iter holdings) (\<lambda>hs.
     then_do (sequence (map (holding_lines rt) hs)) (\<lambda>blocks.
     then_do (dict_get data ''allocation'' (JArr [])) (\<lambda>allocation.
     then_do (if truthy allocation
              then then_do (py_iter allocation) (\<lambda>as.
                   then_do (sequence (map (allocation_line rt) as)) (\<lambda>ls.
                   Inr ([''## Allocation'', ''''] @ ls @ [''''])))
              else Inr []) (\<lambda>alloc.
     Inr (str_join newline (head @ concat blocks @ alloc))))))))))"

definition portfolio_get_holdings :: "runtime \<Rightarrow> gateway \<Rightarrow> GetHoldingsInput \<Rightarrow> string" where
  "portfolio_get_holdings rt ctx params = try_except rt (portfolio_get_holdings_try rt ctx params)"

subsection \<open>Value history\<close>

definition history_entry_line :: "runtime \<Rightarrow> json \<Rightarrow> exn + string" where
  "history_entry_line rt entry =
     fstring [Inr ''- '', str_of rt (getitem entry ''date''), Inr '': '',
              then_do (getitem entry ''totalValue'') fmt_usd]"

definition history_lines :: "runtime \<Rightarrow> int \<Rightarrow> json \<Rightarrow> exn + string list" where
  "history_lines rt ndays history =
     then_do (then_do (py_index history 0) (\<lambda>e. getitem e ''totalValue'')) (\<lambda>first_val.
     then_do (then_do (py_index history (- 1)) (\<lambda>e. getitem e ''totalValue'')) (\<lambda>last_val.
     then_do (py_sub last_val first_val) (\<lambda>change.
     then_do (py_gt first_val 0) (\<lambda>positive.
     then_do (if positive
              then then_do (py_truediv change first_val) (\<lambda>q.
                   Inr (JFloat (float_mul q (Finite 100))))
              else Inr (JInt 0)) (\<lambda>change_pct.
     then_do (sequence
       [fstring [Inr ''**Period:** '',
                 str_of rt (then_do (py_index history 0) (\<lambda>e. getitem e ''date'')),
                 Inr '' to '',
                 str_of rt (then_do (py_index history (- 1)) (\<lambda>e. getitem e ''date''))],
        fstring [Inr ''**Start:** '', fmt_usd first_val, Inr '' | **End:** '',
                 fmt_usd last_val],
        fstring [Inr ''**Change:** '', fmt_usd change, Inr '' ('', fmt_pct change_pct,
                 Inr '')''],
        Inr '''']) (\<lambda>head.
     then_do (py_iter history) (\<lambda>entries.
     then_do (sequence (map (history_entry_line rt) entries)) (\<lambda>body.
     Inr ([''# Portfolio Value History ('' @ str_int ndays @ '' days)'', ''''] @ head @ body)))))))))"

definition portfolio_get_history_try ::
  "runtime \<Rightarrow> gateway \<Rightarrow> GetHistoryInput \<Rightarrow> exn + string" where
  "portfolio_get_history_try rt ctx params =
     then_do (api_get ctx ''/api/ticker/portfolio/history''
                [(''portfolioId'', JInt (GetHistoryInput.portfolio_id params)),
                 (''days'', JInt (days params))]) (\<lambda>data.
     if GetHistoryInput.response_format params = JSON then Inr (json_dumps rt data)
     else
     then_do (dict_get data ''history'' (JArr [])) (\<lambda>history.
     if \<not> truthy history then Inr ''No portfolio history available for this period.''
     else
     then_do (history_lines rt (days params) history) (\<lambda>lines.
     Inr (str_join newline lines))))"

definition portfolio_get_history :: "runtime \<Rightarrow> gateway \<Rightarrow> GetHistoryInput \<Rightarrow> string" where
  "portfolio_get_history rt ctx params = try_except rt (portfolio_get_history_try rt ctx params)"

subsection \<open>Portfolio list\<close>

definition portfolio_line :: "runtime \<Rightarrow> json \<Rightarrow> exn + string" where
  "portfolio_line rt p =
     fstring [Inr ''- **'', str_of rt (getitem p ''name''), Inr ''** (ID: '',
              str_of rt (getitem p ''id''), Inr '') - created '',
              str_of rt (dict_get p ''createdAt'' (JStr ''N/A''))]"

definition portfolio_list_portfolios_try ::
  "runtime \<Rightarrow> gateway \<Rightarrow> ListPortfoliosInput \<Rightarrow> exn + string" where
  "portfolio_list_portfolios_try rt ctx params =
     then_do (api_get ctx ''/api/portfolios'' []) (\<lambda>data.
     if ListPortfoliosInput.response_format params = JSON then Inr (json_dumps rt data)
     else if \<not> truthy data then Inr ''No portfolios found.''
     else
     then_do (py_iter data) (\<lambda>ps.
     then_do (sequence (map (portfolio_line rt) ps)) (\<lambda>body.
     Inr (str_join newline ([''# Your Portfolios'', ''''] @ body)))))"

definition portfolio_list_portfolios ::
  "runtime \<Rightarrow> gateway \<Rightarrow> ListPortfoliosInput \<Rightarrow> string" where
  "portfolio_list_portfolios rt ctx params =
     try_except rt (portfolio_list_portfolios_try rt ctx params)"

subsection \<open>Transactions\<close>

text \<open>The kind-specific description of one transaction.\<close>

definition tx_desc :: "runtime \<Rightarrow> json \<Rightarrow> json \<Rightarrow> exn + string" where
  "tx_desc rt tx tx_type =
     (if tx_type = JStr ''Swap'' then
        then_do (dict_get tx ''fromAsset'' (JStr ''?'')) (\<lambda>from_asset.
        then_do (then_do (dict_get tx ''fromQuantity'' (JInt 0)) fmt_qty) (\<lambda>from_qty.
        then_do (dict_get tx ''toAsset'' (JStr ''?'')) (\<lambda>to_asset.
        then_do (then_do (dict_get tx ''toQuantity'' (JInt 0)) fmt_qty) (\<lambda>to_qty.
        Inr (''Swap '' @ from_qty @ '' '' @ py_str rt from_asset @ '' -> '' @ to_qty @ '' ''
             @ py_str rt to_asset)))))
      else if tx_type = JStr ''Deposit'' then
        then_do (fstring [Inr ''Deposit '',
                          then_do (dict_get tx ''toQuantity'' (JInt 0)) fmt_qty, Inr '' '',
                          str_of rt (dict_get tx ''toAsset'' (JStr ''?''))]) (\<lambda>desc.
        then_do (dict_get tx ''toPriceUsd'' JNull) (\<lambda>price.
        if truthy price
        then then_do (then_do (getitem tx ''toPriceUsd'') fmt_usd) (\<lambda>p.
             Inr (desc @ '' @ '' @ p))
        else Inr desc))
      else
        fstring [Inr ''Withdraw '',
                 then_do (dict_get tx ''toQuantity'' (JInt 0)) fmt_qty, Inr '' '',
                 str_of rt (dict_get tx ''toAsset'' (JStr ''?''))])"

definition tx_line :: "runtime \<Rightarrow> json \<Rightarrow> exn + string" where
  "tx_line rt tx =
     then_do (then_do (dict_get tx ''datetime'' (JStr '''')) (slice_to 10)) (\<lambda>dt.
     then_do (dict_get tx ''type'' (JStr ''?'')) (\<lambda>tx_type.
     then_do (tx_desc rt tx tx_type) (\<lambda>desc.
     then_do (then_do (dict_get tx ''feesUsd'' JNull) (\<lambda>f.
                if truthy f
                then fstring [Inr '' (fees: '', then_do (getitem tx ''feesUsd'') fmt_usd,
                              Inr '')'']
                else Inr '''')) (\<lambda>fees.
     then_do (then_do (dict_get tx ''notes'' JNull) (\<lambda>n.
                if truthy n then fstring [Inr '' - '', str_of rt (getitem tx ''notes'')]
                else Inr '''')) (\<lambda>notes.
     fstring [Inr ''- **'', Inr (py_str rt dt), Inr ''** ['', Inr (py_str rt tx_type),
              Inr ''] '', Inr desc, Inr fees, Inr notes, Inr '' (ID: '',
              str_of rt (getitem tx ''id''), Inr '')''])))))"

definition transactions_notice :: "nat \<Rightarrow> string" where
  "transactions_notice n =
     newline @ ''_Showing last 50 of '' @ str_nat n
       @ '' transactions. Use JSON format for all._''"

text \<open>The list \<^verbatim>\<open>lines\<close> that the narrative branch joins, for a payload that is not empty.\<close>

definition transactions_lines :: "runtime \<Rightarrow> json \<Rightarrow> exn + string list" where
  "transactions_lines rt data =
     then_do (py_len data) (\<lambda>n.
     then_do (slice_last 50 data) (\<lambda>recent.
     then_do (py_iter recent) (\<lambda>txs.
     then_do (sequence (map (tx_line rt) txs)) (\<lambda>body.
     Inr ([''# Transactions ('' @ str_nat n @ '' total)'', ''''] @ body
          @ (if n > 50 then [transactions_notice n] else []))))))"

definition portfolio_list_transactions_try ::
  "runtime \<Rightarrow> gateway \<Rightarrow> ListTransactionsInput \<Rightarrow> exn + string" where
  "portfolio_list_transactions_try rt ctx params =
     (let query_params =
            (case ListTransactionsInput.portfolio_id params of
               None \<Rightarrow> []
             | Some i \<Rightarrow> [(''portfolioId'', JInt i)])
      in
      then_do (api_get ctx ''/api/transactions'' query_params) (\<lambda>data.
      if ListTransactionsInput.response_format params = JSON then Inr (json_dumps rt data)
      else if \<not> truthy data then Inr ''No transactions found.''
      else
      then_do (transactions_lines rt data) (\<lambda>lines.
      Inr (str_join newline lines))))"

definition portfolio_list_transactions ::
  "runtime \<Rightarrow> gateway \<Rightarrow> ListTransactionsInput \<Rightarrow> string" where
  "portfolio_list_transactions rt ctx params =
     try_except rt (portfolio_list_transactions_try rt ctx params)"

text \<open>\<^verbatim>\<open>x is not None\<close> guards an entry of the request body.\<close>

definition optional_entry :: "string \<Rightarrow> ('a \<Rightarrow> json) \<Rightarrow> 'a option \<Rightarrow> (string \<times> json) list" where
  "optional_entry k f x = (case x of None \<Rightarrow> [] | Some v \<Rightarrow> [(k, f v)])"

definition portfolio_add_transaction_try ::
  "runtime \<Rightarrow> gateway \<Rightarrow> AddTransactionInput \<Rightarrow> exn + string" where
  "portfolio_add_transaction_try rt ctx params =
     (let body =
            [(''portfolioId'', JInt (AddTransactionInput.portfolio_id params)),
             (''type'', JStr (TransactionType_value (type params))),
             (''datetime'', JStr (datetime params)),
             (''toAsset'', JStr (to_asset params)),
             (''toQuantity'', JFloat (Finite (to_quantity params)))]
            @ optional_entry ''toPriceUsd'' (\<lambda>x. JFloat (Finite x)) (to_price_usd params)
            @ optional_entry ''fromAsset'' JStr (from_asset params)
            @ optional_entry ''fromQuantity'' (\<lambda>x. JFloat (Finite x)) (from_quantity params)
            @ optional_entry ''fromPriceUsd'' (\<lambda>x. JFloat (Finite x)) (from_price_usd params)
            @ optional_entry ''feesUsd'' (\<lambda>x. JFloat (Finite x)) (fees_usd params)
            @ optional_entry ''notes'' JStr (tx_notes params)
      in
      then_do (api_post ctx ''/api/transactions'' (Some (JObj body)) []) (\<lambda>result.
      then_do (dict_get result ''id'' (JStr ''?'')) (\<lambda>tx_id.
      then_do (case to_price_usd params of
                 Some p \<Rightarrow>
                   if p \<noteq> 0 then fstring [Inr '' @ '', fmt_usd (JFloat (Finite p))] else Inr ''''
               | None \<Rightarrow> Inr '''') (\<lambda>price.
      Inr (''Transaction created (ID: '' @ py_str rt tx_id @ ''). ''
           @ ''Type: '' @ TransactionType_value (type params) @ '', ''
           @ ''Asset: '' @ py_str rt (JFloat (Finite (to_quantity params))) @ '' ''
           @ to_asset params @ price)))))"

definition portfolio_add_transaction ::
  "runtime \<Rightarrow> gateway \<Rightarrow> AddTransactionInput \<Rightarrow> string" where
  "portfolio_add_transaction rt ctx params =
     try_except rt (portfolio_add_transaction_try rt ctx params)"

definition portfolio_delete_transaction_try ::
  "runtime \<Rightarrow> gateway \<Rightarrow> DeleteTransactionInput \<Rightarrow> exn + string" where
  "portfolio_delete_transaction_try rt ctx params =
     then_do (api_delete ctx ''/api/transactions'' [(''id'', JInt (transaction_id params))])
       (\<lambda>_. Inr (''Transaction '' @ str_int (transaction_id params)
                   @ '' deleted successfully.''))"

definition portfolio_delete_transaction ::
  "runtime \<Rightarrow> gateway \<Rightarrow> DeleteTransactionInput \<Rightarrow> string" where
  "portfolio_delete_transaction rt ctx params =
     try_except rt (portfolio_delete_transaction_try rt ctx params)"

subsection \<open>Cash flow\<close>

text \<open>
  The default of \<^verbatim>\<open>flow.get("netFlow", ...)\<close> is an argument, so the difference of the two
  totals is computed (and may raise) whether or not the key is present.
\<close>

definition yearly_line :: "string \<times> json \<Rightarrow> exn + string" where
  "yearly_line item =
     (case item of (yr, flow) \<Rightarrow>
        then_do (dict_get flow ''totalIn'' (JInt 0)) (\<lambda>total_in.
        then_do (dict_get flow ''totalOut'' (JInt 0)) (\<lambda>total_out.
        then_do (py_sub total_in total_out) (\<lambda>diff.
        then_do (dict_get flow ''netFlow'' diff) (\<lambda>net.
        fstring [Inr ''- **'', Inr yr, Inr ''**: Net '', fmt_usd net])))))"

definition portfolio_get_cashflow_try ::
  "runtime \<Rightarrow> gateway \<Rightarrow> GetCashflowInput \<Rightarrow> exn + string" where
  "portfolio_get_cashflow_try rt ctx params =
     then_do (api_get ctx ''/api/cashflow''
                [(''portfolioId'', JInt (GetCashflowInput.portfolio_id params))]) (\<lambda>data.
     if GetCashflowInput.response_format params = JSON then Inr (json_dumps rt data)
     else
     then_do (dict_get data ''summary'' (JObj [])) (\<lambda>s.
     let usd = (\<lambda>label key. fstring [Inr label, then_do (dict_get s key (JInt 0)) fmt_usd]);
         count = (\<lambda>label key. fstring [Inr label, str_of rt (dict_get s key (JInt 0))])
     in
     then_do (sequence
       [Inr ''# Cash Flow Analysis'',
        Inr '''',
        Inr ''## Summary'',
        usd ''- **Total Money In:** '' ''totalMoneyIn'',
        usd ''- **Total Money Out:** '' ''totalMoneyOut'',
        usd ''- **Net Flow:** '' ''netMoneyFlow'',
        Inr '''',
        usd ''- Bank Deposits: '' ''totalBankDeposits'',
        usd ''- Bank Withdrawals: '' ''totalBankWithdrawals'',
        usd ''- Net Bank Flow: '' ''netBankFlow'',
        Inr '''',
        usd ''- Asset Purchases: '' ''totalAssetPurchases'',
        usd ''- Asset Sales: '' ''totalAssetSales'',
        usd ''- Net Trading: '' ''netAssetTrading'',
        Inr '''',
        count ''- Taxable Events: '' ''totalTaxableEvents'',
        count ''- Total Transactions: '' ''totalTransactions'']) (\<lambda>head.
     then_do (dict_get data ''yearlyFlow'' (JObj [])) (\<lambda>yearly.
     then_do (if truthy yearly
              then then_do (sorted_items yearly) (\<lambda>items.
                   then_do (sequence (map yearly_line items)) (\<lambda>ls.
                   Inr (['''', ''## Yearly Breakdown'', ''''] @ ls)))
              else Inr []) (\<lambda>breakdown.
     Inr (str_join newline (head @ breakdown)))))))"

definition portfolio_get_cashflow :: "runtime \<Rightarrow> gateway \<Rightarrow> GetCashflowInput \<Rightarrow> string" where
  "portfolio_get_cashflow rt ctx params = try_except rt (portfolio_get_cashflow_try rt ctx params)"

subsection \<open>Tax report\<close>

definition event_line :: "runtime \<Rightarrow> json \<Rightarrow> exn + string" where
  "event_line rt ev =
     then_do (then_do (dict_get ev ''datetime'' (JStr '''')) (slice_to 10)) (\<lambda>dt.
     then_do (dict_get ev ''gainLossUsd'' (JInt 0)) (\<lambda>gain_usd.
     then_do (dict_get ev ''gainLossRon'' (JInt 0)) (\<lambda>gain_ron.
     then_do (py_ge gain_usd 0) (\<lambda>nonneg.
     let emoji = (if nonneg then ''+'' else '''') in
     fstring [Inr ''- **'', Inr (py_str rt dt), Inr ''** (TX #'',
              str_of rt (dict_get ev ''transactionId'' (JStr ''?'')), Inr ''): '',
              Inr ''Gain/Loss '', Inr emoji, fmt_usd gain_usd, Inr '' / '', Inr emoji,
              py_format_f True 2 gain_ron, Inr '' RON'']))))"

definition events_notice :: "nat \<Rightarrow> string" where
  "events_notice n =
     newline @ ''_Showing 30 of '' @ str_nat n @ '' events. Use JSON format for all._''"

text \<open>
  The list \<^verbatim>\<open>lines\<close> of the tax report narrative: its initial value, up to the heading of
  the events, and the whole list.
\<close>

definition tax_report_head ::
  "runtime \<Rightarrow> GetTaxReportInput \<Rightarrow> json \<Rightarrow> json \<Rightarrow> exn + string list" where
  "tax_report_head rt params data events =
     (let usd = (\<lambda>label key. fstring [Inr label, then_do (dict_get data key (JInt 0)) fmt_usd]);
          ron = (\<lambda>label key. fstring [Inr label,
                   then_do (dict_get data key (JInt 0)) (py_format_f True 2), Inr '' RON''])
      in sequence
       [Inr (''# Romania Tax Report - '' @ str_int (year params)),
        Inr '''',
        Inr (''**Strategy:** Asset='' @ TaxStrategy_value (asset_strategy params)
             @ '', Cash='' @ TaxStrategy_value (cash_strategy params)),
        Inr '''',
        Inr ''## Totals'',
        usd ''- **Total Withdrawals (USD):** '' ''totalWithdrawalsUsd'',
        ron ''- **Total Withdrawals (RON):** '' ''totalWithdrawalsRon'',
        usd ''- **Total Cost Basis (USD):** '' ''totalCostBasisUsd'',
        ron ''- **Total Cost Basis (RON):** '' ''totalCostBasisRon'',
        usd ''- **Total Gain/Loss (USD):** '' ''totalGainLossUsd'',
        ron ''- **Total Gain/Loss (RON):** '' ''totalGainLossRon'',
        Inr '''',
        fstring [Inr ''## Taxable Events ('', then_do (py_len events) (\<lambda>n. Inr (str_nat n)),
                 Inr '')''],
        Inr ''''])"

definition tax_report_lines :: "runtime \<Rightarrow> GetTaxReportInput \<Rightarrow> json \<Rightarrow> exn + string list" where
  "tax_report_lines rt params data =
     then_do (dict_get data ''taxableEvents'' (JArr [])) (\<lambda>events.
     then_do (tax_report_head rt params data events) (\<lambda>head.
     then_do (slice_to 30 events) (\<lambda>shown.
     then_do (py_iter shown) (\<lambda>evs.
     then_do (sequence (map (event_line rt) evs)) (\<lambda>body.
     then_do (py_len events) (\<lambda>n.
     Inr (head @ body @ (if n > 30 then [events_notice n] else []))))))))"

definition portfolio_get_tax_report_try ::
  "runtime \<Rightarrow> gateway \<Rightarrow> GetTaxReportInput \<Rightarrow> exn + string" where
  "portfolio_get_tax_report_try rt ctx params =
     (let query_params =
            [(''year'', JStr (str_int (year params))),
             (''assetStrategy'', JStr (TaxStrategy_value (asset_strategy params))),
             (''cashStrategy'', JStr (TaxStrategy_value (cash_strategy params)))]
            @ optional_entry ''portfolioId'' (\<lambda>i. JStr (str_int i))
                (GetTaxReportInput.portfolio_id params)
      in
      then_do (api_get ctx ''/api/tax/romania'' query_params) (\<lambda>data.
      if GetTaxReportInput.response_format params = JSON then Inr (json_dumps rt data)
      else
      then_do (tax_report_lines rt params data) (\<lambda>lines.
      Inr (str_join newline lines))))"

definition portfolio_get_tax_report ::
  "runtime \<Rightarrow> gateway \<Rightarrow> GetTaxReportInput \<Rightarrow> string" where
  "portfolio_get_tax_report rt ctx params =
     try_except rt (portfolio_get_tax_report_try rt ctx params)"

subsection \<open>Prices\<close>

definition price_line :: "string \<times> json \<Rightarrow> exn + string" where
  "price_line item =
     (case item of (symbol, price) \<Rightarrow>
        fstring [Inr ''- **'', Inr symbol, Inr ''**: '', fmt_usd price])"

definition portfolio_get_prices_try ::
  "runtime \<Rightarrow> gateway \<Rightarrow> GetPricesInput \<Rightarrow> exn + string" where
  "portfolio_get_prices_try rt ctx params =
     then_do (api_get ctx ''/api/prices/current''
                [(''symbols'', JStr (GetPricesInput.symbols params))]) (\<lambda>data.
     then_do (dict_get data ''prices'' (JObj [])) (\<lambda>prices.
     if \<not> truthy prices then Inr (''No prices found for: '' @ GetPricesInput.symbols params)
     else
     then_do (sorted_items prices) (\<lambda>items.
     then_do (sequence (map price_line items)) (\<lambda>body.
     Inr (str_join newline ([''# Current Prices'', ''''] @ body))))))"

definition portfolio_get_prices :: "runtime \<Rightarrow> gateway \<Rightarrow> GetPricesInput \<Rightarrow> string" where
  "portfolio_get_prices rt ctx params = try_except rt (portfolio_get_prices_try rt ctx params)"

definition portfolio_get_price_history_try ::
  "runtime \<Rightarrow> gateway \<Rightarrow> GetPriceHistoryInput \<Rightarrow> exn + string" where
  "portfolio_get_price_history_try rt ctx params =
     then_do (api_get ctx ''/api/prices''
                [(''symbols'', JStr (GetPriceHistoryInput.symbols params)),
                 (''start'', JInt (start_timestamp params)),
                 (''end'', JInt (end_timestamp params))]) (\<lambda>data.
     then_do (dict_get data ''prices'' (JArr [])) (\<lambda>prices.
     if \<not> truthy prices
     then Inr (''No historical prices found for '' @ GetPriceHistoryInput.symbols params
               @ '' in that range.'')
     else
     then_do (py_len prices) (\<lambda>n.
     Inr (json_dumps rt (JObj [(''count'', JInt (int n)), (''prices'', prices)])))))"

definition portfolio_get_price_history ::
  "runtime \<Rightarrow> gateway \<Rightarrow> GetPriceHistoryInput \<Rightarrow> string" where
  "portfolio_get_price_history rt ctx params =
     try_except rt (portfolio_get_price_history_try rt ctx params)"

subsection \<open>The tool registry\<close>

text \<open>A call of one of the ten registered tools with its validated input.\<close>

datatype tool_call =
    Call_get_holdings GetHoldingsInput
  | Call_get_history GetHistoryInput
  | Call_list_portfolios ListPortfoliosInput
  | Call_list_transactions ListTransactionsInput
  | Call_add_transaction AddTransactionInput
  | Call_delete_transaction DeleteTransactionInput
  | Call_get_cashflow GetCashflowInput
  | Call_get_tax_report GetTaxReportInput
  | Call_get_prices GetPricesInput
  | Call_get_price_history GetPriceHistoryInput


fun call_tool :: "runtime \<Rightarrow> gateway \<Rightarrow> tool_call \<Rightarrow> string" where
  "call_tool rt ctx (Call_get_holdings p) = portfolio_get_holdings rt ctx p"
| "call_tool rt ctx (Call_get_history p) = portfolio_get_history rt ctx p"
| "call_tool rt ctx (Call_list_portfolios p) = portfolio_list_portfolios rt ctx p"
| "call_tool rt ctx (Call_list_transactions p) = portfolio_list_transactions rt ctx p"
| "call_tool rt ctx (Call_add_transaction p) = portfolio_add_transaction rt ctx p"
| "call_tool rt ctx (Call_delete_transaction p) = portfolio_delete_transaction rt ctx p"
| "call_tool rt ctx (Call_get_cashflow p) = portfolio_get_cashflow rt ctx p"
| "call_tool rt ctx (Call_get_tax_report p) = portfolio_get_tax_report rt ctx p"
| "call_tool rt ctx (Call_get_prices p) = portfolio_get_prices rt ctx p"
| "call_tool rt ctx (Call_get_price_history p) = portfolio_get_price_history rt ctx p"

section \<open>The validation layer\<close>

text \<open>
  The input models are declarative: the framework checks the declared constraints and
  reports every violated one as a pair of field name and error type. A handler runs only
  on an input that passed.
\<close>

datatype validation_error = ValidationError "(string \<times> string) list"

subsection \<open>Normalisation of strings\<close>

text \<open>
  Two notions of white space, both restricted to the code points below 256: the one of
  \<^verbatim>\<open>str.strip\<close> and \<^verbatim>\<open>str.isspace\<close>, and the Unicode property \<^verbatim>\<open>White_Space\<close> that the
  \<^verbatim>\<open>str_strip_whitespace\<close> setting of the model configuration trims.
\<close>

definition py_isspace :: "char \<Rightarrow> bool" where
  "py_isspace c = (c \<in> set [CHR 0x09, CHR 0x0A, CHR 0x0B, CHR 0x0C, CHR 0x0D, CHR 0x1C, CHR 0x1D,
                              CHR 0x1E, CHR 0x1F, CHR 0x20, CHR 0x85, CHR 0xA0])"

definition is_white_space :: "char \<Rightarrow> bool" where
  "is_white_space c = (c \<in> set [CHR 0x09, CHR 0x0A, CHR 0x0B, CHR 0x0C, CHR 0x0D, CHR 0x20,
                                  CHR 0x85, CHR 0xA0])"

definition strip_with :: "(char \<Rightarrow> bool) \<Rightarrow> string \<Rightarrow> string" where
  "strip_with ws s = rev (dropWhile ws (rev (dropWhile ws s)))"

definition py_strip :: "string \<Rightarrow> string" where
  "py_strip s = strip_with py_isspace s"

definition str_strip_whitespace :: "string \<Rightarrow> string" where
  "str_strip_whitespace s = strip_with is_white_space s"

text \<open>
  \<^verbatim>\<open>str.upper\<close> on the code points below 256: the ASCII and the Latin-1 small letters have a
  capital 32 places below, and the sharp s becomes two letters. The capitals of the micro
  sign and of the y with diaeresis lie beyond code point 255, outside the model of strings.
\<close>

definition small_letters :: string where
  "small_letters =
     ''abcdefghijklmnopqrstuvwxyz'' @
       [CHR 0xE0, CHR 0xE1, CHR 0xE2, CHR 0xE3, CHR 0xE4, CHR 0xE5, CHR 0xE6, CHR 0xE7,
        CHR 0xE8, CHR 0xE9, CHR 0xEA, CHR 0xEB, CHR 0xEC, CHR 0xED, CHR 0xEE, CHR 0xEF,
        CHR 0xF0, CHR 0xF1, CHR 0xF2, CHR 0xF3, CHR 0xF4, CHR 0xF5, CHR 0xF6, CHR 0xF8,
        CHR 0xF9, CHR 0xFA, CHR 0xFB, CHR 0xFC, CHR 0xFD, CHR 0xFE]"

definition capital_letters :: string where
  "capital_letters =
     ''ABCDEFGHIJKLMNOPQRSTUVWXYZ'' @
       [CHR 0xC0, CHR 0xC1, CHR 0xC2, CHR 0xC3, CHR 0xC4, CHR 0xC5, CHR 0xC6, CHR 0xC7,
        CHR 0xC8, CHR 0xC9, CHR 0xCA, CHR 0xCB, CHR 0xCC, CHR 0xCD, CHR 0xCE, CHR 0xCF,
        CHR 0xD0, CHR 0xD1, CHR 0xD2, CHR 0xD3, CHR 0xD4, CHR 0xD5, CHR 0xD6, CHR 0xD8,
        CHR 0xD9, CHR 0xDA, CHR 0xDB, CHR 0xDC, CHR 0xDD, CHR 0xDE]"

definition upper_char :: "char \<Rightarrow> string" where
  "upper_char c =
     (case map_of (zip small_letters capital_letters) c of
        Some u \<Rightarrow> [u]
      | None \<Rightarrow> if c = CHR 0xDF then ''SS'' else [c])"

definition py_upper :: "string \<Rightarrow> string" where
  "py_upper s = concat (map upper_char s)"

text \<open>\<^verbatim>\<open>s.split(sep)\<close> with a separator of one character\<close>

fun py_split :: "char \<Rightarrow> string \<Rightarrow> string list" where
  "py_split sep [] = [[]]"
| "py_split sep (c # cs) =
     (if c = sep then [] # py_split sep cs
      else (case py_split sep cs of w # ws \<Rightarrow> (c # w) # ws | [] \<Rightarrow> [[c]]))"

subsection \<open>Current prices\<close>

text \<open>
  The field validator of \<open>symbols\<close> runs after the declared checks of the field (trimming,
  minimum and maximum length); it returns the normalised list and never raises.
\<close>

definition validate_symbols :: "string \<Rightarrow> string" where
  "validate_symbols v =
     str_join '','' (map (\<lambda>s. py_upper (py_strip s))
                       (filter (\<lambda>s. py_strip s \<noteq> []) (py_split CHR '','' v)))"

definition GetPricesInput_validate :: "string \<Rightarrow> validation_error + GetPricesInput" where
  "GetPricesInput_validate raw =
     (let v = str_strip_whitespace raw
      in if length v < 1 then Inl (ValidationError [(''symbols'', ''string_too_short'')])
         else if 200 < length v then Inl (ValidationError [(''symbols'', ''string_too_long'')])
         else Inr \<lparr>GetPricesInput.symbols = validate_symbols v\<rparr>)"

text \<open>A call of the current-prices tool with a raw argument: validation, then the handler.\<close>

definition invoke_get_prices :: "runtime \<Rightarrow> gateway \<Rightarrow> string \<Rightarrow> validation_error + string" where
  "invoke_get_prices rt ctx raw =
     (case GetPricesInput_validate raw of
        Inl err \<Rightarrow> Inl err
      | Inr params \<Rightarrow> Inr (portfolio_get_prices rt ctx params))"

subsection \<open>Add transaction\<close>

text \<open>
  The arguments are given with their declared types, an omitted \<open>portfolio_id\<close> already
  replaced by its default. The validator \<^verbatim>\<open>uppercase_asset\<close> runs before the checks of the
  two asset fields. No check mentions the \<open>type\<close> field.
\<close>

definition uppercase_asset :: "string \<Rightarrow> string" where
  "uppercase_asset v = py_upper v"

definition max_length :: "string \<Rightarrow> nat \<Rightarrow> string option \<Rightarrow> (string \<times> string) list" where
  "max_length field n v =
     (case v of
        Some s \<Rightarrow> if n < length s then [(field, ''string_too_long'')] else []
      | None \<Rightarrow> [])"

definition AddTransactionInput_validate ::
  "AddTransactionInput \<Rightarrow> validation_error + AddTransactionInput" where
  "AddTransactionInput_validate raw =
     (let dt = str_strip_whitespace (datetime raw);
          to_a = str_strip_whitespace (uppercase_asset (to_asset raw));
          from_a = map_option (\<lambda>a. str_strip_whitespace (uppercase_asset a)) (from_asset raw);
          nts = map_option str_strip_whitespace (tx_notes raw);
          errors =
            (if AddTransactionInput.portfolio_id raw < 1
             then [(''portfolio_id'', ''greater_than_equal'')] else [])
            @ (if length to_a < 1 then [(''to_asset'', ''string_too_short'')] else [])
            @ max_length ''to_asset'' 10 (Some to_a)
            @ (if to_quantity raw < 0 then [(''to_quantity'', ''greater_than_equal'')] else [])
            @ max_length ''from_asset'' 10 from_a
            @ (case from_quantity raw of
                 Some q \<Rightarrow> if q < 0 then [(''from_quantity'', ''greater_than_equal'')] else []
               | None \<Rightarrow> [])
            @ max_length ''notes'' 500 nts
      in if errors = []
         then Inr (raw\<lparr>datetime := dt, to_asset := to_a, from_asset := from_a, tx_notes := nts\<rparr>)
         else Inl (ValidationError errors))"

section \<open>A runtime for worked examples\<close>

text \<open>
  The default base address; the worked examples render no float, list or dict through
  \<^verbatim>\<open>str\<close>, so the value of \<open>repr\<close> is immaterial to them.
\<close>

definition example_runtime :: runtime where
  "example_runtime = \<lparr>API_BASE_URL = ''http://localhost:3000'', repr = (\<lambda>_. ''...'')\<rparr>"

text \<open>A swap that names no source asset, no source quantity and no source price.\<close>

definition example_swap :: AddTransactionInput where
  "example_swap = \<lparr>AddTransactionInput.portfolio_id = 1, type = SWAP,
      datetime = ''2025-01-15T10:30:00Z'', to_asset = ''ada'', to_quantity = 5000,
      to_price_usd = None, from_asset = None, from_quantity = None, from_price_usd = None,
      fees_usd = None, tx_notes = None\<rparr>"

text \<open>The request that the holdings handler issues for a portfolio.\<close>

definition holdings_request :: "int \<Rightarrow> request" where
  "holdings_request pid = \<lparr>verb = GET, path = ''/api/ticker/portfolio'',
                            query = [(''portfolioId'', JInt pid)], json_body = None\<rparr>"

text \<open>The request that the history handler issues.\<close>

definition history_request :: "int \<Rightarrow> int \<Rightarrow> request" where
  "history_request pid n = \<lparr>verb = GET, path = ''/api/ticker/portfolio/history'',
                             query = [(''portfolioId'', JInt pid), (''days'', JInt n)],
                             json_body = None\<rparr>"

section \<open>Observations and sample payloads\<close>


text \<open>
  The real that a finite number of the payload denotes, by which the comparisons of the
  formatters decide.
\<close>

fun exact_value :: "json \<Rightarrow> real option" where
  "exact_value (JInt i) = Some (of_int i)"
| "exact_value (JBool b) = Some (if b then 1 else 0)"
| "exact_value (JFloat f) = float_value f"
| "exact_value v = None"

text \<open>A deposit, a taxable event and a tax report input for the worked examples.\<close>

definition example_tx :: json where
  "example_tx = JObj [(''id'', JInt 7), (''type'', JStr ''Deposit''),
                      (''datetime'', JStr ''2025-01-15T10:30:00Z''), (''toAsset'', JStr ''BTC''),
                      (''toQuantity'', JFloat (Finite 0.5)), (''toPriceUsd'', JInt 67000)]"



definition example_withdrawal :: json where
  "example_withdrawal = JObj [(''id'', JInt 8), (''type'', JStr ''Withdrawal''),
                      (''datetime'', JStr ''2025-02-01T09:00:00Z''), (''toAsset'', JStr ''USDC''),
                      (''toQuantity'', JInt 1000), (''toPriceUsd'', JInt 1)]"

definition example_free_deposit :: json where
  "example_free_deposit = JObj [(''id'', JInt 9), (''type'', JStr ''Deposit''),
                      (''datetime'', JStr ''2025-02-02T09:00:00Z''), (''toAsset'', JStr ''ADA''),
                      (''toQuantity'', JInt 25), (''toPriceUsd'', JInt 0)]"

text \<open>
  A gateway that answers the current-prices request for the empty symbol string with an
  empty price table, and refuses every other request.
\<close>

definition empty_symbols_gateway :: gateway where
  "empty_symbols_gateway req =
     (if req = \<lparr>verb = GET, path = ''/api/prices/current'',
                  query = [(''symbols'', JStr '''')], json_body = None\<rparr>
      then Inr (JObj [(''prices'', JObj [])])
      else Inl ConnectError)"

text \<open>
  An integer of 401 digits, a history whose first total value is zero and whose last one is
  that integer, and a gateway that answers the history request with it.
\<close>

definition oversized :: int where
  "oversized = 10 ^ 400"

definition oversized_history :: json where
  "oversized_history =
     JObj [(''history'',
            JArr [JObj [(''date'', JStr ''2025-01-01''), (''totalValue'', JInt 0)],
                  JObj [(''date'', JStr ''2025-01-02''), (''totalValue'', JInt oversized)]])]"

definition oversized_history_gateway :: gateway where
  "oversized_history_gateway req =
     (if req = history_request 1 7 then Inr oversized_history else Inl ConnectError)"

section \<open>Reading JSON back\<close>

text \<open>
  A decoder after Python's \<^verbatim>\<open>json.loads\<close>, to state what the structured output preserves.
  \<open>float_of\<close> stands for Python's conversion of a number literal to a float.
\<close>

subsection \<open>Numbers\<close>

definition digit_value :: "char \<Rightarrow> nat" where
  "digit_value c = (of_char c :: nat) - 48"

definition nat_of_digits :: "string \<Rightarrow> nat" where
  "nat_of_digits ds = foldl (\<lambda>n c. 10 * n + digit_value c) 0 ds"

definition int_of_literal :: "string \<Rightarrow> int" where
  "int_of_literal s =
     (case s of
        [] \<Rightarrow> 0
      | c # cs \<Rightarrow> if c = CHR ''-'' then - int (nat_of_digits cs) else int (nat_of_digits s))"

text \<open>
  The three groups of the number pattern
  \<^verbatim>\<open>(-?(?:0|[1-9]\d*))(\.\d+)?([eE][-+]?\d+)?\<close>, each matched at the start of its input;
  the empty string stands for a group that does not match.
\<close>

definition scan_integer :: "string \<Rightarrow> string" where
  "scan_integer s =
     (case s of
        [] \<Rightarrow> []
      | c # cs \<Rightarrow>
          if c = CHR ''0'' then ''0''
          else if is_digit c then c # takeWhile is_digit cs
          else [])"

definition scan_frac :: "string \<Rightarrow> string" where
  "scan_frac s =
     (case s of
        [] \<Rightarrow> []
      | c # cs \<Rightarrow>
          if c = CHR ''.'' \<and> takeWhile is_digit cs \<noteq> [] then c # takeWhile is_digit cs
          else [])"

definition scan_exp :: "string \<Rightarrow> string" where
  "scan_exp s =
     (case s of
        [] \<Rightarrow> []
      | c # cs \<Rightarrow>
          if c = CHR ''e'' \<or> c = CHR ''E'' then
            (case cs of
               [] \<Rightarrow> []
             | d # ds \<Rightarrow>
                 if d = CHR ''+'' \<or> d = CHR ''-'' then
                   (if takeWhile is_digit ds \<noteq> [] then c # d # takeWhile is_digit ds else [])
                 else if takeWhile is_digit cs \<noteq> [] then c # takeWhile is_digit cs
                 else [])
          else [])"

definition scan_sign :: "string \<Rightarrow> string" where
  "scan_sign s = (case s of [] \<Rightarrow> [] | c # cs \<Rightarrow> if c = CHR ''-'' then ''-'' else [])"

definition scan_number :: "(string \<Rightarrow> float) \<Rightarrow> string \<Rightarrow> (json \<times> string) option" where
  "scan_number float_of s =
     (let sign = scan_sign s;
          s1 = drop (length sign) s;
          integer = scan_integer s1;
          s2 = drop (length integer) s1;
          frac = scan_frac s2;
          s3 = drop (length frac) s2;
          ex = scan_exp s3;
          s4 = drop (length ex) s3
      in if integer = [] then None
         else if frac = [] \<and> ex = [] then Some (JInt (int_of_literal (sign @ integer)), s4)
         else Some (JFloat (float_of (sign @ integer @ frac @ ex)), s4))"

subsection \<open>Strings\<close>

definition hex_value :: "char \<Rightarrow> nat option" where
  "hex_value c =
     map_of [(CHR ''0'', 0), (CHR ''1'', 1), (CHR ''2'', 2), (CHR ''3'', 3), (CHR ''4'', 4),
             (CHR ''5'', 5), (CHR ''6'', 6), (CHR ''7'', 7), (CHR ''8'', 8), (CHR ''9'', 9),
             (CHR ''a'', 10), (CHR ''b'', 11), (CHR ''c'', 12), (CHR ''d'', 13),
             (CHR ''e'', 14), (CHR ''f'', 15), (CHR ''A'', 10), (CHR ''B'', 11),
             (CHR ''C'', 12), (CHR ''D'', 13), (CHR ''E'', 14), (CHR ''F'', 15)] c"

definition unescape :: "char \<Rightarrow> char option" where
  "unescape c =
     map_of [(CHR 0x22, CHR 0x22), (CHR 0x5C, CHR 0x5C), (CHR ''/'', CHR ''/''),
             (CHR ''b'', CHR 0x08), (CHR ''f'', CHR 0x0C), (CHR ''n'', CHR 0x0A),
             (CHR ''r'', CHR 0x0D), (CHR ''t'', CHR 0x09)] c"

definition code_point :: "char \<Rightarrow> char \<Rightarrow> char \<Rightarrow> char \<Rightarrow> nat option" where
  "code_point a b c d =
     (case (hex_value a, hex_value b, hex_value c, hex_value d) of
        (Some w, Some x, Some y, Some z) \<Rightarrow> Some (((w * 16 + x) * 16 + y) * 16 + z)
      | _ \<Rightarrow> None)"

definition cons_char :: "char \<Rightarrow> (string \<times> string) option \<Rightarrow> (string \<times> string) option" where
  "cons_char c m = map_option (\<lambda>p. (c # fst p, snd p)) m"

text \<open>
  The input follows the opening quotation mark; the result is the decoded string and the
  input after the closing quotation mark. A code point of 256 or more is outside the model
  of strings and is refused.
\<close>

fun scan_string :: "string \<Rightarrow> (string \<times> string) option" where
  "scan_string [] = None"
| "scan_string (c # cs) =
     (if c = CHR 0x22 then Some ([], cs)
      else if c = CHR 0x5C then
        (case cs of
           [] \<Rightarrow> None
         | e # es \<Rightarrow>
             if e = CHR ''u'' then
               (case es of
                  h1 # h2 # h3 # h4 # rest \<Rightarrow>
                    (case code_point h1 h2 h3 h4 of
                       Some n \<Rightarrow> if n < 256 then cons_char (char_of n) (scan_string rest) else None
                     | None \<Rightarrow> None)
                | _ \<Rightarrow> None)
             else
               (case unescape e of
                  Some u \<Rightarrow> cons_char u (scan_string es)
                | None \<Rightarrow> None))
      else if (of_char c :: nat) < 32 then None
      else cons_char c (scan_string cs))"

subsection \<open>Values\<close>

definition is_json_ws :: "char \<Rightarrow> bool" where
  "is_json_ws c = (c \<in> set [CHR '' '', CHR 0x09, CHR 0x0A, CHR 0x0D])"

definition skip_ws :: "string \<Rightarrow> string" where
  "skip_ws s = dropWhile is_json_ws s"

text \<open>\<^verbatim>\<open>dict(pairs)\<close>: a repeated key keeps its first position and takes the last value.\<close>

fun dict_set :: "string \<Rightarrow> json \<Rightarrow> (string \<times> json) list \<Rightarrow> (string \<times> json) list" where
  "dict_set k v [] = [(k, v)]"
| "dict_set k v (p # ps) = (if fst p = k then (k, v) # ps else p # dict_set k v ps)"

definition py_dict :: "(string \<times> json) list \<Rightarrow> (string \<times> json) list" where
  "py_dict pairs = foldl (\<lambda>d p. dict_set (fst p) (snd p) d) [] pairs"

text \<open>
  The recursive descent, with a bound on the number of nested calls: \<open>parse_value\<close> reads one
  value, \<open>parse_elements\<close> the elements of an array that is not empty up to its closing
  bracket, \<open>parse_members\<close> the members of an object that is not empty up to its closing
  brace.
\<close>

fun parse_value :: "(string \<Rightarrow> float) \<Rightarrow> nat \<Rightarrow> string \<Rightarrow> (json \<times> string) option"
  and parse_elements :: "(string \<Rightarrow> float) \<Rightarrow> nat \<Rightarrow> string \<Rightarrow> (json list \<times> string) option"
  and parse_members ::
    "(string \<Rightarrow> float) \<Rightarrow> nat \<Rightarrow> string \<Rightarrow> ((string \<times> json) list \<times> string) option"
where
  "parse_value float_of 0 s = None"
| "parse_value float_of (Suc n) s =
     (case s of
        [] \<Rightarrow> None
      | c # cs \<Rightarrow>
          if c = CHR 0x22 then map_option (\<lambda>p. (JStr (fst p), snd p)) (scan_string cs)
          else if c = CHR ''{'' then
            (case skip_ws cs of
               [] \<Rightarrow> None
             | d # ds \<Rightarrow>
                 if d = CHR ''}'' then Some (JObj [], ds)
                 else map_option (\<lambda>p. (JObj (py_dict (fst p)), snd p))
                        (parse_members float_of n (d # ds)))
          else if c = CHR ''['' then
            (case skip_ws cs of
               [] \<Rightarrow> None
             | d # ds \<Rightarrow>
                 if d = CHR '']'' then Some (JArr [], ds)
                 else map_option (\<lambda>p. (JArr (fst p), snd p))
                        (parse_elements float_of n (d # ds)))
          else if take 4 s = ''null'' then Some (JNull, drop 4 s)
          else if take 4 s = ''true'' then Some (JBool True, drop 4 s)
          else if take 5 s = ''false'' then Some (JBool False, drop 5 s)
          else
            (case scan_number float_of s of
               Some p \<Rightarrow> Some p
             | None \<Rightarrow>
                 if take 3 s = ''NaN'' then Some (JFloat NaN, drop 3 s)
                 else if take 8 s = ''Infinity'' then Some (JFloat PosInf, drop 8 s)
                 else if take 9 s = ''-Infinity'' then Some (JFloat NegInf, drop 9 s)
                 else None))"
| "parse_elements float_of 0 s = None"
| "parse_elements float_of (Suc n) s =
     (case parse_value float_of n s of
        None \<Rightarrow> None
      | Some (v, r) \<Rightarrow>
          (case skip_ws r of
             [] \<Rightarrow> None
           | d # ds \<Rightarrow>
               if d = CHR '','' then
                 map_option (\<lambda>p. (v # fst p, snd p)) (parse_elements float_of n (skip_ws ds))
               else if d = CHR '']'' then Some ([v], ds)
               else None))"
| "parse_members float_of 0 s = None"
| "parse_members float_of (Suc n) s =
     (case s of
        [] \<Rightarrow> None
      | q # cs \<Rightarrow>
          if q \<noteq> CHR 0x22 then None
          else
            (case scan_string cs of
               None \<Rightarrow> None
             | Some (k, r) \<Rightarrow>
                 (case skip_ws r of
                    [] \<Rightarrow> None
                  | d # ds \<Rightarrow>
                      if d \<noteq> CHR '':'' then None
                      else
                        (case parse_value float_of n (skip_ws ds) of
                           None \<Rightarrow> None
                         | Some (v, r') \<Rightarrow>
                             (case skip_ws r' of
                                [] \<Rightarrow> None
                              | e # es \<Rightarrow>
                                  if e = CHR '','' then
                                    map_option (\<lambda>p. ((k, v) # fst p, snd p))
                                      (parse_members float_of n (skip_ws es))
                                  else if e = CHR ''}'' then Some ([(k, v)], es)
                                  else None)))))"

text \<open>\<^verbatim>\<open>json.loads(s)\<close>: one value, with white space allowed around it and nothing else.\<close>

definition json_loads :: "(string \<Rightarrow> float) \<Rightarrow> string \<Rightarrow> json option" where
  "json_loads float_of s =
     (case parse_value float_of (Suc (length s)) (skip_ws s) of
        None \<Rightarrow> None
      | Some (v, r) \<Rightarrow> if skip_ws r = [] then Some v else None)"

text \<open>
  A payload as the decoder produces it: the keys of every dict are distinct, and the
  \<open>repr\<close> of every float is a number literal that \<open>float_of\<close> reads back as that float.
\<close>

fun decodable :: "(string \<Rightarrow> float) \<Rightarrow> runtime \<Rightarrow> json \<Rightarrow> bool" where
  "decodable float_of rt (JFloat f) =
     (f \<in> {NaN, PosInf, NegInf}
      \<or> scan_number float_of (repr rt (JFloat f)) = Some (JFloat f, []))"
| "decodable float_of rt (JArr xs) = (\<forall>x \<in> set xs. decodable float_of rt x)"
| "decodable float_of rt (JObj kvs) =
     (distinct (map fst kvs) \<and> (\<forall>kv \<in> set kvs. decodable float_of rt (snd kv)))"
| "decodable float_of rt v = True"

text \<open>
  What follows an encoded value in the output of \<open>json_encode\<close>: nothing, a comma, or the
  line break before a closing bracket.
\<close>

definition value_end :: "string \<Rightarrow> bool" where
  "value_end rest = (case rest of [] \<Rightarrow> True | c # cs \<Rightarrow> c = CHR '','' \<or> c = CHR 0x0A)"

subsection \<open>The output mode of a call\<close>

text \<open>
  The \<^verbatim>\<open>response_format\<close> of the input of a call; the inputs of four tools have no such
  field.
\<close>

fun tool_response_format :: "tool_call \<Rightarrow> ResponseFormat option" where
  "tool_response_format (Call_get_holdings p) = Some (GetHoldingsInput.response_format p)"
| "tool_response_format (Call_get_history p) = Some (GetHistoryInput.response_format p)"
| "tool_response_format (Call_list_portfolios p) = Some (ListPortfoliosInput.response_format p)"
| "tool_response_format (Call_list_transactions p)
     = Some (ListTransactionsInput.response_format p)"
| "tool_response_format (Call_add_transaction p) = None"
| "tool_response_format (Call_delete_transaction p) = None"
| "tool_response_format (Call_get_cashflow p) = Some (GetCashflowInput.response_format p)"
| "tool_response_format (Call_get_tax_report p) = Some (GetTaxReportInput.response_format p)"
| "tool_response_format (Call_get_prices p) = None"
| "tool_response_format (Call_get_price_history p) = None"

subsection \<open>A runtime and a payload with a float\<close>

text \<open>
  A runtime whose \<open>repr\<close> writes the float one half as \<^verbatim>\<open>0.5\<close>, a conversion of literals
  that reads it back, and a payload with every kind of value.
\<close>

definition half_runtime :: runtime where
  "half_runtime = \<lparr>API_BASE_URL = ''http://localhost:3000'',
                    repr = (\<lambda>v. if v = JFloat (Finite 0.5) then ''0.5'' else ''...'')\<rparr>"

definition half_float_of :: "string \<Rightarrow> float" where
  "half_float_of s = (if s = ''0.5'' then Finite 0.5 else NaN)"

definition example_payload :: json where
  "example_payload =
     JObj [(''transactions'', JArr [example_tx, JObj []]), (''balance'', JInt (- 12)),
           (''cursor'', JNull), (''more'', JBool False), (''tags'', JArr []),
           (''note'', JStr [CHR ''a'', CHR 0x22, CHR 0x0A, CHR 0xE9])]"



chapter \<open>Properties\<close>

section \<open>Decimal rendering\<close>

lemma str_nat_small: "n < 10 \<Longrightarrow> str_nat n = [digit_char n]"
  by (simp add: str_nat.simps)

lemma str_nat_large: "10 \<le> n \<Longrightarrow> str_nat n = str_nat (n div 10) @ [digit_char (n mod 10)]"
  by (subst str_nat.simps) simp

lemma replicate_numeral: "replicate (numeral k) x = x # replicate (pred_numeral k) x"
  by (simp add: numeral_eq_Suc)

lemmas number_eval =
  format_f_def round_half_even_def group_thousands_def
  str_nat_small str_nat_large digit_char_def str_int_def replicate_numeral Let_def

lemma is_digit_digit_char: "d < 10 \<Longrightarrow> is_digit (digit_char d)"
  unfolding is_digit_def digit_char_def by (rule nth_mem) simp

lemma str_nat_digits: "\<forall>c \<in> set (str_nat n). is_digit c"
proof (induction n rule: str_nat.induct)
  case (1 n)
  show ?case
  proof (cases "n < 10")
    case True
    then show ?thesis by (simp add: str_nat_small is_digit_digit_char)
  next
    case False
    then have "\<forall>c \<in> set (str_nat (n div 10)). is_digit c" using 1 by simp
    with False show ?thesis by (simp add: str_nat_large is_digit_digit_char)
  qed
qed

lemma str_nat_nonempty: "str_nat n \<noteq> []"
  by (subst str_nat.simps) simp

lemma length_str_nat: "0 < p \<Longrightarrow> n < 10 ^ p \<Longrightarrow> length (str_nat n) \<le> p"
proof (induction n arbitrary: p rule: str_nat.induct)
  case (1 n)
  show ?case
  proof (cases "n < 10")
    case True
    with 1(2) show ?thesis by (simp add: str_nat_small Suc_leI)
  next
    case False
    then obtain q where q: "p = Suc q" using 1(2) by (cases p) auto
    have "0 < q"
    proof (rule ccontr)
      assume "\<not> 0 < q"
      then have "p = 1" using q by simp
      with 1(3) False show False by simp
    qed
    moreover have "n div 10 < 10 ^ q"
      using 1(3) q by (simp add: less_mult_imp_div_less mult.commute)
    ultimately have "length (str_nat (n div 10)) \<le> q" using 1(1) False by simp
    with False q show ?thesis by (simp add: str_nat_large)
  qed
qed

lemma is_digit_not_point: "is_digit c \<Longrightarrow> c \<noteq> CHR ''.''"
  by (auto simp: is_digit_def)

lemma is_digit_not_comma: "is_digit c \<Longrightarrow> c \<noteq> CHR '',''"
  by (auto simp: is_digit_def)

lemma group_rev_chars: "set (group_rev ds) \<subseteq> insert CHR '','' (set ds)"
  by (induction ds rule: group_rev.induct) auto

lemma group_rev_nonempty: "ds \<noteq> [] \<Longrightarrow> group_rev ds \<noteq> []"
  by (induction ds rule: group_rev.induct) auto

text \<open>Removing the commas from a grouped digit string gives the digits back.\<close>

lemma group_rev_ungroup:
  "\<forall>c \<in> set ds. c \<noteq> CHR '','' \<Longrightarrow> filter (\<lambda>c. c \<noteq> CHR '','') (group_rev ds) = ds"
  by (induction ds rule: group_rev.induct) auto

lemma group_thousands_ungroup:
  "\<forall>c \<in> set ds. is_digit c \<Longrightarrow> filter (\<lambda>c. c \<noteq> CHR '','') (group_thousands ds) = ds"
proof -
  assume d: "\<forall>c \<in> set ds. is_digit c"
  then have "\<forall>c \<in> set (rev ds). c \<noteq> CHR '',''" by (auto dest: is_digit_not_comma)
  then have "filter (\<lambda>c. c \<noteq> CHR '','') (group_rev (rev ds)) = rev ds"
    by (rule group_rev_ungroup)
  then show ?thesis by (simp add: group_thousands_def rev_filter [symmetric])
qed

text \<open>
  The shape of a fixed-point rendering: an optional minus sign, a non-empty integer part
  made of digits (and of commas only when grouping is requested), a decimal point, and
  exactly \<open>prec\<close> digits.
\<close>

lemma format_f_shape:
  assumes "0 < prec"
  shows "\<exists>ip fp. format_f comma prec v = (if v < 0 then ''-'' else '''') @ ip @ ''.'' @ fp
           \<and> ip \<noteq> [] \<and> length fp = prec \<and> (\<forall>c \<in> set fp. is_digit c)
           \<and> (\<forall>c \<in> set ip. is_digit c \<or> (comma \<and> c = CHR '',''))"
proof -
  define n where "n = nat (round_half_even (\<bar>v\<bar> * 10 ^ prec))"
  define ds where "ds = str_nat (n div 10 ^ prec)"
  define ip where "ip = (if comma then group_thousands ds else ds)"
  define fs where "fs = str_nat (n mod 10 ^ prec)"
  define fp where "fp = replicate (prec - length fs) CHR ''0'' @ fs"
  have fmt: "format_f comma prec v = (if v < 0 then ''-'' else '''') @ ip @ ''.'' @ fp"
    using assms by (simp add: format_f_def Let_def n_def ds_def ip_def fs_def fp_def)
  have "ds \<noteq> []" by (simp add: ds_def str_nat_nonempty)
  then have ip_ne: "ip \<noteq> []"
    by (simp add: ip_def group_thousands_def group_rev_nonempty)
  have "length fs \<le> prec"
    unfolding fs_def using assms by (intro length_str_nat) simp_all
  then have len: "length fp = prec" by (simp add: fp_def)
  have "is_digit CHR ''0''" by (simp add: is_digit_def)
  then have fp_d: "\<forall>c \<in> set fp. is_digit c"
    using str_nat_digits [of "n mod 10 ^ prec"] by (auto simp: fp_def fs_def)
  have ds_d: "\<forall>c \<in> set ds. is_digit c" by (simp add: ds_def str_nat_digits)
  have "set (group_thousands ds) \<subseteq> insert CHR '','' (set ds)"
    using group_rev_chars [of "rev ds"] by (simp add: group_thousands_def)
  with ds_d have ip_d: "\<forall>c \<in> set ip. is_digit c \<or> (comma \<and> c = CHR '','')"
    by (auto simp: ip_def)
  from fmt ip_ne len fp_d ip_d show ?thesis by blast
qed

lemma decimals_point:
  assumes "\<forall>c \<in> set fp. c \<noteq> CHR ''.''"
  shows "decimals (pre @ ''.'' @ fp) = length fp"
proof -
  have "takeWhile (\<lambda>c. c \<noteq> CHR ''.'') (rev fp @ CHR ''.'' # rev pre) = rev fp"
    using assms by (simp add: takeWhile_tail)
  then show ?thesis by (simp add: decimals_def)
qed

text \<open>
  The grouping puts a comma exactly at every fourth position counted from the right, and
  nowhere else.
\<close>

lemma length_group_rev: "length (group_rev ds) = length ds + (length ds - 1) div 3"
  by (induction ds rule: group_rev.induct) simp_all

lemma group_rev_comma_positions:
  "\<forall>c \<in> set ds. c \<noteq> CHR '','' \<Longrightarrow> i < length (group_rev ds)
   \<Longrightarrow> (group_rev ds ! i = CHR '','') = (i mod 4 = 3)"
proof (induction ds arbitrary: i rule: group_rev.induct)
  case (1 a b c d ds)
  show ?case
  proof (cases "i < 4")
    case True
    then consider "i = 0" | "i = 1" | "i = 2" | "i = 3" by linarith
    then show ?thesis using 1(2) by cases simp_all
  next
    case False
    then obtain j where j: "i = 4 + j" using le_Suc_ex [of 4 i] by auto
    with 1(3) have "j < length (group_rev (d # ds))" by simp
    moreover have "\<forall>c \<in> set (d # ds). c \<noteq> CHR '',''" using 1(2) by simp
    ultimately have "(group_rev (d # ds) ! j = CHR '','') = (j mod 4 = 3)" by (rule 1(1)[rotated])
    with j show ?thesis by (simp add: nth_Cons')
  qed
qed (auto simp: less_Suc_eq)

lemma format_f_decimals:
  assumes "0 < prec"
  shows "decimals (pre @ format_f comma prec v) = prec"
proof -
  from format_f_shape [OF assms, of comma v] obtain ip fp where
    f: "format_f comma prec v = (if v < 0 then ''-'' else '''') @ ip @ ''.'' @ fp"
    and l: "length fp = prec" and d: "\<forall>c \<in> set fp. is_digit c"
    by blast
  from d have "\<forall>c \<in> set fp. c \<noteq> CHR ''.''" by (auto dest: is_digit_not_point)
  then have "decimals ((pre @ (if v < 0 then ''-'' else '''') @ ip) @ ''.'' @ fp) = length fp"
    by (rule decimals_point)
  with f l show ?thesis by simp
qed

lemma format_f_no_comma: "CHR '','' \<notin> set (format_f False prec v)"
  using str_nat_digits
  by (auto simp: format_f_def Let_def dest!: is_digit_not_comma split: if_splits)


section \<open>Rounding to a double\<close>

lemma bit_length_pos: "0 < n \<Longrightarrow> bit_length n = Suc (bit_length (n div 2))"
  by (subst bit_length.simps) simp

lemma bit_length_bounds: "0 < n \<Longrightarrow> 2 ^ (bit_length n - 1) \<le> n \<and> n < 2 ^ bit_length n"
proof (induction n rule: bit_length.induct)
  case (1 n)
  show ?case
  proof (cases "n div 2 = 0")
    case True
    with 1(2) have "n = 1" by (simp add: div_eq_0_iff) 
    then show ?thesis by (simp add: bit_length_pos bit_length.simps [of 0])
  next
    case False
    then have p: "0 < n div 2" by simp
    with 1 have ih: "2 ^ (bit_length (n div 2) - 1) \<le> n div 2" "n div 2 < 2 ^ bit_length (n div 2)"
      by simp_all
    have b: "0 < bit_length (n div 2)" using p by (simp add: bit_length_pos)
    then have "(2::nat) ^ bit_length (n div 2) = 2 * 2 ^ (bit_length (n div 2) - 1)"
      by (cases "bit_length (n div 2)") simp_all
    with ih(1) have lo: "2 ^ bit_length (n div 2) \<le> n" by simp
    from ih(2) have hi: "n < 2 * 2 ^ bit_length (n div 2)" by simp
    from lo hi 1(2) show ?thesis by (simp add: bit_length_pos)
  qed
qed

lemma round_half_even_of_int: "round_half_even (of_int k) = k"
  by (simp add: round_half_even_def)

lemma floor_le_round_half_even: "\<lfloor>x\<rfloor> \<le> round_half_even x"
  by (simp add: round_half_even_def Let_def)

lemma round_half_even_ge:
  assumes "of_int k \<le> x"
  shows "k \<le> round_half_even x"
proof -
  from assms have "k \<le> \<lfloor>x\<rfloor>" by (simp add: le_floor_iff)
  with floor_le_round_half_even [of x] show ?thesis by simp
qed

lemma pow2_pos: "0 < pow2 k"
  by (simp add: pow2_def)

lemma round_double_unfold:
  assumes "x \<noteq> 0"
    and "q = pow2 (max (binary_exponent \<bar>x\<bar>) (- 1022) - 52)"
    and "y = of_int (round_half_even (\<bar>x\<bar> / q)) * q"
  shows "round_double x =
           (if pow2 1024 \<le> y then signed_inf (x < 0)
            else if y = 0 then signed_zero (x < 0)
            else Finite (if x < 0 then - y else y))"
  unfolding assms(2,3) round_double_def Let_def using assms(1) by (simp only: if_False)

lemma round_double_cases:
  "round_double x = PosInf \<or> round_double x = NegInf \<or> round_double x = NegZero
   \<or> (\<exists>r. round_double x = Finite r)"
  by (simp add: round_double_def Let_def signed_inf_def signed_zero_def)

lemma round_double_sign:
  assumes "round_double x = Finite r"
  shows "r < 0 \<longleftrightarrow> x < 0"
proof (cases "x = 0")
  case True
  with assms show ?thesis by (simp add: round_double_def)
next
  case False
  define q where "q = pow2 (max (binary_exponent \<bar>x\<bar>) (- 1022) - 52)"
  define y where "y = of_int (round_half_even (\<bar>x\<bar> / q)) * q"
  have q: "0 < q" by (simp add: q_def pow2_pos)
  then have "(0::real) \<le> \<bar>x\<bar> / q" by simp
  then have "0 \<le> round_half_even (\<bar>x\<bar> / q)" using round_half_even_ge [of 0] by simp
  with q have y: "0 \<le> y" by (simp add: y_def)
  from assms round_double_unfold [OF False q_def y_def]
  have "(y \<noteq> 0 \<and> r = (if x < 0 then - y else y)) \<or> (y = 0 \<and> \<not> x < 0 \<and> r = 0)"
    by (auto simp: signed_inf_def signed_zero_def split: if_splits)
  with y False show ?thesis by (cases "x < 0") auto
qed

lemma pow2_neg: "pow2 (- int k) = 1 / 2 ^ k"
  by (cases "k = 0") (simp_all add: pow2_def)

lemma pow2_nat: "pow2 (int k) = 2 ^ k"
  by (simp add: pow2_def)

lemma binary_exponent_of_int:
  assumes "i \<noteq> 0"
  shows "binary_exponent \<bar>of_int i\<bar> = int (bit_length (nat \<bar>i\<bar>)) - 1"
proof -
  have "1 \<le> \<bar>i\<bar>" using assms by simp
  then have "(1::real) \<le> \<bar>of_int i\<bar>" by (metis of_int_1_le_iff of_int_abs)
  moreover have "\<lfloor>\<bar>of_int i :: real\<bar>\<rfloor> = \<bar>i\<bar>" by (metis floor_of_int of_int_abs)
  ultimately show ?thesis by (simp add: binary_exponent_def)
qed

text \<open>An integer of at most 53 bits is a double.\<close>

lemma int_to_float_exact:
  assumes "\<bar>i\<bar> < 2 ^ 53"
  shows "int_to_float i = Inr (Finite (of_int i))"
proof (cases "i = 0")
  case True
  then show ?thesis by (simp add: int_to_float_def round_double_def)
next
  case False
  define n where "n = nat \<bar>i\<bar>"
  define b where "b = bit_length n"
  have n: "0 < n" "int n = \<bar>i\<bar>" using False by (simp_all add: n_def)
  from bit_length_bounds [OF n(1)] have lo: "2 ^ (b - 1) \<le> n" and hi: "n < 2 ^ b"
    by (simp_all add: b_def)
  have "n < 2 ^ 53" using assms n(2) by (metis of_nat_less_iff of_nat_numeral of_nat_power)
  with lo have lt: "(2::nat) ^ (b - 1) < 2 ^ 53" by simp
  have "b - 1 < 53" by (rule power_less_imp_less_exp [OF _ lt]) simp
  moreover have "0 < b" using hi n(1) by (cases b) simp_all
  ultimately have b: "0 < b" "b \<le> 53" by simp_all
  define k where "k = 53 - b"
  have e: "max (binary_exponent \<bar>of_int i\<bar>) (- 1022) - 52 = - int k"
    using b by (simp add: binary_exponent_of_int [OF False] n_def [symmetric] b_def [symmetric] k_def)
  define q :: real where "q = pow2 (max (binary_exponent \<bar>of_int i\<bar>) (- 1022) - 52)"
  define y :: real where "y = of_int (round_half_even (\<bar>of_int i\<bar> / q)) * q"
  have q: "q = 1 / 2 ^ k" by (simp add: q_def e pow2_neg)
  have "\<bar>of_int i\<bar> / q = of_int (\<bar>i\<bar> * 2 ^ k)" by (simp add: q)
  then have "round_half_even (\<bar>of_int i\<bar> / q) = \<bar>i\<bar> * 2 ^ k"
    by (simp only: round_half_even_of_int)
  then have y: "y = of_int \<bar>i\<bar>" by (simp add: y_def q)
  have "(of_int \<bar>i\<bar> :: real) < 2 ^ 53" using assms by (metis of_int_less_numeral_power_cancel_iff)
  also have "\<dots> \<le> 2 ^ 1024" by (rule power_increasing) simp_all
  finally have small: "\<not> pow2 1024 \<le> y" using pow2_nat [of 1024] by (simp add: y)
  have nz: "y \<noteq> 0" using False by (simp add: y)
  have x: "(of_int i :: real) \<noteq> 0" using False by simp
  have "round_double (of_int i) = Finite (if (of_int i :: real) < 0 then - y else y)"
    using round_double_unfold [OF x q_def y_def] small nz by simp
  also have "\<dots> = Finite (of_int i)" by (simp add: y)
  finally show ?thesis by (simp add: int_to_float_def)
qed

text \<open>An integer of more than 1024 bits is beyond the doubles.\<close>

lemma int_to_float_overflow:
  assumes "2 ^ 1024 \<le> \<bar>i\<bar>"
  shows "int_to_float i = Inl (OverflowError ''int too large to convert to float'')"
proof -
  have False: "i \<noteq> 0" using assms by auto
  define n where "n = nat \<bar>i\<bar>"
  define b where "b = bit_length n"
  have n: "0 < n" "int n = \<bar>i\<bar>" using False by (simp_all add: n_def)
  from bit_length_bounds [OF n(1)] have lo: "2 ^ (b - 1) \<le> n" and hi: "n < 2 ^ b"
    by (simp_all add: b_def)
  have "2 ^ 1024 \<le> n" using assms n(2) by (metis of_nat_le_iff of_nat_numeral of_nat_power)
  with hi have lt: "(2::nat) ^ 1024 < 2 ^ b" by simp
  have b: "1024 < b" by (rule power_less_imp_less_exp [OF _ lt]) simp
  define k where "k = b - 53"
  have e: "max (binary_exponent \<bar>of_int i\<bar>) (- 1022) - 52 = int k"
    using b by (simp add: binary_exponent_of_int [OF False] n_def [symmetric] b_def [symmetric] k_def)
  define q :: real where "q = pow2 (max (binary_exponent \<bar>of_int i\<bar>) (- 1022) - 52)"
  define y :: real where "y = of_int (round_half_even (\<bar>of_int i\<bar> / q)) * q"
  have q: "q = 2 ^ k" by (simp add: q_def e pow2_nat)
  have "(2::real) ^ (b - 1) \<le> of_nat n" using lo by (metis of_nat_le_iff of_nat_numeral of_nat_power)
  also have "of_nat n = \<bar>of_int i :: real\<bar>" using n(2) by (metis of_int_abs of_int_of_nat_eq)
  finally have "(2::real) ^ (b - 1) \<le> \<bar>of_int i\<bar>" .
  moreover have "b - 1 = 52 + k" using b by (simp add: k_def)
  then have pw: "(2::real) ^ (b - 1) = 2 ^ 52 * 2 ^ k" by (simp only: power_add)
  ultimately have "of_int (2 ^ 52) \<le> \<bar>of_int i :: real\<bar> / q"
    by (simp add: q pw pos_le_divide_eq)
  then have "2 ^ 52 \<le> round_half_even (\<bar>of_int i\<bar> / q)" by (rule round_half_even_ge)
  then have "(2::real) ^ 52 \<le> of_int (round_half_even (\<bar>of_int i\<bar> / q))"
    by (metis of_int_le_iff of_int_numeral of_int_power)
  then have "(2::real) ^ 52 * 2 ^ k \<le> y" by (simp add: y_def q)
  moreover have "(2::real) ^ 1024 \<le> 2 ^ (b - 1)"
    using b by (intro power_increasing) simp_all
  then have "(2::real) ^ 1024 \<le> 2 ^ 52 * 2 ^ k" by (simp only: pw)
  ultimately have big: "pow2 1024 \<le> y" using pow2_nat [of 1024] by simp
  have x: "(of_int i :: real) \<noteq> 0" using False by simp
  have "round_double (of_int i) = signed_inf ((of_int i :: real) < 0)"
    using round_double_unfold [OF x q_def y_def] big by simp
  then show ?thesis by (simp add: int_to_float_def signed_inf_def)
qed

section \<open>Numbers of the payload\<close>

lemma then_do_Inr: "then_do (Inr a) f = f a"
  by (simp add: then_do_def)

lemma then_do_Inl: "then_do (Inl e) f = Inl e"
  by (simp add: then_do_def)

lemma int_to_float_finite: "int_to_float i = Inr f \<Longrightarrow> \<exists>r. float_value f = Some r"
  using round_double_cases [of "of_int i"] by (auto simp: int_to_float_def)

lemma int_to_float_sign: "int_to_float i = Inr (Finite r) \<Longrightarrow> r < 0 \<longleftrightarrow> i < 0"
proof -
  assume "int_to_float i = Inr (Finite r)"
  then have "round_double (of_int i) = Finite r"
    by (simp add: int_to_float_def split: float.splits)
  from round_double_sign [OF this] show ?thesis by simp
qed

text \<open>A number with an exact value that converts to a float converts to a finite one.\<close>

lemma as_float_finite:
  assumes "exact_value v = Some x" and "as_float v = Some (Inr f)"
  shows "\<exists>r. float_value f = Some r"
  using assms by (cases v) (auto simp: as_float_def dest: int_to_float_finite)

lemma as_float_sign:
  assumes "exact_value v = Some x" and "as_float v = Some (Inr (Finite r))"
  shows "r < 0 \<longleftrightarrow> x < 0"
  using assms by (cases v) (auto simp: as_float_def dest: int_to_float_sign split: if_splits)

lemma py_ge_exact: "exact_value v = Some x \<Longrightarrow> py_ge v k = Inr (of_int k \<le> x)"
proof (cases v)
  case (JFloat f)
  assume "exact_value v = Some x"
  with JFloat show ?thesis by (cases f) (simp_all add: py_ge_def)
qed (auto simp: py_ge_def)

lemma py_abs_ge_exact:
  "exact_value v = Some x \<Longrightarrow> then_do (py_abs v) (\<lambda>a. py_ge a k) = Inr (of_int k \<le> \<bar>x\<bar>)"
proof (cases v)
  case (JFloat f)
  assume "exact_value v = Some x"
  with JFloat show ?thesis by (cases f) (simp_all add: py_abs_def py_ge_def then_do_def)
next
  case (JInt i)
  assume "exact_value v = Some x"
  with JInt have "x = of_int i" by simp
  moreover have "(of_int k \<le> \<bar>of_int i :: real\<bar>) = (k \<le> \<bar>i\<bar>)"
    by (metis of_int_abs of_int_le_iff)
  ultimately show ?thesis using JInt by (simp add: py_abs_def py_ge_def then_do_def)
next
  case (JBool b)
  assume "exact_value v = Some x"
  with JBool show ?thesis by (cases b) (simp_all add: py_abs_def py_ge_def then_do_def)
qed simp_all

lemma py_format_f_number:
  "as_float v = Some (Inr f) \<Longrightarrow> py_format_f comma prec v = Inr (format_float comma prec f)"
  by (simp add: py_format_f_def then_do_def)

lemma format_float_decimals:
  assumes "float_value f = Some r" and "0 < prec"
  shows "decimals (pre @ format_float comma prec f) = prec"
proof (cases f)
  case (Finite r)
  then show ?thesis using format_f_decimals [OF assms(2)] by simp
next
  case NegZero
  from format_f_decimals [OF assms(2), of "pre @ ''-''" comma 0] NegZero show ?thesis by simp
qed (use assms(1) in simp_all)

lemma format_float_no_comma:
  assumes "float_value f = Some r"
  shows "CHR '','' \<notin> set (format_float False prec f)"
  using assms format_f_no_comma by (cases f) simp_all

section \<open>Evaluation of the embedding on concrete inputs\<close>

lemmas py_eval =
  then_do_def fstring_def str_of_def api_get_def api_post_def api_delete_def
  try_except_def handle_error_def KeyError_def TypeError_def AttributeError_def quote_def
  not_subscriptable_def not_comparable_def bad_abs_def py_ge_def py_gt_def py_abs_def
  as_float_def py_format_f_def int_to_float_exact fmt_usd_def fmt_qty_def fmt_pct_def
  OverflowError_def newline_def example_runtime_def Let_def

section \<open>Sequencing\<close>

lemma then_do_eq_Inr: "(then_do m f = Inr y) = (\<exists>a. m = Inr a \<and> f a = Inr y)"
  by (cases m) (simp_all add: then_do_def)

lemma sequence_eq_Inr_Cons:
  "(sequence (m # ms) = Inr ys) = (\<exists>a as. m = Inr a \<and> sequence ms = Inr as \<and> ys = a # as)"
  by (cases m; cases "sequence ms") auto



lemma sequence_map_Inr: "\<forall>x \<in> set xs. f x = Inr (g x) \<Longrightarrow> sequence (map f xs) = Inr (map g xs)"
  by (induction xs) simp_all


section \<open>The currency formatter on the numbers of a payload\<close>

lemma fmt_usd_float: "\<exists>s. fmt_usd (JFloat f) = Inr s"
  by (cases f) (simp_all add: fmt_usd_def py_abs_def py_ge_def py_format_f_def as_float_def
        then_do_def fstring_def)

lemma py_format_f_integer:
  "as_integer v = Some i \<Longrightarrow> py_format_f comma prec v = py_format_f comma prec (JInt i)"
  by (simp add: py_format_f_def as_float_def)

lemma fmt_usd_integer:
  assumes "as_integer v = Some i"
  shows "fmt_usd v = fmt_usd (JInt i)"
  unfolding fmt_usd_def py_format_f_integer [OF assms] by (simp add: py_abs_def assms)

lemma fmt_usd_eq_Inr:
  assumes "fmt_usd v = Inr s"
  shows "\<exists>f. as_float v = Some (Inr f)"
proof -
  from assms obtain t where "py_format_f True 2 v = Inr t \<or> py_format_f False 6 v = Inr t"
    by (auto simp: fmt_usd_def then_do_eq_Inr fstring_def sequence_eq_Inr_Cons
          simp del: sequence.simps(2) split: if_splits)
  then show ?thesis
    by (auto simp: py_format_f_def then_do_eq_Inr split: option.splits json.splits)
qed

lemma py_gt_exact: "exact_value v = Some x \<Longrightarrow> py_gt v k = Inr (of_int k < x)"
proof (cases v)
  case (JFloat f)
  assume "exact_value v = Some x"
  with JFloat show ?thesis by (cases f) (simp_all add: py_gt_def)
qed (auto simp: py_gt_def)

text \<open>
  The difference of a value that renders as currency and a zero is computed, and renders
  as currency.
\<close>

lemma py_sub_zero:
  assumes "exact_value v0 = Some 0" and "fmt_usd v1 = Inr s"
  shows "\<exists>c a. py_sub v1 v0 = Inr c \<and> fmt_usd c = Inr a"
proof -
  from fmt_usd_eq_Inr [OF assms(2)] obtain f1 where f1: "as_float v1 = Some (Inr f1)" ..
  have "\<exists>f0. as_float v0 = Some (Inr f0)"
    using assms(1) by (cases v0) (auto simp: as_float_def int_to_float_exact split: if_splits)
  then obtain f0 where f0: "as_float v0 = Some (Inr f0)" ..
  show ?thesis
  proof (cases "as_integer v1")
    case None
    with f1 f0 have "py_sub v1 v0 = Inr (JFloat (float_sub f1 f0))"
      by (simp add: py_sub_def float_operands_def then_do_def)
    with fmt_usd_float show ?thesis by blast
  next
    case (Some i)
    note i = this
    show ?thesis
    proof (cases "as_integer v0")
      case None
      with i f1 f0 have "py_sub v1 v0 = Inr (JFloat (float_sub f1 f0))"
        by (simp add: py_sub_def float_operands_def then_do_def)
      with fmt_usd_float show ?thesis by blast
    next
      case (Some j)
      with assms(1) have "j = 0" by (cases v0) (auto split: if_splits)
      with i Some have "py_sub v1 v0 = Inr (JInt i)" by (simp add: py_sub_def)
      moreover have "fmt_usd (JInt i) = Inr s" using fmt_usd_integer [OF i] assms(2) by simp
      ultimately show ?thesis by blast
    qed
  qed
qed

lemma fmt_pct_zero: "fmt_pct (JInt 0) = Inr ''+0.00%''"
  by (simp add: py_eval number_eval)

section \<open>The numeric formatters\<close>

text \<open>
  Claim C7, as amended. For a finite number of the payload, a float other than the
  infinities and NaN or an integer that converts to a float, with the exact value \<open>x\<close>: the
  currency and quantity formatters pick their precision tier exactly at the stated
  magnitudes. \<open>fmt_usd\<close> renders two decimals with grouping when \<open>1 \<le> \<bar>x\<bar>\<close> and six decimals
  without any separator when \<open>\<bar>x\<bar> < 1\<close>; \<open>fmt_qty\<close> renders two decimals with grouping when
  \<open>100 \<le> \<bar>x\<bar>\<close>, four decimals with grouping when \<open>1 \<le> \<bar>x\<bar> < 100\<close>, and eight decimals
  without any separator when \<open>\<bar>x\<bar> < 1\<close>.
\<close>

theorem formatter_tiers:
  assumes "exact_value v = Some x" and "as_float v = Some (Inr f)"
  shows "(1 \<le> \<bar>x\<bar> \<longrightarrow> fmt_usd v = Inr (''$'' @ format_float True 2 f)
            \<and> decimals (''$'' @ format_float True 2 f) = 2)
   \<and> (\<bar>x\<bar> < 1 \<longrightarrow> fmt_usd v = Inr (''$'' @ format_float False 6 f)
            \<and> decimals (''$'' @ format_float False 6 f) = 6
            \<and> CHR '','' \<notin> set (''$'' @ format_float False 6 f))
   \<and> (100 \<le> \<bar>x\<bar> \<longrightarrow> fmt_qty v = Inr (format_float True 2 f)
            \<and> decimals (format_float True 2 f) = 2)
   \<and> (1 \<le> \<bar>x\<bar> \<and> \<bar>x\<bar> < 100 \<longrightarrow> fmt_qty v = Inr (format_float True 4 f)
            \<and> decimals (format_float True 4 f) = 4)
   \<and> (\<bar>x\<bar> < 1 \<longrightarrow> fmt_qty v = Inr (format_float False 8 f)
            \<and> decimals (format_float False 8 f) = 8
            \<and> CHR '','' \<notin> set (format_float False 8 f))"
proof -
  from as_float_finite [OF assms] obtain r where r: "float_value f = Some r" ..
  have d: "\<And>c p. 0 < p \<Longrightarrow> decimals (format_float c p f) = p"
    using format_float_decimals [OF r, of _ "[]"] by simp
  have d': "\<And>c p. 0 < p \<Longrightarrow> decimals (''$'' @ format_float c p f) = p"
    using format_float_decimals [OF r, of _ "''$''"] by simp
  have n: "\<And>p. CHR '','' \<notin> set (format_float False p f)"
    by (rule format_float_no_comma [OF r])
  have one: "then_do (py_abs v) (\<lambda>a. py_ge a 1) = Inr (1 \<le> \<bar>x\<bar>)"
    using py_abs_ge_exact [OF assms(1), of 1] by simp
  have hundred: "then_do (py_abs v) (\<lambda>a. py_ge a 100) = Inr (100 \<le> \<bar>x\<bar>)"
    using py_abs_ge_exact [OF assms(1), of 100] by simp
  note f = py_format_f_number [OF assms(2)]
  have usd_hi: "1 \<le> \<bar>x\<bar> \<longrightarrow> fmt_usd v = Inr (''$'' @ format_float True 2 f)"
    by (simp add: fmt_usd_def one f then_do_Inr fstring_def)
  have usd_lo: "\<bar>x\<bar> < 1 \<longrightarrow> fmt_usd v = Inr (''$'' @ format_float False 6 f)"
    by (simp add: fmt_usd_def one f then_do_Inr fstring_def)
  have qty_hi: "100 \<le> \<bar>x\<bar> \<longrightarrow> fmt_qty v = Inr (format_float True 2 f)"
    by (simp add: fmt_qty_def hundred f then_do_Inr)
  have qty_mid: "1 \<le> \<bar>x\<bar> \<and> \<bar>x\<bar> < 100 \<longrightarrow> fmt_qty v = Inr (format_float True 4 f)"
    by (simp add: fmt_qty_def hundred one f then_do_Inr)
  have qty_lo: "\<bar>x\<bar> < 1 \<longrightarrow> fmt_qty v = Inr (format_float False 8 f)"
    by (simp add: fmt_qty_def hundred one f then_do_Inr)
  from usd_hi usd_lo qty_hi qty_mid qty_lo d [of 2 True] d [of 4 True] d [of 8 False]
    d' [of 2 True] d' [of 6 False] n [of 6] n [of 8]
  show ?thesis by simp
qed

text \<open>The boundaries 1 and 100 as integers, values just below them, and a grouped amount.\<close>

theorem formatter_tiers_witness:
  "fmt_usd (JInt 1) = Inr ''$1.00''
   \<and> fmt_usd (JFloat (Finite 0.999999)) = Inr ''$0.999999''
   \<and> fmt_qty (JInt 100) = Inr ''100.00''
   \<and> fmt_qty (JFloat (Finite 99.9999)) = Inr ''99.9999''
   \<and> fmt_qty (JFloat (Finite 0.99999999)) = Inr ''0.99999999''
   \<and> fmt_usd (JFloat (Finite 1234567.125)) = Inr ''$1,234,567.12''
   \<and> decimals ''$1.00'' = 2 \<and> decimals ''$0.999999'' = 6 \<and> decimals ''100.00'' = 2
   \<and> decimals ''99.9999'' = 4 \<and> decimals ''0.99999999'' = 8"
proof -
  have v: "exact_value (JInt 1) = Some 1" "as_float (JInt 1) = Some (Inr (Finite 1))"
    "exact_value (JInt 100) = Some 100" "as_float (JInt 100) = Some (Inr (Finite 100))"
    "\<And>r. exact_value (JFloat (Finite r)) = Some r"
    "\<And>r. as_float (JFloat (Finite r)) = Some (Inr (Finite r))"
    by (simp_all add: as_float_def int_to_float_exact)
  have s: "format_float True 2 (Finite 1) = ''1.00''"
    "format_float False 6 (Finite 0.999999) = ''0.999999''"
    "format_float True 2 (Finite 100) = ''100.00''"
    "format_float True 4 (Finite 99.9999) = ''99.9999''"
    "format_float False 8 (Finite 0.99999999) = ''0.99999999''"
    "format_float True 2 (Finite 1234567.125) = ''1,234,567.12''"
    by (simp_all add: number_eval)
  have "1 \<le> \<bar>1 :: real\<bar>" by simp
  with formatter_tiers [OF v(1,2)] s(1)
  have a: "fmt_usd (JInt 1) = Inr ''$1.00''" "decimals ''$1.00'' = 2" by simp_all
  have "\<bar>0.999999 :: real\<bar> < 1" by simp
  with formatter_tiers [OF v(5,6), of "0.999999"] s(2)
  have b: "fmt_usd (JFloat (Finite 0.999999)) = Inr ''$0.999999''" "decimals ''$0.999999'' = 6"
    by simp_all
  have "100 \<le> \<bar>100 :: real\<bar>" by simp
  with formatter_tiers [OF v(3,4)] s(3)
  have c: "fmt_qty (JInt 100) = Inr ''100.00''" "decimals ''100.00'' = 2" by simp_all
  have "1 \<le> \<bar>99.9999 :: real\<bar> \<and> \<bar>99.9999 :: real\<bar> < 100" by simp
  with formatter_tiers [OF v(5,6), of "99.9999"] s(4)
  have d: "fmt_qty (JFloat (Finite 99.9999)) = Inr ''99.9999''" "decimals ''99.9999'' = 4"
    by simp_all
  have "\<bar>0.99999999 :: real\<bar> < 1" by simp
  with formatter_tiers [OF v(5,6), of "0.99999999"] s(5)
  have e: "fmt_qty (JFloat (Finite 0.99999999)) = Inr ''0.99999999''"
    "decimals ''0.99999999'' = 8"
    by simp_all
  have "1 \<le> \<bar>1234567.125 :: real\<bar>" by simp
  with formatter_tiers [OF v(5,6), of "1234567.125"] s(6)
  have f: "fmt_usd (JFloat (Finite 1234567.125)) = Inr ''$1,234,567.12''" by simp
  from a b c d e f show ?thesis by simp
qed

text \<open>
  Claim C7 as stated fails. The infinity that \<^verbatim>\<open>1e999\<close> decodes to has a magnitude of at
  least 1 and of at least 100, and both formatters render its name, with no decimal point;
  an integer of 401 digits has no rendering at all.
\<close>

theorem infinite_value_has_no_decimals:
  "float_ge (float_abs PosInf) 1 \<and> float_ge (float_abs PosInf) 100
   \<and> fmt_usd (JFloat PosInf) = Inr ''$inf'' \<and> CHR ''.'' \<notin> set ''$inf''
   \<and> fmt_qty (JFloat PosInf) = Inr ''inf'' \<and> CHR ''.'' \<notin> set ''inf''
   \<and> fmt_usd (JInt (10 ^ 400)) = Inl (PyError ''OverflowError'' ''int too large to convert to float'')"
proof -
  have "(2::int) ^ 1024 \<le> \<bar>10 ^ 400\<bar>" by simp
  then have "int_to_float (10 ^ 400)
               = Inl (OverflowError ''int too large to convert to float'')"
    by (rule int_to_float_overflow)
  then have "fmt_usd (JInt (10 ^ 400))
               = Inl (PyError ''OverflowError'' ''int too large to convert to float'')"
    by (simp add: fmt_usd_def py_abs_def py_ge_def py_format_f_def as_float_def then_do_def
          fstring_def OverflowError_def)
  moreover have "fmt_usd (JFloat PosInf) = Inr ''$inf''" "fmt_qty (JFloat PosInf) = Inr ''inf''"
    by (simp_all add: fmt_usd_def fmt_qty_def py_abs_def py_ge_def py_format_f_def as_float_def
          then_do_def fstring_def)
  ultimately show ?thesis by simp
qed

text \<open>
  Claim C8, as amended. For a finite number of the payload other than the negative zero,
  with the exact value \<open>x\<close>: the percentage formatter renders an explicit sign, \<open>+\<close> when
  \<open>0 \<le> x\<close> and \<open>-\<close> when \<open>x < 0\<close>, then the integer digits, a decimal point, exactly two
  decimals, and the percent sign.
\<close>

theorem fmt_pct_sign_and_decimals:
  assumes "exact_value v = Some x" and "as_float v = Some (Inr f)" and "f \<noteq> NegZero"
  shows "\<exists>ds d1 d2. fmt_pct v = Inr ((if 0 \<le> x then ''+'' else ''-'') @ ds @ ''.'' @ [d1, d2] @ ''%'')
      \<and> ds \<noteq> [] \<and> (\<forall>c \<in> set ds. is_digit c) \<and> is_digit d1 \<and> is_digit d2"
proof -
  from as_float_finite [OF assms(1,2)] assms(3) obtain r where r: "f = Finite r"
    by (cases f) auto
  from as_float_sign [OF assms(1)] assms(2) r have sign: "r < 0 \<longleftrightarrow> x < 0" by simp
  from format_f_shape [of 2 False r] obtain ip fp where
    f: "format_f False 2 r = (if r < 0 then ''-'' else '''') @ ip @ ''.'' @ fp"
    and ne: "ip \<noteq> []" and l: "length fp = 2"
    and fd: "\<forall>c \<in> set fp. is_digit c" and id: "\<forall>c \<in> set ip. is_digit c"
    by auto
  from l obtain d1 d2 where fp: "fp = [d1, d2]"
    by (cases fp; cases "tl fp") auto
  have "py_ge v 0 = Inr (0 \<le> x)" using py_ge_exact [OF assms(1), of 0] by simp
  moreover have "py_format_f False 2 v = Inr (format_f False 2 r)"
    using py_format_f_number [OF assms(2)] r by simp
  ultimately have "fmt_pct v = Inr ((if 0 \<le> x then ''+'' else ''-'') @ ip @ ''.'' @ [d1, d2] @ ''%'')"
    using f fp sign by (auto simp: fmt_pct_def then_do_def fstring_def Let_def)
  with ne id fd fp show ?thesis by auto
qed

theorem fmt_pct_sign_and_decimals_witness:
  "fmt_pct (JInt 0) = Inr ''+0.00%'' \<and> fmt_pct (JFloat (Finite (- 0.001))) = Inr ''-0.00%''
   \<and> fmt_pct (JFloat (Finite 12.375)) = Inr ''+12.38%''
   \<and> (\<exists>ds d1 d2. fmt_pct (JFloat (Finite (- 3.14159))) = Inr (''-'' @ ds @ ''.'' @ [d1, d2] @ ''%'')
         \<and> ds \<noteq> [] \<and> (\<forall>c \<in> set ds. is_digit c) \<and> is_digit d1 \<and> is_digit d2)"
proof -
  have a: "fmt_pct (JInt 0) = Inr ''+0.00%''" by (simp add: py_eval number_eval)
  have b: "fmt_pct (JFloat (Finite (- 0.001))) = Inr ''-0.00%''" by (simp add: py_eval number_eval)
  have c: "fmt_pct (JFloat (Finite 12.375)) = Inr ''+12.38%''" by (simp add: py_eval number_eval)
  have "exact_value (JFloat (Finite (- 3.14159))) = Some (- 3.14159)"
    "as_float (JFloat (Finite (- 3.14159))) = Some (Inr (Finite (- 3.14159)))"
    "Finite (- 3.14159) \<noteq> NegZero"
    by (simp_all add: as_float_def)
  from fmt_pct_sign_and_decimals [OF this] a b c show ?thesis by simp
qed

text \<open>
  Claim C8 as stated fails. NaN is rendered without a sign and without decimals, the
  negative zero with both signs, and the infinity without decimals.
\<close>

theorem special_floats_as_percentage:
  "fmt_pct (JFloat NaN) = Inr ''nan%''
   \<and> fmt_pct (JFloat NegZero) = Inr ''+-0.00%''
   \<and> fmt_pct (JFloat PosInf) = Inr ''+inf%''"
  by (simp add: py_eval number_eval)

section \<open>Error handling of the handlers\<close>

lemma handle_error_prefix: "take 6 (handle_error rt e) = ''Error:''"
  by (cases e) (simp_all add: handle_error_def Let_def)





section \<open>Validation\<close>

lemmas str_eval =
  str_strip_whitespace_def py_strip_def strip_with_def is_white_space_def py_isspace_def
  py_upper_def upper_char_def small_letters_def capital_letters_def validate_symbols_def
  uppercase_asset_def

lemma validate_symbols_example: "validate_symbols '' btc, eth ,,ada '' = ''BTC,ETH,ADA''"
  by (simp add: str_eval)

text \<open>Validation of the symbols fails exactly on the two declared length constraints.\<close>

lemma GetPricesInput_validate_fails_iff:
  "(\<exists>err. GetPricesInput_validate raw = Inl err)
     \<longleftrightarrow> (str_strip_whitespace raw = [] \<or> 200 < length (str_strip_whitespace raw))"
  by (auto simp: GetPricesInput_validate_def Let_def)

text \<open>
  An input that is empty after the trimming of surrounding white space is refused on the
  field \<open>symbols\<close>, whatever the gateway is: the handler does not run.
\<close>

lemma empty_symbols_rejected:
  "str_strip_whitespace raw = [] \<Longrightarrow>
     GetPricesInput_validate raw = Inl (ValidationError [(''symbols'', ''string_too_short'')])
     \<and> invoke_get_prices rt ctx raw = Inl (ValidationError [(''symbols'', ''string_too_short'')])"
  by (simp add: GetPricesInput_validate_def invoke_get_prices_def)

text \<open>
  Claim C2. The code departs from the claim at the input \<open>,\<close>. It splits into two empty
  segments, so no segment has a character that is not white space and the normalised list
  is empty; yet the input passes validation, because the minimum length is checked on the
  raw string before the field validator normalises it, and the validator returns the empty
  string without raising. The handler then runs and sends the empty symbols to the backend.
\<close>

theorem comma_only_symbols_accepted:
  "py_split CHR '','' '','' = ['''', '''']
   \<and> py_strip '''' = ''''
   \<and> validate_symbols '','' = ''''
   \<and> GetPricesInput_validate '','' = Inr \<lparr>GetPricesInput.symbols = ''''\<rparr>
   \<and> invoke_get_prices example_runtime empty_symbols_gateway '','' = Inr ''No prices found for: ''"
  by (simp add: GetPricesInput_validate_def invoke_get_prices_def str_eval
        portfolio_get_prices_def portfolio_get_prices_try_def py_eval empty_symbols_gateway_def)

lemma max_length_None: "max_length f n None = []"
  by (simp add: max_length_def)

lemma fst_max_length: "e \<in> set (max_length f n v) \<Longrightarrow> fst e = f"
  by (auto simp: max_length_def split: option.splits if_splits)

text \<open>
  Claim C6. An add-transaction input of kind Swap whose \<open>from_asset\<close>, \<open>from_quantity\<close> and
  \<open>from_price_usd\<close> are all absent is accepted whenever its other fields satisfy their own
  constraints, and a validation error for such an input never names one of the three
  absent fields or the kind.
\<close>

theorem swap_requirement_not_enforced:
  assumes "type raw = SWAP"
    and "from_asset raw = None" and "from_quantity raw = None" and "from_price_usd raw = None"
  shows "(1 \<le> AddTransactionInput.portfolio_id raw
          \<and> 1 \<le> length (str_strip_whitespace (uppercase_asset (to_asset raw)))
          \<and> length (str_strip_whitespace (uppercase_asset (to_asset raw))) \<le> 10
          \<and> 0 \<le> to_quantity raw
          \<and> (\<forall>n. tx_notes raw = Some n \<longrightarrow> length (str_strip_whitespace n) \<le> 500)
          \<longrightarrow> (\<exists>v. AddTransactionInput_validate raw = Inr v \<and> type v = SWAP
                 \<and> from_asset v = None \<and> from_quantity v = None \<and> from_price_usd v = None))
       \<and> (\<forall>errs. AddTransactionInput_validate raw = Inl (ValidationError errs) \<longrightarrow>
             set (map fst errs) \<subseteq> {''portfolio_id'', ''to_asset'', ''to_quantity'', ''notes''})"
proof (intro conjI impI allI)
  assume ok: "1 \<le> AddTransactionInput.portfolio_id raw
          \<and> 1 \<le> length (str_strip_whitespace (uppercase_asset (to_asset raw)))
          \<and> length (str_strip_whitespace (uppercase_asset (to_asset raw))) \<le> 10
          \<and> 0 \<le> to_quantity raw
          \<and> (\<forall>n. tx_notes raw = Some n \<longrightarrow> length (str_strip_whitespace n) \<le> 500)"
  then have "max_length ''notes'' 500 (map_option str_strip_whitespace (tx_notes raw)) = []"
    by (cases "tx_notes raw") (simp_all add: max_length_def)
  moreover from ok have "str_strip_whitespace (uppercase_asset (to_asset raw)) \<noteq> []"
    by auto
  ultimately show "\<exists>v. AddTransactionInput_validate raw = Inr v \<and> type v = SWAP
                 \<and> from_asset v = None \<and> from_quantity v = None \<and> from_price_usd v = None"
    using ok assms by (simp add: AddTransactionInput_validate_def Let_def max_length_def)
next
  fix errs
  assume "AddTransactionInput_validate raw = Inl (ValidationError errs)"
  with assms have "errs =
      (if AddTransactionInput.portfolio_id raw < 1
       then [(''portfolio_id'', ''greater_than_equal'')] else [])
      @ (if length (str_strip_whitespace (uppercase_asset (to_asset raw))) < 1
         then [(''to_asset'', ''string_too_short'')] else [])
      @ max_length ''to_asset'' 10 (Some (str_strip_whitespace (uppercase_asset (to_asset raw))))
      @ (if to_quantity raw < 0 then [(''to_quantity'', ''greater_than_equal'')] else [])
      @ max_length ''notes'' 500 (map_option str_strip_whitespace (tx_notes raw))"
    by (simp add: AddTransactionInput_validate_def Let_def max_length_None split: if_splits)
  then show "set (map fst errs) \<subseteq> {''portfolio_id'', ''to_asset'', ''to_quantity'', ''notes''}"
    by (auto dest: fst_max_length)
qed

theorem swap_requirement_not_enforced_witness:
  "AddTransactionInput_validate example_swap = Inr (example_swap\<lparr>to_asset := ''ADA''\<rparr>)"
proof -
  have "\<exists>v. AddTransactionInput_validate example_swap = Inr v"
    using swap_requirement_not_enforced [of example_swap]
    by (simp add: example_swap_def str_eval) blast
  then show ?thesis
    by (auto simp: AddTransactionInput_validate_def Let_def example_swap_def str_eval
          max_length_def split: if_splits)
qed


section \<open>The holdings handler and the output mode\<close>

lemma json_dumps_object_hd: "hd (json_dumps rt (JObj kvs)) = CHR ''{''"
  by (simp add: json_dumps_def)

lemma handle_error_not_sentinel: "handle_error rt e \<noteq> ''Portfolio is empty - no holdings found.''"
proof
  assume "handle_error rt e = ''Portfolio is empty - no holdings found.''"
  then have "take 6 (handle_error rt e) = take 6 ''Portfolio is empty - no holdings found.''"
    by simp
  then show False by (simp add: handle_error_prefix)
qed

lemma json_dumps_object_not_sentinel:
  "json_dumps rt (JObj kvs) \<noteq> ''Portfolio is empty - no holdings found.''"
proof
  assume "json_dumps rt (JObj kvs) = ''Portfolio is empty - no holdings found.''"
  then have "hd (json_dumps rt (JObj kvs)) = hd ''Portfolio is empty - no holdings found.''"
    by simp
  then show False by (simp add: json_dumps_object_hd)
qed

lemma holdings_json_mode:
  "portfolio_get_holdings rt ctx \<lparr>GetHoldingsInput.portfolio_id = pid, response_format = JSON\<rparr>
     = (case ctx (holdings_request pid) of
          Inr data \<Rightarrow> json_dumps rt data
        | Inl e \<Rightarrow> handle_error rt e)"
  by (simp add: portfolio_get_holdings_def portfolio_get_holdings_try_def then_do_def
        try_except_def api_get_def holdings_request_def split: sum.splits)

lemma holdings_json_mode_never_sentinel:
  assumes "\<And>data. ctx (holdings_request pid) = Inr data \<Longrightarrow> \<exists>kvs. data = JObj kvs"
  shows "portfolio_get_holdings rt ctx
           \<lparr>GetHoldingsInput.portfolio_id = pid, response_format = JSON\<rparr>
         \<noteq> ''Portfolio is empty - no holdings found.''"
proof (cases "ctx (holdings_request pid)")
  case (Inl e)
  then show ?thesis by (simp add: holdings_json_mode handle_error_not_sentinel)
next
  case (Inr data)
  with assms obtain kvs where "data = JObj kvs" by blast
  with Inr show ?thesis by (simp add: holdings_json_mode json_dumps_object_not_sentinel)
qed

text \<open>
  Claim C10. The holdings handler tests the output mode before it looks at the holdings:
  for a payload whose holdings list is empty, the JSON mode returns the JSON echo of the
  payload, which is not the sentinel sentence, and the narrative mode returns the sentinel
  \<open>Portfolio is empty - no holdings found.\<close>
\<close>

theorem holdings_json_mode_before_empty_check:
  assumes "ctx (holdings_request pid) = Inr (JObj kvs)"
    and "dict_get (JObj kvs) ''holdings'' (JArr []) = Inr holdings"
    and "\<not> truthy holdings"
  shows "portfolio_get_holdings rt ctx
           \<lparr>GetHoldingsInput.portfolio_id = pid, response_format = JSON\<rparr>
         = json_dumps rt (JObj kvs)
     \<and> portfolio_get_holdings rt ctx
           \<lparr>GetHoldingsInput.portfolio_id = pid, response_format = JSON\<rparr>
         \<noteq> ''Portfolio is empty - no holdings found.''
     \<and> portfolio_get_holdings rt ctx
           \<lparr>GetHoldingsInput.portfolio_id = pid, response_format = MARKDOWN\<rparr>
         = ''Portfolio is empty - no holdings found.''"
proof -
  have j: "portfolio_get_holdings rt ctx
           \<lparr>GetHoldingsInput.portfolio_id = pid, response_format = JSON\<rparr>
         = json_dumps rt (JObj kvs)"
    using assms(1) by (simp add: holdings_json_mode)
  have m: "portfolio_get_holdings rt ctx
           \<lparr>GetHoldingsInput.portfolio_id = pid, response_format = MARKDOWN\<rparr>
         = ''Portfolio is empty - no holdings found.''"
    using assms
    by (simp add: portfolio_get_holdings_def portfolio_get_holdings_try_def then_do_def
          try_except_def api_get_def holdings_request_def)
  from j m json_dumps_object_not_sentinel [of rt kvs] show ?thesis by simp
qed

lemmas json_eval = json_dumps_def newline_indent_def newline_def encode_basestring_ascii_def
  escape_char_def str_int_def str_nat_small str_nat_large digit_char_def replicate_numeral

theorem holdings_json_mode_before_empty_check_witness:
  "portfolio_get_holdings example_runtime
      (\<lambda>req. if req = holdings_request 1
              then Inr (JObj [(''holdings'', JArr []), (''summary'', JObj [(''totalValue'', JInt 0)])])
              else Inl ConnectError)
      \<lparr>GetHoldingsInput.portfolio_id = 1, response_format = JSON\<rparr>
    = ''{'' @ newline @ ''  '' @ [CHR 0x22] @ ''holdings'' @ [CHR 0x22] @ '': [],'' @ newline
      @ ''  '' @ [CHR 0x22] @ ''summary'' @ [CHR 0x22] @ '': {'' @ newline
      @ ''    '' @ [CHR 0x22] @ ''totalValue'' @ [CHR 0x22] @ '': 0'' @ newline
      @ ''  }'' @ newline @ ''}''
   \<and> portfolio_get_holdings example_runtime
      (\<lambda>req. if req = holdings_request 1
              then Inr (JObj [(''holdings'', JArr []), (''summary'', JObj [(''totalValue'', JInt 0)])])
              else Inl ConnectError)
      \<lparr>GetHoldingsInput.portfolio_id = 1, response_format = MARKDOWN\<rparr>
    = ''Portfolio is empty - no holdings found.''"
proof -
  let ?kvs = "[(''holdings'', JArr []), (''summary'', JObj [(''totalValue'', JInt 0)])]"
  let ?ctx = "\<lambda>req. if req = holdings_request 1 then Inr (JObj ?kvs) else Inl ConnectError"
  have a: "?ctx (holdings_request 1) = Inr (JObj ?kvs)" by simp
  have b: "dict_get (JObj ?kvs) ''holdings'' (JArr []) = Inr (JArr [])" by simp
  have c: "\<not> truthy (JArr [])" by simp
  have d: "json_dumps example_runtime (JObj ?kvs)
    = ''{'' @ newline @ ''  '' @ [CHR 0x22] @ ''holdings'' @ [CHR 0x22] @ '': [],'' @ newline
      @ ''  '' @ [CHR 0x22] @ ''summary'' @ [CHR 0x22] @ '': {'' @ newline
      @ ''    '' @ [CHR 0x22] @ ''totalValue'' @ [CHR 0x22] @ '': 0'' @ newline
      @ ''  }'' @ newline @ ''}''"
    by (simp add: json_eval)
  from holdings_json_mode_before_empty_check
         [where ctx = ?ctx and pid = 1 and kvs = ?kvs and holdings = "JArr []"
            and rt = example_runtime] a b c d
  show ?thesis by simp
qed


section \<open>The value history\<close>

lemma py_index_first: "xs \<noteq> [] \<Longrightarrow> py_index (JArr xs) 0 = Inr (hd xs)"
  by (cases xs) simp_all

lemma py_index_last: "xs \<noteq> [] \<Longrightarrow> py_index (JArr xs) (- 1) = Inr (last xs)"
  by (cases xs rule: rev_cases) (auto simp: nth_append)

lemma int_to_float_oversized:
  "int_to_float oversized = Inl (OverflowError ''int too large to convert to float'')"
proof -
  have "(2::int) ^ 1024 \<le> \<bar>oversized\<bar>" by (simp add: oversized_def)
  then show ?thesis by (rule int_to_float_overflow)
qed

lemma fmt_usd_oversized:
  "fmt_usd (JInt oversized) = Inl (PyError ''OverflowError'' ''int too large to convert to float'')"
proof -
  have "1 \<le> \<bar>oversized\<bar>" by (simp add: oversized_def)
  then show ?thesis
    by (simp add: fmt_usd_def py_abs_def py_ge_def py_format_f_def as_float_def then_do_def
          fstring_def int_to_float_oversized OverflowError_def)
qed

text \<open>
  Claim C5, as amended. For a payload whose history is a non-empty list of entries, each
  with a date and a total value that renders as currency, and whose first total value is
  zero: the narrative rendering succeeds (no division is attempted, so none by zero), its
  change line shows the percent change \<open>+0.00%\<close> next to the absolute change, and the
  handler returns the joined lines.
\<close>

theorem history_zero_first_value:
  assumes api: "ctx (history_request pid n) = Inr data"
    and hist: "dict_get data ''history'' (JArr []) = Inr (JArr entries)"
    and ne: "entries \<noteq> []"
    and wf: "\<forall>e \<in> set entries. \<exists>d v s. getitem e ''date'' = Inr d
               \<and> getitem e ''totalValue'' = Inr v \<and> fmt_usd v = Inr s"
    and first: "getitem (hd entries) ''totalValue'' = Inr v0" "exact_value v0 = Some 0"
    and final: "getitem (last entries) ''totalValue'' = Inr v1"
  shows "\<exists>lines change amount. history_lines rt n (JArr entries) = Inr lines
           \<and> length lines = 6 + length entries
           \<and> py_sub v1 v0 = Inr change \<and> fmt_usd change = Inr amount
           \<and> lines ! 4 = ''**Change:** '' @ amount @ '' (+0.00%)''
           \<and> portfolio_get_history rt ctx
                \<lparr>GetHistoryInput.portfolio_id = pid, days = n, response_format = MARKDOWN\<rparr>
              = str_join newline lines"
proof -
  from ne have hd_in: "hd entries \<in> set entries" and last_in: "last entries \<in> set entries"
    by simp_all
  from wf hd_in first(1) obtain d0 s0 where
    d0: "getitem (hd entries) ''date'' = Inr d0" and s0: "fmt_usd v0 = Inr s0"
    by fastforce
  from wf last_in final obtain d1 s1 where
    d1: "getitem (last entries) ''date'' = Inr d1" and s1: "fmt_usd v1 = Inr s1"
    by fastforce
  from py_sub_zero [OF first(2) s1] obtain change amount where
    c: "py_sub v1 v0 = Inr change" "fmt_usd change = Inr amount"
    by blast
  have gt: "py_gt v0 0 = Inr False" using py_gt_exact [OF first(2), of 0] by simp
  define g where "g e = ''- '' @ py_str rt (projr (getitem e ''date'')) @ '': ''
                    @ projr (fmt_usd (projr (getitem e ''totalValue'')))" for e
  have "\<forall>e \<in> set entries. history_entry_line rt e = Inr (g e)"
  proof
    fix e assume "e \<in> set entries"
    with wf obtain d v s where "getitem e ''date'' = Inr d" "getitem e ''totalValue'' = Inr v"
      "fmt_usd v = Inr s" by blast
    then show "history_entry_line rt e = Inr (g e)"
      by (simp add: history_entry_line_def g_def fstring_def then_do_def str_of_def)
  qed
  then have body: "sequence (map (history_entry_line rt) entries) = Inr (map g entries)"
    by (rule sequence_map_Inr)
  define lines where "lines =
     [''# Portfolio Value History ('' @ str_int n @ '' days)'', '''',
      ''**Period:** '' @ py_str rt d0 @ '' to '' @ py_str rt d1,
      ''**Start:** '' @ s0 @ '' | **End:** '' @ s1,
      ''**Change:** '' @ amount @ '' (+0.00%)'', ''''] @ map g entries"
  have hl: "history_lines rt n (JArr entries) = Inr lines"
    using ne d0 d1 first(1) final s0 s1 c gt body
    by (simp add: history_lines_def py_index_first py_index_last then_do_def fstring_def
          str_of_def fmt_pct_zero lines_def del: py_index.simps)
  have "\<not> (entries = [])" using ne .
  then have "truthy (JArr entries)" by simp
  with api hist hl have "portfolio_get_history rt ctx
                \<lparr>GetHistoryInput.portfolio_id = pid, days = n, response_format = MARKDOWN\<rparr>
              = str_join newline lines"
    by (simp add: portfolio_get_history_def portfolio_get_history_try_def then_do_def
          try_except_def api_get_def history_request_def)
  moreover have "length lines = 6 + length entries" by (simp add: lines_def)
  moreover have "lines ! 4 = ''**Change:** '' @ amount @ '' (+0.00%)''" by (simp add: lines_def)
  ultimately show ?thesis using hl c by blast
qed

text \<open>A history with the single entry of value 0.\<close>

theorem history_zero_first_value_witness:
  "portfolio_get_history example_runtime
     (\<lambda>req. if req = history_request 1 7
             then Inr (JObj [(''history'', JArr [JObj [(''date'', JStr ''2025-01-01''), (''totalValue'', JInt 0)]])])
             else Inl ConnectError)
     \<lparr>GetHistoryInput.portfolio_id = 1, days = 7, response_format = MARKDOWN\<rparr>
   = ''# Portfolio Value History (7 days)'' @ newline @ newline
     @ ''**Period:** 2025-01-01 to 2025-01-01'' @ newline
     @ ''**Start:** $0.000000 | **End:** $0.000000'' @ newline
     @ ''**Change:** $0.000000 (+0.00%)'' @ newline @ newline
     @ ''- 2025-01-01: $0.000000''"
proof -
  let ?e = "JObj [(''date'', JStr ''2025-01-01''), (''totalValue'', JInt 0)]"
  let ?data = "JObj [(''history'', JArr [?e])]"
  let ?ctx = "\<lambda>req. if req = history_request 1 7 then Inr ?data else Inl ConnectError"
  have z: "fmt_usd (JInt 0) = Inr ''$0.000000''" by (simp add: py_eval number_eval)
  have a: "?ctx (history_request 1 7) = Inr ?data" by simp
  have b: "dict_get ?data ''history'' (JArr []) = Inr (JArr [?e])" by simp
  have c: "[?e] \<noteq> []" by simp
  have d: "\<forall>e \<in> set [?e]. \<exists>d v s. getitem e ''date'' = Inr d
               \<and> getitem e ''totalValue'' = Inr v \<and> fmt_usd v = Inr s" by (simp add: z)
  have e: "getitem (hd [?e]) ''totalValue'' = Inr (JInt 0)" "exact_value (JInt 0) = Some 0"
    by simp_all
  have f: "getitem (last [?e]) ''totalValue'' = Inr (JInt 0)" by simp
  from history_zero_first_value [where ctx = ?ctx and rt = example_runtime, OF a b c d e f]
  obtain lines where
    l: "history_lines example_runtime 7 (JArr [?e]) = Inr lines"
    and o: "portfolio_get_history example_runtime ?ctx
              \<lparr>GetHistoryInput.portfolio_id = 1, days = 7, response_format = MARKDOWN\<rparr>
            = str_join newline lines"
    by blast
  have "history_lines example_runtime 7 (JArr [?e]) = Inr
     [''# Portfolio Value History (7 days)'', '''', ''**Period:** 2025-01-01 to 2025-01-01'',
      ''**Start:** $0.000000 | **End:** $0.000000'', ''**Change:** $0.000000 (+0.00%)'', '''',
      ''- 2025-01-01: $0.000000'']"
    by (simp add: history_lines_def history_entry_line_def py_sub_def z fmt_pct_zero
          then_do_def fstring_def str_of_def py_gt_def str_int_def str_nat_small digit_char_def)
  with l have "lines =
     [''# Portfolio Value History (7 days)'', '''', ''**Period:** 2025-01-01 to 2025-01-01'',
      ''**Start:** $0.000000 | **End:** $0.000000'', ''**Change:** $0.000000 (+0.00%)'', '''',
      ''- 2025-01-01: $0.000000'']"
    by simp
  with o show ?thesis by (simp add: newline_def)
qed

text \<open>
  Claim C5 as stated fails. The first total value of this history is zero and its last one
  is an integer of 401 digits, which has no rendering as currency: the handler returns the
  classified error and no percent change.
\<close>

theorem history_with_oversized_value:
  "dict_get oversized_history ''history'' (JArr [])
     = Inr (JArr [JObj [(''date'', JStr ''2025-01-01''), (''totalValue'', JInt 0)],
                  JObj [(''date'', JStr ''2025-01-02''), (''totalValue'', JInt oversized)]])
   \<and> exact_value (JInt 0) = Some 0
   \<and> portfolio_get_history example_runtime oversized_history_gateway
        \<lparr>GetHistoryInput.portfolio_id = 1, days = 7, response_format = MARKDOWN\<rparr>
      = ''Error: OverflowError: int too large to convert to float''"
proof -
  have z: "fmt_usd (JInt 0) = Inr ''$0.000000''" by (simp add: py_eval number_eval)
  show ?thesis
    by (simp add: portfolio_get_history_def portfolio_get_history_try_def history_lines_def
          oversized_history_gateway_def oversized_history_def py_sub_def py_gt_def
          z fmt_usd_oversized then_do_def fstring_def str_of_def api_get_def
          history_request_def try_except_def handle_error_def)
qed

section \<open>Truncation of the transaction list and of the tax events\<close>









lemma example_tx_line:
  "tx_line example_runtime example_tx = Inr ''- **2025-01-15** [Deposit] Deposit 0.50000000 BTC @ $67,000.00 (ID: 7)''"
  by (simp add: tx_line_def tx_desc_def example_tx_def py_eval number_eval)







section \<open>The lines of deposits and withdrawals\<close>

lemma tx_line_shape:
  assumes "tx_line rt tx = Inr line"
  shows "\<exists>dt tx_type desc fees nts ident.
           dict_get tx ''type'' (JStr ''?'') = Inr tx_type
         \<and> tx_desc rt tx tx_type = Inr desc
         \<and> line = ''- **'' @ dt @ ''** ['' @ py_str rt tx_type @ ''] '' @ desc @ fees @ nts
                   @ '' (ID: '' @ ident @ '')''"
proof -
  from assms obtain dt tx_type desc fees nts ident where
    "dict_get tx ''type'' (JStr ''?'') = Inr tx_type" "tx_desc rt tx tx_type = Inr desc"
    "line = ''- **'' @ py_str rt dt @ ''** ['' @ py_str rt tx_type @ ''] '' @ desc @ fees @ nts
                   @ '' (ID: '' @ py_str rt ident @ '')''"
    unfolding tx_line_def then_do_eq_Inr fstring_def str_of_def
    by (auto simp: sequence_eq_Inr_Cons then_do_eq_Inr simp del: sequence.simps(2))
  then show ?thesis by blast
qed

text \<open>
  Claim C3, as amended. In the narrative of the transaction list, the line of a
  transaction of kind Deposit shows \<open>Deposit\<close>, the formatted quantity, the asset and, when
  the payload has a unit price that is truthy (not null, not zero), \<open>@\<close> and that price
  formatted as currency; the line of a transaction of kind Withdrawal shows \<open>Withdraw\<close>,
  the formatted quantity and the asset.
\<close>

theorem deposit_withdrawal_line:
  assumes line: "tx_line rt tx = Inr line"
    and kind: "dict_get tx ''type'' (JStr ''?'') = Inr (JStr kind)"
    and qty: "dict_get tx ''toQuantity'' (JInt 0) = Inr quantity"
    and asset: "dict_get tx ''toAsset'' (JStr ''?'') = Inr asset"
    and price: "dict_get tx ''toPriceUsd'' JNull = Inr price"
  shows "(kind = ''Deposit'' \<longrightarrow>
           (\<exists>qs pre suf. fmt_qty quantity = Inr qs
              \<and> (truthy price \<longrightarrow> (\<exists>ps. fmt_usd price = Inr ps))
              \<and> line = pre @ ''Deposit '' @ qs @ '' '' @ py_str rt asset
                       @ (if truthy price then '' @ '' @ projr (fmt_usd price) else '''')
                       @ suf))
       \<and> (kind = ''Withdrawal'' \<longrightarrow>
           (\<exists>qs pre suf. fmt_qty quantity = Inr qs
              \<and> line = pre @ ''Withdraw '' @ qs @ '' '' @ py_str rt asset @ suf))"
proof (intro conjI impI)
  from tx_line_shape [OF line] kind obtain dt desc fees nts ident where
    desc: "tx_desc rt tx (JStr kind) = Inr desc"
    and l: "line = ''- **'' @ dt @ ''** ['' @ kind @ ''] '' @ desc @ fees @ nts
                   @ '' (ID: '' @ ident @ '')''"
    by auto
  {
    assume k: "kind = ''Deposit''"
    from desc k qty asset price obtain qs where
      q: "fmt_qty quantity = Inr qs"
      and d: "desc = ''Deposit '' @ qs @ '' '' @ py_str rt asset
                @ (if truthy price then '' @ '' @ projr (fmt_usd price) else '''')"
      and p: "truthy price \<longrightarrow> (\<exists>ps. fmt_usd price = Inr ps)"
      by (cases tx)
         (auto simp: tx_desc_def then_do_eq_Inr fstring_def str_of_def sequence_eq_Inr_Cons
            simp del: sequence.simps(2) split: if_splits option.splits)
    from l d have "line = (''- **'' @ dt @ ''** ['' @ kind @ ''] '') @ ''Deposit '' @ qs @ '' '' @ py_str rt asset
                       @ (if truthy price then '' @ '' @ projr (fmt_usd price) else '''')
                       @ (fees @ nts @ '' (ID: '' @ ident @ '')'')"
      by simp
    with q p show "\<exists>qs pre suf. fmt_qty quantity = Inr qs
              \<and> (truthy price \<longrightarrow> (\<exists>ps. fmt_usd price = Inr ps))
              \<and> line = pre @ ''Deposit '' @ qs @ '' '' @ py_str rt asset
                       @ (if truthy price then '' @ '' @ projr (fmt_usd price) else '''')
                       @ suf"
      by blast
  }
  {
    assume k: "kind = ''Withdrawal''"
    from desc k qty asset obtain qs where
      q: "fmt_qty quantity = Inr qs"
      and d: "desc = ''Withdraw '' @ qs @ '' '' @ py_str rt asset"
      by (cases tx)
         (auto simp: tx_desc_def then_do_eq_Inr fstring_def str_of_def sequence_eq_Inr_Cons
            simp del: sequence.simps(2) split: if_splits option.splits)
    from l d have "line = (''- **'' @ dt @ ''** ['' @ kind @ ''] '') @ ''Withdraw '' @ qs @ '' '' @ py_str rt asset
                       @ (fees @ nts @ '' (ID: '' @ ident @ '')'')"
      by simp
    with q show "\<exists>qs pre suf. fmt_qty quantity = Inr qs
              \<and> line = pre @ ''Withdraw '' @ qs @ '' '' @ py_str rt asset @ suf"
      by blast
  }
qed

lemma example_withdrawal_line:
  "tx_line example_runtime example_withdrawal
     = Inr ''- **2025-02-01** [Withdrawal] Withdraw 1,000.00 USDC (ID: 8)''"
  by (simp add: tx_line_def tx_desc_def example_withdrawal_def py_eval number_eval)

theorem deposit_withdrawal_line_witness:
  "(\<exists>qs pre suf. fmt_qty (JFloat (Finite 0.5)) = Inr qs
       \<and> (truthy (JInt 67000) \<longrightarrow> (\<exists>ps. fmt_usd (JInt 67000) = Inr ps))
       \<and> ''- **2025-01-15** [Deposit] Deposit 0.50000000 BTC @ $67,000.00 (ID: 7)''
           = pre @ ''Deposit '' @ qs @ '' '' @ py_str example_runtime (JStr ''BTC'')
             @ (if truthy (JInt 67000) then '' @ '' @ projr (fmt_usd (JInt 67000)) else '''')
             @ suf)
   \<and> (\<exists>qs pre suf. fmt_qty (JInt 1000) = Inr qs
       \<and> ''- **2025-02-01** [Withdrawal] Withdraw 1,000.00 USDC (ID: 8)''
           = pre @ ''Withdraw '' @ qs @ '' '' @ py_str example_runtime (JStr ''USDC'') @ suf)
   \<and> fmt_qty (JFloat (Finite 0.5)) = Inr ''0.50000000''
   \<and> fmt_usd (JInt 67000) = Inr ''$67,000.00''
   \<and> fmt_qty (JInt 1000) = Inr ''1,000.00''"
proof -
  have d: "dict_get example_tx ''type'' (JStr ''?'') = Inr (JStr ''Deposit'')"
    "dict_get example_tx ''toQuantity'' (JInt 0) = Inr (JFloat (Finite 0.5))"
    "dict_get example_tx ''toAsset'' (JStr ''?'') = Inr (JStr ''BTC'')"
    "dict_get example_tx ''toPriceUsd'' JNull = Inr (JInt 67000)"
    by (simp_all add: example_tx_def)
  have w: "dict_get example_withdrawal ''type'' (JStr ''?'') = Inr (JStr ''Withdrawal'')"
    "dict_get example_withdrawal ''toQuantity'' (JInt 0) = Inr (JInt 1000)"
    "dict_get example_withdrawal ''toAsset'' (JStr ''?'') = Inr (JStr ''USDC'')"
    "dict_get example_withdrawal ''toPriceUsd'' JNull = Inr (JInt 1)"
    by (simp_all add: example_withdrawal_def)
  have f: "fmt_qty (JFloat (Finite 0.5)) = Inr ''0.50000000''"
    "fmt_usd (JInt 67000) = Inr ''$67,000.00''"
    "fmt_qty (JInt 1000) = Inr ''1,000.00''"
    by (simp_all add: py_eval number_eval)
  from deposit_withdrawal_line [OF example_tx_line d]
    deposit_withdrawal_line [OF example_withdrawal_line w] f
  show ?thesis by blast
qed

text \<open>
  Claim C3 as stated fails: a withdrawal whose payload has the unit price 1 is rendered
  without it, and so is a deposit whose payload has the unit price 0.
\<close>

theorem withdrawal_and_zero_price_lines:
  "tx_line example_runtime example_withdrawal
     = Inr ''- **2025-02-01** [Withdrawal] Withdraw 1,000.00 USDC (ID: 8)''
   \<and> dict_get example_withdrawal ''toPriceUsd'' JNull = Inr (JInt 1)
   \<and> fmt_usd (JInt 1) = Inr ''$1.00''
   \<and> CHR ''$'' \<notin> set ''- **2025-02-01** [Withdrawal] Withdraw 1,000.00 USDC (ID: 8)''
   \<and> tx_line example_runtime example_free_deposit
     = Inr ''- **2025-02-02** [Deposit] Deposit 25.0000 ADA (ID: 9)''
   \<and> dict_get example_free_deposit ''toPriceUsd'' JNull = Inr (JInt 0)
   \<and> fmt_usd (JInt 0) = Inr ''$0.000000''
   \<and> CHR ''$'' \<notin> set ''- **2025-02-02** [Deposit] Deposit 25.0000 ADA (ID: 9)''"
  by (simp add: tx_line_def tx_desc_def example_withdrawal_def example_free_deposit_def
        py_eval number_eval)

section \<open>The structured output read back\<close>

subsection \<open>Strings\<close>
lemma hex_value_hex_digit_all: "\<forall>k \<in> {..< 16}. hex_value (hex_digit k) = Some k"
  by (simp add: lessThan_nat_numeral lessThan_Suc hex_value_def hex_digit_def)

lemma hex_value_hex_digit: "k < 16 \<Longrightarrow> hex_value (hex_digit k) = Some k"
  using hex_value_hex_digit_all by blast

lemma code_point_escape:
  "code_point CHR ''0'' CHR ''0'' (hex_digit (of_char c div 16)) (hex_digit (of_char c mod 16))
     = Some (of_char c)"
proof -
  have lt: "(of_char c :: nat) < 256" by (rule nat_of_char_less_256) 
  then have "(of_char c :: nat) div 16 < 16" by (intro less_mult_imp_div_less) simp
  then have a: "hex_value (hex_digit (of_char c div 16)) = Some (of_char c div 16)"
    by (rule hex_value_hex_digit)
  have b: "hex_value (hex_digit (of_char c mod 16)) = Some (of_char c mod 16)"
    by (rule hex_value_hex_digit) simp
  have z: "hex_value CHR ''0'' = Some 0" by (simp add: hex_value_def)
  show ?thesis by (simp add: code_point_def a b z)
qed

lemma scan_string_escape_char: "scan_string (escape_char c @ s) = cons_char c (scan_string s)"
proof -
  have lt: "(of_char c :: nat) < 256" by (rule nat_of_char_less_256)
  show ?thesis
    by (auto simp: escape_char_def unescape_def code_point_escape lt)
qed

lemma scan_string_quote: "scan_string (CHR 0x22 # rest) = Some ([], rest)"
  by simp

lemma scan_string_encode:
  "scan_string (concat (map escape_char s) @ CHR 0x22 # rest) = Some (s, rest)"
  by (induction s)
     (simp_all add: scan_string_escape_char scan_string_quote cons_char_def
        del: scan_string.simps(2))

subsection \<open>Integers\<close>

lemma digit_char_all:
  "\<forall>d \<in> {..< 10}. digit_value (digit_char d) = d \<and> (digit_char d = CHR ''0'' \<longleftrightarrow> d = 0)
      \<and> digit_char d \<noteq> CHR ''-''"
  by (simp add: lessThan_nat_numeral lessThan_Suc digit_value_def digit_char_def)

lemma digit_value_digit_char: "d < 10 \<Longrightarrow> digit_value (digit_char d) = d"
  using digit_char_all by blast

lemma digit_char_zero: "d < 10 \<Longrightarrow> digit_char d = CHR ''0'' \<longleftrightarrow> d = 0"
  using digit_char_all by blast

lemma is_digit_not_minus: "is_digit c \<Longrightarrow> c \<noteq> CHR ''-''"
  by (auto simp: is_digit_def)

lemma str_nat_Cons: "\<exists>c cs. str_nat n = c # cs \<and> is_digit c \<and> (c = CHR ''0'' \<longrightarrow> n = 0)"
proof (induction n rule: str_nat.induct)
  case (1 n)
  show ?case
  proof (cases "n < 10")
    case True
    then show ?thesis by (simp add: str_nat_small is_digit_digit_char digit_char_zero)
  next
    case False
    then obtain c cs where c: "str_nat (n div 10) = c # cs" "is_digit c"
      "c = CHR ''0'' \<longrightarrow> n div 10 = 0"
      using 1 by auto
    from False have "n div 10 \<noteq> 0" by simp
    with c False show ?thesis by (simp add: str_nat_large)
  qed
qed

lemma nat_of_digits_snoc: "nat_of_digits (ds @ [c]) = 10 * nat_of_digits ds + digit_value c"
  by (simp add: nat_of_digits_def)

lemma nat_of_digits_str_nat: "nat_of_digits (str_nat n) = n"
proof (induction n rule: str_nat.induct)
  case (1 n)
  show ?case
  proof (cases "n < 10")
    case True
    then show ?thesis by (simp add: str_nat_small nat_of_digits_def digit_value_digit_char)
  next
    case False
    then have "nat_of_digits (str_nat (n div 10)) = n div 10" using 1 by simp
    with False show ?thesis
      by (simp add: str_nat_large nat_of_digits_snoc digit_value_digit_char)
  qed
qed

lemma takeWhile_all: "\<forall>c \<in> set cs. P c \<Longrightarrow> takeWhile P cs = cs"
  by (simp add: takeWhile_eq_all_conv)

lemma scan_integer_str_nat: "scan_integer (str_nat n) = str_nat n"
proof -
  obtain c cs where c: "str_nat n = c # cs" "is_digit c" "c = CHR ''0'' \<longrightarrow> n = 0"
    using str_nat_Cons by blast
  have "\<forall>c \<in> set (str_nat n). is_digit c" by (rule str_nat_digits)
  with c have t: "takeWhile is_digit cs = cs" by (simp add: takeWhile_all)
  show ?thesis
  proof (cases "c = CHR ''0''")
    case True
    with c have "n = 0" by simp
    then show ?thesis by (simp add: str_nat_small digit_char_def scan_integer_def)
  next
    case False
    with c t show ?thesis by (simp add: scan_integer_def)
  qed
qed

lemma scan_sign_str_nat: "scan_sign (str_nat n) = []"
proof -
  obtain c cs where c: "str_nat n = c # cs" "is_digit c"
    using str_nat_Cons by blast
  then show ?thesis by (simp add: scan_sign_def is_digit_not_minus)
qed

lemma int_of_literal_str_nat: "int_of_literal (str_nat n) = int n"
proof -
  obtain c cs where c: "str_nat n = c # cs" "is_digit c"
    using str_nat_Cons by blast
  have "nat_of_digits (c # cs) = n" using c nat_of_digits_str_nat [of n] by simp
  with c show ?thesis by (simp add: int_of_literal_def is_digit_not_minus)
qed

lemma scan_frac_Nil: "scan_frac [] = []"
  by (simp add: scan_frac_def)

lemma scan_exp_Nil: "scan_exp [] = []"
  by (simp add: scan_exp_def)

lemma scan_number_str_nat: "scan_number float_of (str_nat n) = Some (JInt (int n), [])"
  by (simp add: scan_number_def scan_sign_str_nat scan_integer_str_nat scan_frac_Nil
      scan_exp_Nil str_nat_nonempty int_of_literal_str_nat)

lemma scan_number_minus_str_nat:
  "scan_number float_of (CHR ''-'' # str_nat n) = Some (JInt (- int n), [])"
proof -
  have s: "scan_sign (CHR ''-'' # str_nat n) = ''-''" by (simp add: scan_sign_def)
  have i: "int_of_literal (CHR ''-'' # str_nat n) = - int n"
    by (simp add: int_of_literal_def nat_of_digits_str_nat)
  show ?thesis
    by (simp add: scan_number_def s scan_integer_str_nat scan_frac_Nil
      scan_exp_Nil str_nat_nonempty i)
qed

lemma scan_number_str_int: "scan_number float_of (str_int i) = Some (JInt i, [])"
  by (simp add: str_int_def scan_number_str_nat scan_number_minus_str_nat)

subsection \<open>A number before a delimiter\<close>

lemma value_end_cases:
  "value_end rest \<Longrightarrow> rest = [] \<or> (\<exists>c cs. rest = c # cs \<and> (c = CHR '','' \<or> c = CHR 0x0A))"
  by (cases rest) (simp_all add: value_end_def)

lemma takeWhile_digit_end:
  assumes "value_end rest"
  shows "takeWhile is_digit (s @ rest) = takeWhile is_digit s"
proof -
  have "takeWhile is_digit rest = []"
    using value_end_cases [OF assms] by (auto simp: is_digit_def)
  then show ?thesis by (induction s) simp_all
qed

lemma scan_sign_end: "value_end rest \<Longrightarrow> scan_sign (s @ rest) = scan_sign s"
  by (cases s; cases rest) (auto simp: scan_sign_def value_end_def)

lemma scan_integer_end: "value_end rest \<Longrightarrow> scan_integer (s @ rest) = scan_integer s"
  by (cases s; cases rest)
     (auto simp: scan_integer_def value_end_def is_digit_def takeWhile_digit_end)

lemma scan_frac_end: "value_end rest \<Longrightarrow> scan_frac (s @ rest) = scan_frac s"
  by (cases s; cases rest)
     (auto simp: scan_frac_def value_end_def takeWhile_digit_end)

lemma scan_exp_end:
  assumes "value_end rest"
  shows "scan_exp (s @ rest) = scan_exp s"
proof (cases s)
  case Nil
  with assms show ?thesis by (cases rest) (auto simp: scan_exp_def value_end_def)
next
  case (Cons c cs)
  note s = this
  show ?thesis
  proof (cases cs)
    case Nil
    have "takeWhile is_digit rest = []" using takeWhile_digit_end [OF assms, of "[]"] by simp
    with assms s Nil show ?thesis
      by (cases rest) (auto simp: scan_exp_def value_end_def)
  next
    case (Cons d ds)
    have "takeWhile is_digit (ds @ rest) = takeWhile is_digit ds"
      "takeWhile is_digit (d # ds @ rest) = takeWhile is_digit (d # ds)"
      using takeWhile_digit_end [OF assms, of ds] takeWhile_digit_end [OF assms, of "d # ds"]
      by simp_all
    with s Cons show ?thesis by (simp add: scan_exp_def)
  qed
qed

lemma length_scan_sign: "length (scan_sign s) \<le> length s"
  by (cases s) (simp_all add: scan_sign_def)

lemma length_scan_integer: "length (scan_integer s) \<le> length s"
  by (cases s) (simp_all add: scan_integer_def length_takeWhile_le)

lemma length_scan_frac: "length (scan_frac s) \<le> length s"
  by (cases s) (simp_all add: scan_frac_def length_takeWhile_le)

lemma length_scan_exp: "length (scan_exp s) \<le> length s"
proof (cases s)
  case Nil
  then show ?thesis by (simp add: scan_exp_def)
next
  case (Cons c cs)
  have "length (takeWhile is_digit cs) \<le> length cs" by (rule length_takeWhile_le)
  moreover have "\<And>d ds. cs = d # ds \<Longrightarrow> length (takeWhile is_digit ds) \<le> length ds"
    by (rule length_takeWhile_le)
  ultimately show ?thesis using Cons
    by (cases cs) (simp_all add: scan_exp_def del: takeWhile.simps)
qed

lemma drop_scan_append: "length p \<le> length s \<Longrightarrow> drop (length p) (s @ rest) = drop (length p) s @ rest"
  by simp

lemma scan_number_end:
  assumes "value_end rest"
  shows "scan_number float_of (s @ rest)
           = map_option (\<lambda>p. (fst p, snd p @ rest)) (scan_number float_of s)"
proof -
  define s1 where "s1 = drop (length (scan_sign s)) s"
  define s2 where "s2 = drop (length (scan_integer s1)) s1"
  define s3 where "s3 = drop (length (scan_frac s2)) s2"
  define s4 where "s4 = drop (length (scan_exp s3)) s3"
  have a: "scan_sign (s @ rest) = scan_sign s" by (rule scan_sign_end [OF assms])
  have d1: "drop (length (scan_sign s)) (s @ rest) = s1 @ rest"
    unfolding s1_def by (rule drop_scan_append [OF length_scan_sign])
  have b: "scan_integer (s1 @ rest) = scan_integer s1" by (rule scan_integer_end [OF assms])
  have d2: "drop (length (scan_integer s1)) (s1 @ rest) = s2 @ rest"
    unfolding s2_def by (rule drop_scan_append [OF length_scan_integer])
  have c: "scan_frac (s2 @ rest) = scan_frac s2" by (rule scan_frac_end [OF assms])
  have d3: "drop (length (scan_frac s2)) (s2 @ rest) = s3 @ rest"
    unfolding s3_def by (rule drop_scan_append [OF length_scan_frac])
  have d: "scan_exp (s3 @ rest) = scan_exp s3" by (rule scan_exp_end [OF assms])
  have d4: "drop (length (scan_exp s3)) (s3 @ rest) = s4 @ rest"
    unfolding s4_def by (rule drop_scan_append [OF length_scan_exp])
  have l: "scan_number float_of (s @ rest) =
     (if scan_integer s1 = [] then None
      else if scan_frac s2 = [] \<and> scan_exp s3 = []
        then Some (JInt (int_of_literal (scan_sign s @ scan_integer s1)), s4 @ rest)
        else Some (JFloat (float_of (scan_sign s @ scan_integer s1 @ scan_frac s2 @ scan_exp s3)),
                   s4 @ rest))"
    unfolding scan_number_def Let_def a d1 b d2 c d3 d d4 ..
  have r: "scan_number float_of s =
     (if scan_integer s1 = [] then None
      else if scan_frac s2 = [] \<and> scan_exp s3 = []
        then Some (JInt (int_of_literal (scan_sign s @ scan_integer s1)), s4)
        else Some (JFloat (float_of (scan_sign s @ scan_integer s1 @ scan_frac s2 @ scan_exp s3)),
                   s4))"
    unfolding scan_number_def Let_def s1_def s2_def s3_def s4_def ..
  show ?thesis unfolding l r by simp
qed

lemma scan_number_start:
  assumes "scan_number float_of s = Some (v, r)"
  shows "\<exists>c cs. s = c # cs \<and> (c = CHR ''-'' \<or> is_digit c)"
proof -
  have i: "scan_integer (drop (length (scan_sign s)) s) \<noteq> []"
    using assms by (auto simp: scan_number_def Let_def split: if_splits)
  show ?thesis
  proof (cases s)
    case Nil
    with i show ?thesis by (simp add: scan_integer_def)
  next
    case (Cons c cs)
    show ?thesis
    proof (cases "c = CHR ''-''")
      case True
      with Cons show ?thesis by simp
    next
      case False
      with Cons have "scan_sign s = []" by (simp add: scan_sign_def)
      with i Cons have "is_digit c"
        by (auto simp: scan_integer_def is_digit_def split: if_splits)
      with Cons show ?thesis by simp
    qed
  qed
qed

lemma parse_value_number:
  assumes "c = CHR ''-'' \<or> is_digit c" and "scan_number float_of (c # cs) = Some p"
  shows "parse_value float_of (Suc n) (c # cs) = Some p"
  using assms by (auto simp: is_digit_def)

text \<open>The three names of floats that are not finite, read back before a delimiter.\<close>

lemma parse_value_constants:
  "parse_value float_of (Suc n) (CHR ''N'' # CHR ''a'' # CHR ''N'' # rest)
     = Some (JFloat NaN, rest)"
  "parse_value float_of (Suc n)
     (CHR ''I'' # CHR ''n'' # CHR ''f'' # CHR ''i'' # CHR ''n'' # CHR ''i'' # CHR ''t'' # CHR ''y'' # rest)
     = Some (JFloat PosInf, rest)"
  "parse_value float_of (Suc n)
     (CHR ''-'' # CHR ''I'' # CHR ''n'' # CHR ''f'' # CHR ''i'' # CHR ''n'' # CHR ''i'' # CHR ''t''
        # CHR ''y'' # rest)
     = Some (JFloat NegInf, rest)"
  by (simp_all add: scan_number_def scan_sign_def scan_integer_def is_digit_def Let_def)

subsection \<open>Values\<close>

lemma skip_ws_newline_indent:
  "\<not> is_json_ws c \<Longrightarrow> skip_ws (newline_indent level @ c # cs) = c # cs"
  by (simp add: skip_ws_def newline_indent_def newline_def is_json_ws_def dropWhile_append3)

lemma skip_ws_start: "\<not> is_json_ws c \<Longrightarrow> skip_ws (c # cs) = c # cs"
  by (simp add: skip_ws_def)

lemma skip_ws_space: "skip_ws (CHR '' '' # cs) = skip_ws cs"
  by (simp add: skip_ws_def is_json_ws_def)

lemma value_end_comma: "value_end (CHR '','' # cs)"
  by (simp add: value_end_def)

lemma value_end_newline_indent: "value_end (newline_indent level @ cs)"
  by (simp add: value_end_def newline_indent_def newline_def)

lemma str_int_start: "\<exists>c cs. str_int i = c # cs \<and> (c = CHR ''-'' \<or> is_digit c)"
  using str_nat_Cons [of "nat i"] by (auto simp: str_int_def)

lemma json_encode_start:
  assumes "decodable float_of rt v"
  shows "\<exists>c cs. json_encode rt level v = c # cs \<and> \<not> is_json_ws c \<and> c \<noteq> CHR '']''"
proof (cases v)
  case (JInt i)
  obtain c cs where "str_int i = c # cs" "c = CHR ''-'' \<or> is_digit c"
    using str_int_start by blast
  with JInt show ?thesis by (auto simp: is_json_ws_def is_digit_def)
next
  case (JFloat f)
  show ?thesis
  proof (cases "f \<in> {NaN, PosInf, NegInf}")
    case True
    with JFloat show ?thesis by (auto simp: is_json_ws_def)
  next
    case False
    with assms JFloat have "scan_number float_of (repr rt (JFloat f)) = Some (JFloat f, [])"
      by simp
    then obtain c cs where "repr rt (JFloat f) = c # cs" "c = CHR ''-'' \<or> is_digit c"
      using scan_number_start by blast
    with JFloat False show ?thesis
      by (cases f) (auto simp: is_json_ws_def is_digit_def)
  qed
qed (simp_all add: is_json_ws_def encode_basestring_ascii_def)

lemma py_dict_fold:
  "distinct (map fst (d @ ps)) \<Longrightarrow> foldl (\<lambda>d p. dict_set (fst p) (snd p) d) d ps = d @ ps"
proof (induction ps arbitrary: d)
  case Nil
  show ?case by simp
next
  case (Cons p ps)
  have "fst p \<notin> fst ` set d" using Cons.prems by auto
  then have s: "dict_set (fst p) (snd p) d = d @ [p]"
    by (induction d) auto
  from Cons.prems have "distinct (map fst ((d @ [p]) @ ps))" by simp
  from Cons.IH [OF this] s show ?case by simp
qed

lemma py_dict_distinct: "distinct (map fst kvs) \<Longrightarrow> py_dict kvs = kvs"
  using py_dict_fold [of "[]" kvs] by (simp add: py_dict_def)

lemma str_join_Cons:
  "str_join sep (s # ss) = s @ (if ss = [] then [] else sep @ str_join sep ss)"
  by (cases ss) simp_all

lemma length_newline_indent: "0 < length (newline_indent level)"
  by (simp add: newline_indent_def newline_def)

lemma json_ws_simps:
  "\<not> is_json_ws CHR '',''" "\<not> is_json_ws CHR '']''" "\<not> is_json_ws CHR ''}''"
  "\<not> is_json_ws CHR '':''" "\<not> is_json_ws CHR 0x22"
  by (simp_all add: is_json_ws_def)

lemma parse_elements_encode:
  assumes ih: "\<And>x n rest. x \<in> set xs \<Longrightarrow> value_end rest
                 \<Longrightarrow> length (json_encode rt l x) \<le> n
                 \<Longrightarrow> parse_value float_of n (json_encode rt l x @ rest) = Some (x, rest)"
    and dec: "\<forall>x \<in> set xs. decodable float_of rt x"
    and ne: "xs \<noteq> []"
    and len: "length (str_join (CHR '','' # newline_indent l) (map (json_encode rt l) xs)) < m"
  shows "parse_elements float_of m
           (str_join (CHR '','' # newline_indent l) (map (json_encode rt l) xs)
              @ newline_indent l' @ CHR '']'' # rest) = Some (xs, rest)"
  using ih dec ne len
proof (induction xs arbitrary: m)
  case Nil
  then show ?case by simp
next
  case (Cons x xs)
  let ?sep = "CHR '','' # newline_indent l"
  let ?tail = "newline_indent l' @ CHR '']'' # rest"
  obtain m' where m: "m = Suc m'" using Cons.prems(4) by (cases m) simp_all
  show ?case
  proof (cases "xs = []")
    case True
    have "length (json_encode rt l x) \<le> m'" using Cons.prems(4) True m by simp
    then have v: "parse_value float_of m' (json_encode rt l x @ ?tail) = Some (x, ?tail)"
      by (intro Cons.prems(1)) (simp_all add: value_end_newline_indent)
    have w: "skip_ws ?tail = CHR '']'' # rest"
      by (rule skip_ws_newline_indent) (rule json_ws_simps)
    show ?thesis using True by (simp add: m v w)
  next
    case False
    let ?J = "str_join ?sep (map (json_encode rt l) xs)"
    let ?R = "CHR '','' # newline_indent l @ ?J @ ?tail"
    have j: "str_join ?sep (map (json_encode rt l) (x # xs)) @ ?tail = json_encode rt l x @ ?R"
      using False by (simp add: str_join_Cons)
    have jl: "length (str_join ?sep (map (json_encode rt l) (x # xs)))
                = length (json_encode rt l x) + Suc (length (newline_indent l) + length ?J)"
      using False by (simp add: str_join_Cons)
    have "length (json_encode rt l x) \<le> m'" using Cons.prems(4) m unfolding jl by simp
    then have v: "parse_value float_of m' (json_encode rt l x @ ?R) = Some (x, ?R)"
      by (intro Cons.prems(1)) (simp_all add: value_end_comma)
    have w: "skip_ws ?R = ?R"
      by (simp add: skip_ws_start json_ws_simps)
    obtain y ys where ys: "xs = y # ys" using False by (cases xs) simp_all
    have "decodable float_of rt y" using Cons.prems(2) ys by simp
    then obtain c cs where c: "json_encode rt l y = c # cs" "\<not> is_json_ws c"
      using json_encode_start by blast
    then have "?J @ ?tail = c # (cs @ (if ys = [] then [] else ?sep @ str_join ?sep (map (json_encode rt l) ys)) @ ?tail)"
      unfolding ys by (simp add: str_join_Cons)
    then have w2: "skip_ws (newline_indent l @ ?J @ ?tail) = ?J @ ?tail"
      using skip_ws_newline_indent [OF c(2)] by simp
    have "length ?J < m'" using Cons.prems(4) m unfolding jl by simp
    then have e: "parse_elements float_of m' (?J @ ?tail) = Some (xs, rest)"
      using Cons.prems(1,2) False by (intro Cons.IH) simp_all
    show ?thesis unfolding j m by (simp add: v w w2 e)
  qed
qed

lemma parse_members_encode:
  assumes ih: "\<And>kv n rest. kv \<in> set kvs \<Longrightarrow> value_end rest
                 \<Longrightarrow> length (json_encode rt l (snd kv)) \<le> n
                 \<Longrightarrow> parse_value float_of n (json_encode rt l (snd kv) @ rest)
                       = Some (snd kv, rest)"
    and dec: "\<forall>kv \<in> set kvs. decodable float_of rt (snd kv)"
    and ne: "kvs \<noteq> []"
    and len: "length (str_join (CHR '','' # newline_indent l)
                (map (\<lambda>kv. encode_basestring_ascii (fst kv) @ CHR '':'' # CHR '' ''
                            # json_encode rt l (snd kv)) kvs)) < m"
  shows "parse_members float_of m
           (str_join (CHR '','' # newline_indent l)
              (map (\<lambda>kv. encode_basestring_ascii (fst kv) @ CHR '':'' # CHR '' ''
                          # json_encode rt l (snd kv)) kvs)
              @ newline_indent l' @ CHR ''}'' # rest) = Some (kvs, rest)"
  using ih dec ne len
proof (induction kvs arbitrary: m)
  case Nil
  then show ?case by simp
next
  case (Cons kv kvs)
  let ?sep = "CHR '','' # newline_indent l"
  let ?M = "\<lambda>kv. encode_basestring_ascii (fst kv) @ CHR '':'' # CHR '' '' # json_encode rt l (snd kv)"
  let ?tail = "newline_indent l' @ CHR ''}'' # rest"
  let ?key = "concat (map escape_char (fst kv))"
  let ?E = "json_encode rt l (snd kv)"
  obtain m' where m: "m = Suc m'" using Cons.prems(4) by (cases m) simp_all
  have "decodable float_of rt (snd kv)" using Cons.prems(2) by simp
  then obtain c cs where c: "?E = c # cs" "\<not> is_json_ws c"
    using json_encode_start by blast
  have sp: "skip_ws (CHR '' '' # ?E @ r) = ?E @ r" for r
    using c by (simp add: skip_ws_space skip_ws_start)
  have col: "skip_ws (CHR '':'' # r) = CHR '':'' # r" for r
    by (simp add: skip_ws_start json_ws_simps)
  have key: "scan_string (?key @ CHR 0x22 # r) = Some (fst kv, r)" for r
    by (rule scan_string_encode)
  show ?case
  proof (cases "kvs = []")
    case True
    have j: "str_join ?sep (map ?M (kv # kvs)) @ ?tail
               = CHR 0x22 # ?key @ CHR 0x22 # CHR '':'' # CHR '' '' # ?E @ ?tail"
      using True by (simp add: encode_basestring_ascii_def)
    have "length ?E \<le> m'" using Cons.prems(4) True m by simp
    then have v: "parse_value float_of m' (?E @ ?tail) = Some (snd kv, ?tail)"
      by (intro Cons.prems(1)) (simp_all add: value_end_newline_indent)
    have w: "skip_ws ?tail = CHR ''}'' # rest"
      by (rule skip_ws_newline_indent) (rule json_ws_simps)
    show ?thesis unfolding j m using True by (simp add: key col sp v w)
  next
    case False
    let ?J = "str_join ?sep (map ?M kvs)"
    let ?R = "CHR '','' # newline_indent l @ ?J @ ?tail"
    have j: "str_join ?sep (map ?M (kv # kvs)) @ ?tail
               = CHR 0x22 # ?key @ CHR 0x22 # CHR '':'' # CHR '' '' # ?E @ ?R"
      using False by (simp add: str_join_Cons encode_basestring_ascii_def)
    have jl: "length (str_join ?sep (map ?M (kv # kvs)))
                = length (encode_basestring_ascii (fst kv)) + 2 + length ?E
                  + Suc (length (newline_indent l) + length ?J)"
      using False by (simp add: str_join_Cons)
    have "length ?E \<le> m'" using Cons.prems(4) m unfolding jl by simp
    then have v: "parse_value float_of m' (?E @ ?R) = Some (snd kv, ?R)"
      by (intro Cons.prems(1)) (simp_all add: value_end_comma)
    have w: "skip_ws ?R = ?R"
      by (simp add: skip_ws_start json_ws_simps)
    obtain y ys where ys: "kvs = y # ys" using False by (cases kvs) simp_all
    have "\<exists>t. ?J @ ?tail = CHR 0x22 # t"
      unfolding ys by (simp add: str_join_Cons encode_basestring_ascii_def)
    then obtain t where t: "?J @ ?tail = CHR 0x22 # t" ..
    have w2: "skip_ws (newline_indent l @ ?J @ ?tail) = ?J @ ?tail"
      unfolding t by (rule skip_ws_newline_indent) (rule json_ws_simps)
    have "length ?J < m'" using Cons.prems(4) m unfolding jl by simp
    then have e: "parse_members float_of m' (?J @ ?tail) = Some (kvs, rest)"
      using Cons.prems(1,2) False by (intro Cons.IH) simp_all
    show ?thesis unfolding j m by (simp add: key col sp v w w2 e)
  qed
qed

lemma parse_value_encode:
  "decodable float_of rt v \<Longrightarrow> value_end rest \<Longrightarrow> length (json_encode rt l v) \<le> n
     \<Longrightarrow> parse_value float_of n (json_encode rt l v @ rest) = Some (v, rest)"
proof (induction v arbitrary: l rest n)
  case JNull
  then obtain n' where "n = Suc n'" by (cases n) simp_all
  then show ?case by simp
next
  case (JBool b)
  then obtain n' where "n = Suc n'" by (cases n) (simp_all split: if_splits)
  then show ?case by simp
next
  case (JInt i)
  obtain c cs where c: "str_int i = c # cs" "c = CHR ''-'' \<or> is_digit c"
    using str_int_start by blast
  obtain n' where n: "n = Suc n'" using JInt.prems(3) c by (cases n) simp_all
  have "scan_number float_of (str_int i @ rest) = Some (JInt i, rest)"
    by (simp add: scan_number_end [OF JInt.prems(2)] scan_number_str_int)
  then have "parse_value float_of n (str_int i @ rest) = Some (JInt i, rest)"
    unfolding n using c parse_value_number [of c float_of "cs @ rest" "(JInt i, rest)" n'] by simp
  then show ?case by simp
next
  case (JFloat f)
  show ?case
  proof (cases "f \<in> {NaN, PosInf, NegInf}")
    case True
    with JFloat.prems(3) obtain n' where n: "n = Suc n'" by (cases n) auto
    from True show ?thesis unfolding n by (auto simp: parse_value_constants simp del: parse_value.simps)
  next
    case False
    then have enc: "json_encode rt l (JFloat f) = repr rt (JFloat f)" by (cases f) simp_all
    let ?s = "repr rt (JFloat f)"
    have s: "scan_number float_of ?s = Some (JFloat f, [])" using JFloat.prems(1) False by simp
    then obtain c cs where c: "?s = c # cs" "c = CHR ''-'' \<or> is_digit c"
      using scan_number_start by blast
    obtain n' where n: "n = Suc n'" using JFloat.prems(3) c enc by (cases n) simp_all
    have "scan_number float_of (?s @ rest) = Some (JFloat f, rest)"
      by (simp add: scan_number_end [OF JFloat.prems(2)] s)
    then have "parse_value float_of n (?s @ rest) = Some (JFloat f, rest)"
      unfolding n using c parse_value_number [of c float_of "cs @ rest" "(JFloat f, rest)" n']
      by simp
    then show ?thesis by (simp only: enc)
  qed
next
  case (JStr s)
  then obtain n' where n: "n = Suc n'" by (cases n) (simp_all add: encode_basestring_ascii_def)
  show ?case unfolding n by (simp add: encode_basestring_ascii_def scan_string_encode)
next
  case (JArr xs)
  show ?case
  proof (cases "xs = []")
    case True
    with JArr.prems obtain n' where n: "n = Suc n'" by (cases n) simp_all
    show ?thesis unfolding n using True by (simp add: skip_ws_start json_ws_simps)
  next
    case False
    let ?J = "str_join (CHR '','' # newline_indent (Suc l)) (map (json_encode rt (Suc l)) xs)"
    let ?tail = "newline_indent l @ CHR '']'' # rest"
    have enc: "json_encode rt l (JArr xs) @ rest = CHR ''['' # newline_indent (Suc l) @ ?J @ ?tail"
      using False by simp
    have encl: "length (json_encode rt l (JArr xs))
                  = Suc (length (newline_indent (Suc l)) + length ?J
                         + length (newline_indent l) + 1)"
      using False by simp
    obtain n' where n: "n = Suc n'" using JArr.prems(3) unfolding encl by (cases n) simp_all
    have len: "length ?J < n'" using JArr.prems(3) unfolding encl n by simp
    have dec: "\<forall>x \<in> set xs. decodable float_of rt x" using JArr.prems(1) by simp
    obtain y ys where ys: "xs = y # ys" using False by (cases xs) simp_all
    have "decodable float_of rt y" using dec ys by simp
    then obtain c cs where c: "json_encode rt (Suc l) y = c # cs" "\<not> is_json_ws c"
      "c \<noteq> CHR '']''"
      using json_encode_start by blast
    then have "\<exists>t. ?J @ ?tail = c # t" unfolding ys by (simp add: str_join_Cons)
    then obtain t where t: "?J @ ?tail = c # t" ..
    have w: "skip_ws (newline_indent (Suc l) @ ?J @ ?tail) = c # t"
      unfolding t by (rule skip_ws_newline_indent) (rule c(2))
    have e: "parse_elements float_of n' (?J @ ?tail) = Some (xs, rest)"
    proof (rule parse_elements_encode [OF _ dec False len])
      fix x k r
      assume "x \<in> set xs" "value_end r" "length (json_encode rt (Suc l) x) \<le> k"
      then show "parse_value float_of k (json_encode rt (Suc l) x @ r) = Some (x, r)"
        using dec by (intro JArr.IH) simp_all
    qed
    from e have e': "parse_elements float_of n' (c # t) = Some (xs, rest)" unfolding t .
    show ?thesis unfolding enc n by (simp add: w c(3) e')
  qed
next
  case (JObj kvs)
  show ?case
  proof (cases "kvs = []")
    case True
    with JObj.prems obtain n' where n: "n = Suc n'" by (cases n) simp_all
    show ?thesis unfolding n using True by (simp add: skip_ws_start json_ws_simps)
  next
    case False
    let ?J = "str_join (CHR '','' # newline_indent (Suc l))
                (map (\<lambda>kv. encode_basestring_ascii (fst kv) @ CHR '':'' # CHR '' ''
                            # json_encode rt (Suc l) (snd kv)) kvs)"
    let ?tail = "newline_indent l @ CHR ''}'' # rest"
    have enc: "json_encode rt l (JObj kvs) @ rest = CHR ''{'' # newline_indent (Suc l) @ ?J @ ?tail"
      using False by simp
    have encl: "length (json_encode rt l (JObj kvs))
                  = Suc (length (newline_indent (Suc l)) + length ?J
                         + length (newline_indent l) + 1)"
      using False by simp
    obtain n' where n: "n = Suc n'" using JObj.prems(3) unfolding encl by (cases n) simp_all
    have len: "length ?J < n'" using JObj.prems(3) unfolding encl n by simp
    have dec: "\<forall>kv \<in> set kvs. decodable float_of rt (snd kv)" using JObj.prems(1) by simp
    have dist: "distinct (map fst kvs)" using JObj.prems(1) by simp
    obtain y ys where ys: "kvs = y # ys" using False by (cases kvs) simp_all
    have "\<exists>t. ?J @ ?tail = CHR 0x22 # t"
      unfolding ys by (simp add: str_join_Cons encode_basestring_ascii_def)
    then obtain t where t: "?J @ ?tail = CHR 0x22 # t" ..
    have w: "skip_ws (newline_indent (Suc l) @ ?J @ ?tail) = CHR 0x22 # t"
      unfolding t by (rule skip_ws_newline_indent) (rule json_ws_simps)
    have e: "parse_members float_of n' (?J @ ?tail) = Some (kvs, rest)"
    proof (rule parse_members_encode [OF _ dec False len])
      fix kv k r
      assume "kv \<in> set kvs" "value_end r" "length (json_encode rt (Suc l) (snd kv)) \<le> k"
      then show "parse_value float_of k (json_encode rt (Suc l) (snd kv) @ r) = Some (snd kv, r)"
        using dec by (intro JObj.IH [of kv]) (simp_all add: snds.intros)
    qed
    from e have e': "parse_members float_of n' (CHR 0x22 # t) = Some (kvs, rest)"
      unfolding t .
    show ?thesis unfolding enc n by (simp add: w e' py_dict_distinct [OF dist])
  qed
qed

lemma json_loads_json_dumps:
  assumes "decodable float_of rt v"
  shows "json_loads float_of (json_dumps rt v) = Some v"
proof -
  obtain c cs where c: "json_encode rt 0 v = c # cs" "\<not> is_json_ws c"
    using json_encode_start [OF assms] by blast
  have w: "skip_ws (json_encode rt 0 v) = json_encode rt 0 v"
    unfolding c by (rule skip_ws_start) (rule c(2))
  have "parse_value float_of (Suc (length (json_encode rt 0 v))) (json_encode rt 0 v @ [])
          = Some (v, [])"
    by (rule parse_value_encode [OF assms]) (simp_all add: value_end_def)
  then have p: "parse_value float_of (Suc (length (json_dumps rt v))) (skip_ws (json_dumps rt v))
                  = Some (v, [])"
    unfolding json_dumps_def w by (simp only: append_Nil2)
  show ?thesis unfolding json_loads_def p by (simp add: skip_ws_def)
qed

subsection \<open>The tools in structured mode\<close>

lemma structured_output:
  assumes "tool_response_format c = Some JSON"
  shows "call_tool rt (\<lambda>_. Inr data) c = json_dumps rt data"
  using assms
  by (cases c)
     (simp_all add: portfolio_get_holdings_def portfolio_get_holdings_try_def
        portfolio_get_history_def portfolio_get_history_try_def
        portfolio_list_portfolios_def portfolio_list_portfolios_try_def
        portfolio_list_transactions_def portfolio_list_transactions_try_def
        portfolio_get_cashflow_def portfolio_get_cashflow_try_def
        portfolio_get_tax_report_def portfolio_get_tax_report_try_def
        try_except_def then_do_def api_get_def Let_def)

text \<open>
  Claim C9. For each of the six tools whose input has an output mode, called in the
  structured mode, and every payload \<open>data\<close> that the backend answers with: the tool returns
  \<^verbatim>\<open>json.dumps(data, indent=2)\<close>, and \<^verbatim>\<open>json.loads\<close> of the returned string is \<open>data\<close> again.
  The payload is a decoded value of Python: the keys of each of its dicts are distinct and
  each of its floats is read back from its \<open>repr\<close>, which is what \<open>decodable\<close> says.
\<close>

theorem structured_output_round_trip:
  assumes "tool_response_format c = Some JSON"
    and "decodable float_of rt data"
  shows "call_tool rt (\<lambda>_. Inr data) c = json_dumps rt data
         \<and> json_loads float_of (call_tool rt (\<lambda>_. Inr data) c) = Some data"
  using assms by (simp add: structured_output json_loads_json_dumps)

text \<open>
  The transaction list in structured mode, on a payload with a dict, lists, a float, a
  negative integer, \<^verbatim>\<open>None\<close>, a truth value and a string with characters that are escaped.
\<close>

theorem structured_output_round_trip_witness:
  "json_loads half_float_of
     (call_tool half_runtime (\<lambda>_. Inr example_payload)
        (Call_list_transactions \<lparr>ListTransactionsInput.portfolio_id = None,
                                  response_format = JSON\<rparr>))
     = Some example_payload"
proof -
  let ?c = "Call_list_transactions \<lparr>ListTransactionsInput.portfolio_id = None,
                                     response_format = JSON\<rparr>"
  have m: "tool_response_format ?c = Some JSON" by simp
  have s: "scan_number half_float_of ''0.5'' = Some (JFloat (Finite 0.5), [])"
    by (simp add: scan_number_def scan_sign_def scan_integer_def scan_frac_def scan_exp_def
        is_digit_def half_float_of_def Let_def)
  have d: "decodable half_float_of half_runtime example_payload"
    by (simp add: example_payload_def example_tx_def half_runtime_def s)
  from structured_output_round_trip [OF m d] show ?thesis by (rule conjunct2)
qed


end
